theory Spec2Isabelle
  imports Main "HOL-Library.Word"
begin

unbundle bit_operations_syntax

section \<open>Compact byte code: the opcode lists of byte-code.h\<close>

text \<open>
  The header builds both opcode enumerations from X-macro lists. Every list line is one
  macro call; \<open>CBC_OPCODE (name, flags, stack)\<close> is the primitive one and the other
  macros expand into several \<open>CBC_OPCODE\<close> calls. The enumerator of an opcode is its
  position in the expanded list.
\<close>

type_synonym cbc_entry = "string \<times> 8 word \<times> int"

datatype cbc_macro =
    CBC_OPCODE string "8 word" int
  | CBC_FORWARD_BRANCH string int
  | CBC_BACKWARD_BRANCH string int
  | CBC_UNARY_OPERATION string
  | CBC_BINARY_OPERATION string
  | CBC_UNARY_LVALUE_OPERATION string

definition CBC_NO_FLAG :: "8 word" where "CBC_NO_FLAG = 0x00"
definition CBC_HAS_LITERAL_ARG :: "8 word" where "CBC_HAS_LITERAL_ARG = 0x01"
definition CBC_HAS_LITERAL_ARG2 :: "8 word" where "CBC_HAS_LITERAL_ARG2 = 0x02"
definition CBC_HAS_BYTE_ARG :: "8 word" where "CBC_HAS_BYTE_ARG = 0x04"
definition CBC_HAS_BRANCH_ARG :: "8 word" where "CBC_HAS_BRANCH_ARG = 0x08"
definition CBC_FORWARD_BRANCH_ARG :: "8 word" where "CBC_FORWARD_BRANCH_ARG = 0x10"
definition CBC_POP_STACK_BYTE_ARG :: "8 word" where "CBC_POP_STACK_BYTE_ARG = 0x10"

definition CBC_HAS_POP_STACK_BYTE_ARG :: "8 word" where
  "CBC_HAS_POP_STACK_BYTE_ARG = (CBC_HAS_BYTE_ARG OR CBC_POP_STACK_BYTE_ARG)"

definition PARSER_FOR_IN_CONTEXT_STACK_ALLOCATION :: int where
  "PARSER_FOR_IN_CONTEXT_STACK_ALLOCATION = 3"
definition PARSER_WITH_CONTEXT_STACK_ALLOCATION :: int where
  "PARSER_WITH_CONTEXT_STACK_ALLOCATION = 1"
definition PARSER_SUPER_CLASS_CONTEXT_STACK_ALLOCATION :: int where
  "PARSER_SUPER_CLASS_CONTEXT_STACK_ALLOCATION = 1"
definition PARSER_TRY_CONTEXT_STACK_ALLOCATION :: int where
  "PARSER_TRY_CONTEXT_STACK_ALLOCATION = 3"

definition CBC_PUSH_NUMBER_BYTE_RANGE_END :: int where
  "CBC_PUSH_NUMBER_BYTE_RANGE_END = 256"

text \<open>The macro bodies, with \<open>name ## _SUFFIX\<close> written as string concatenation.\<close>

fun cbc_expand :: "cbc_macro \<Rightarrow> cbc_entry list" where
  "cbc_expand (CBC_OPCODE name flags stack) = [(name, flags, stack)]"
| "cbc_expand (CBC_FORWARD_BRANCH name stack) =
     [(name, CBC_HAS_BRANCH_ARG OR CBC_FORWARD_BRANCH_ARG, stack),
      (name @ ''_2'', CBC_HAS_BRANCH_ARG OR CBC_FORWARD_BRANCH_ARG, stack),
      (name @ ''_3'', CBC_HAS_BRANCH_ARG OR CBC_FORWARD_BRANCH_ARG, stack)]"
| "cbc_expand (CBC_BACKWARD_BRANCH name stack) =
     [(name, CBC_HAS_BRANCH_ARG, stack),
      (name @ ''_2'', CBC_HAS_BRANCH_ARG, stack),
      (name @ ''_3'', CBC_HAS_BRANCH_ARG, stack)]"
| "cbc_expand (CBC_UNARY_OPERATION name) =
     [(name, CBC_NO_FLAG, 0),
      (name @ ''_LITERAL'', CBC_HAS_LITERAL_ARG, 1)]"
| "cbc_expand (CBC_BINARY_OPERATION name) =
     [(name, CBC_NO_FLAG, -1),
      (name @ ''_RIGHT_LITERAL'', CBC_HAS_LITERAL_ARG, 0),
      (name @ ''_TWO_LITERALS'', CBC_HAS_LITERAL_ARG OR CBC_HAS_LITERAL_ARG2, 1)]"
| "cbc_expand (CBC_UNARY_LVALUE_OPERATION name) =
     [(name, CBC_NO_FLAG, -2),
      (name @ ''_PUSH_RESULT'', CBC_NO_FLAG, -1),
      (name @ ''_BLOCK'', CBC_NO_FLAG, -2),
      (name @ ''_IDENT'', CBC_HAS_LITERAL_ARG, 0),
      (name @ ''_IDENT_PUSH_RESULT'', CBC_HAS_LITERAL_ARG, 1),
      (name @ ''_IDENT_BLOCK'', CBC_HAS_LITERAL_ARG, 0)]"

definition CBC_OPCODE_LIST :: "cbc_macro list" where
  "CBC_OPCODE_LIST =
    [CBC_OPCODE ''CBC_EXT_OPCODE'' CBC_NO_FLAG 0,
     CBC_FORWARD_BRANCH ''CBC_JUMP_FORWARD'' 0,
     CBC_OPCODE ''CBC_POP'' CBC_NO_FLAG (-1),
     CBC_BACKWARD_BRANCH ''CBC_JUMP_BACKWARD'' 0,
     CBC_OPCODE ''CBC_POP_BLOCK'' CBC_NO_FLAG (-1),
     CBC_FORWARD_BRANCH ''CBC_BRANCH_IF_TRUE_FORWARD'' (-1),
     CBC_OPCODE ''CBC_THROW'' CBC_NO_FLAG (-1),
     CBC_BACKWARD_BRANCH ''CBC_BRANCH_IF_TRUE_BACKWARD'' (-1),
     CBC_OPCODE ''CBC_CONTEXT_END'' CBC_NO_FLAG 0,
     CBC_FORWARD_BRANCH ''CBC_BRANCH_IF_FALSE_FORWARD'' (-1),
     CBC_OPCODE ''CBC_CREATE_OBJECT'' CBC_NO_FLAG 1,
     CBC_BACKWARD_BRANCH ''CBC_BRANCH_IF_FALSE_BACKWARD'' (-1),
     CBC_OPCODE ''CBC_SET_PROPERTY'' CBC_HAS_LITERAL_ARG (-1),
     CBC_FORWARD_BRANCH ''CBC_JUMP_FORWARD_EXIT_CONTEXT'' 0,
     CBC_OPCODE ''CBC_CREATE_ARRAY'' CBC_NO_FLAG 1,
     CBC_FORWARD_BRANCH ''CBC_BRANCH_IF_LOGICAL_TRUE'' (-1),
     CBC_OPCODE ''CBC_ARRAY_APPEND'' CBC_HAS_POP_STACK_BYTE_ARG 0,
     CBC_FORWARD_BRANCH ''CBC_BRANCH_IF_LOGICAL_FALSE'' (-1),
     CBC_OPCODE ''CBC_PUSH_ELISION'' CBC_NO_FLAG 1,
     CBC_FORWARD_BRANCH ''CBC_BRANCH_IF_STRICT_EQUAL'' (-1),
     CBC_OPCODE ''CBC_PUSH_LITERAL'' CBC_HAS_LITERAL_ARG 1,
     CBC_OPCODE ''CBC_PUSH_TWO_LITERALS'' (CBC_HAS_LITERAL_ARG OR CBC_HAS_LITERAL_ARG2) 2,
     CBC_OPCODE ''CBC_PUSH_THREE_LITERALS'' CBC_HAS_LITERAL_ARG2 3,
     CBC_OPCODE ''CBC_PUSH_UNDEFINED'' CBC_NO_FLAG 1,
     CBC_OPCODE ''CBC_PUSH_TRUE'' CBC_NO_FLAG 1,
     CBC_OPCODE ''CBC_PUSH_FALSE'' CBC_NO_FLAG 1,
     CBC_OPCODE ''CBC_PUSH_NULL'' CBC_NO_FLAG 1,
     CBC_OPCODE ''CBC_PUSH_THIS'' CBC_NO_FLAG 1,
     CBC_OPCODE ''CBC_PUSH_THIS_LITERAL'' CBC_HAS_LITERAL_ARG 2,
     CBC_OPCODE ''CBC_PUSH_NUMBER_0'' CBC_NO_FLAG 1,
     CBC_OPCODE ''CBC_PUSH_NUMBER_POS_BYTE'' CBC_HAS_BYTE_ARG 1,
     CBC_OPCODE ''CBC_PUSH_NUMBER_NEG_BYTE'' CBC_HAS_BYTE_ARG 1,
     CBC_OPCODE ''CBC_PUSH_PROP'' CBC_NO_FLAG (-1),
     CBC_OPCODE ''CBC_PUSH_PROP_LITERAL'' CBC_HAS_LITERAL_ARG 0,
     CBC_OPCODE ''CBC_PUSH_PROP_LITERAL_LITERAL'' (CBC_HAS_LITERAL_ARG OR CBC_HAS_LITERAL_ARG2) 1,
     CBC_OPCODE ''CBC_PUSH_PROP_THIS_LITERAL'' CBC_HAS_LITERAL_ARG 1,
     CBC_OPCODE ''CBC_PUSH_IDENT_REFERENCE'' CBC_HAS_LITERAL_ARG 3,
     CBC_OPCODE ''CBC_PUSH_PROP_REFERENCE'' CBC_NO_FLAG 1,
     CBC_OPCODE ''CBC_PUSH_PROP_LITERAL_REFERENCE'' CBC_HAS_LITERAL_ARG 2,
     CBC_OPCODE ''CBC_PUSH_PROP_LITERAL_LITERAL_REFERENCE'' (CBC_HAS_LITERAL_ARG OR CBC_HAS_LITERAL_ARG2) 3,
     CBC_OPCODE ''CBC_PUSH_PROP_THIS_LITERAL_REFERENCE'' CBC_HAS_LITERAL_ARG 3,
     CBC_OPCODE ''CBC_NEW'' CBC_HAS_POP_STACK_BYTE_ARG 0,
     CBC_OPCODE ''CBC_NEW0'' CBC_NO_FLAG 0,
     CBC_OPCODE ''CBC_NEW1'' CBC_NO_FLAG (-1),
     CBC_OPCODE ''CBC_EVAL'' CBC_NO_FLAG 0,
     CBC_OPCODE ''CBC_DEFINE_VARS'' CBC_HAS_LITERAL_ARG 0,
     CBC_OPCODE ''CBC_INITIALIZE_VAR'' (CBC_HAS_LITERAL_ARG OR CBC_HAS_LITERAL_ARG2) 0,
     CBC_OPCODE ''CBC_INITIALIZE_VARS'' (CBC_HAS_LITERAL_ARG OR CBC_HAS_LITERAL_ARG2) 0,
     CBC_OPCODE ''CBC_RETURN'' CBC_NO_FLAG (-1),
     CBC_OPCODE ''CBC_RETURN_WITH_BLOCK'' CBC_NO_FLAG 0,
     CBC_OPCODE ''CBC_RETURN_WITH_LITERAL'' CBC_HAS_LITERAL_ARG 0,
     CBC_OPCODE ''CBC_SET_LITERAL_PROPERTY'' (CBC_HAS_LITERAL_ARG OR CBC_HAS_LITERAL_ARG2) 0,
     CBC_UNARY_OPERATION ''CBC_PLUS'',
     CBC_UNARY_OPERATION ''CBC_NEGATE'',
     CBC_UNARY_OPERATION ''CBC_LOGICAL_NOT'',
     CBC_UNARY_OPERATION ''CBC_BIT_NOT'',
     CBC_UNARY_OPERATION ''CBC_VOID'',
     CBC_OPCODE ''CBC_TYPEOF'' CBC_NO_FLAG 0,
     CBC_OPCODE ''CBC_TYPEOF_IDENT'' CBC_HAS_LITERAL_ARG 1,
     CBC_BINARY_OPERATION ''CBC_BIT_OR'',
     CBC_BINARY_OPERATION ''CBC_BIT_XOR'',
     CBC_BINARY_OPERATION ''CBC_BIT_AND'',
     CBC_BINARY_OPERATION ''CBC_EQUAL'',
     CBC_BINARY_OPERATION ''CBC_NOT_EQUAL'',
     CBC_BINARY_OPERATION ''CBC_STRICT_EQUAL'',
     CBC_BINARY_OPERATION ''CBC_STRICT_NOT_EQUAL'',
     CBC_BINARY_OPERATION ''CBC_LESS'',
     CBC_BINARY_OPERATION ''CBC_GREATER'',
     CBC_BINARY_OPERATION ''CBC_LESS_EQUAL'',
     CBC_BINARY_OPERATION ''CBC_GREATER_EQUAL'',
     CBC_BINARY_OPERATION ''CBC_IN'',
     CBC_BINARY_OPERATION ''CBC_INSTANCEOF'',
     CBC_BINARY_OPERATION ''CBC_LEFT_SHIFT'',
     CBC_BINARY_OPERATION ''CBC_RIGHT_SHIFT'',
     CBC_BINARY_OPERATION ''CBC_UNS_RIGHT_SHIFT'',
     CBC_BINARY_OPERATION ''CBC_ADD'',
     CBC_BINARY_OPERATION ''CBC_SUBTRACT'',
     CBC_BINARY_OPERATION ''CBC_MULTIPLY'',
     CBC_BINARY_OPERATION ''CBC_DIVIDE'',
     CBC_BINARY_OPERATION ''CBC_MODULO'',
     CBC_OPCODE ''CBC_DELETE_PUSH_RESULT'' CBC_NO_FLAG (-1),
     CBC_OPCODE ''CBC_DELETE_IDENT_PUSH_RESULT'' CBC_HAS_LITERAL_ARG 1,
     CBC_UNARY_LVALUE_OPERATION ''CBC_PRE_INCR'',
     CBC_UNARY_LVALUE_OPERATION ''CBC_PRE_DECR'',
     CBC_UNARY_LVALUE_OPERATION ''CBC_POST_INCR'',
     CBC_UNARY_LVALUE_OPERATION ''CBC_POST_DECR'',
     CBC_OPCODE ''CBC_CALL'' CBC_HAS_POP_STACK_BYTE_ARG (-1),
     CBC_OPCODE ''CBC_CALL_PUSH_RESULT'' CBC_HAS_POP_STACK_BYTE_ARG 0,
     CBC_OPCODE ''CBC_CALL_BLOCK'' CBC_HAS_POP_STACK_BYTE_ARG (-1),
     CBC_OPCODE ''CBC_CALL_PROP'' CBC_HAS_POP_STACK_BYTE_ARG (-3),
     CBC_OPCODE ''CBC_CALL_PROP_PUSH_RESULT'' CBC_HAS_POP_STACK_BYTE_ARG (-2),
     CBC_OPCODE ''CBC_CALL_PROP_BLOCK'' CBC_HAS_POP_STACK_BYTE_ARG (-3),
     CBC_OPCODE ''CBC_CALL0'' CBC_NO_FLAG (-1),
     CBC_OPCODE ''CBC_CALL0_PUSH_RESULT'' CBC_NO_FLAG 0,
     CBC_OPCODE ''CBC_CALL0_BLOCK'' CBC_NO_FLAG (-1),
     CBC_OPCODE ''CBC_CALL0_PROP'' CBC_NO_FLAG (-3),
     CBC_OPCODE ''CBC_CALL0_PROP_PUSH_RESULT'' CBC_NO_FLAG (-2),
     CBC_OPCODE ''CBC_CALL0_PROP_BLOCK'' CBC_NO_FLAG (-3),
     CBC_OPCODE ''CBC_CALL1'' CBC_NO_FLAG (-2),
     CBC_OPCODE ''CBC_CALL1_PUSH_RESULT'' CBC_NO_FLAG (-1),
     CBC_OPCODE ''CBC_CALL1_BLOCK'' CBC_NO_FLAG (-2),
     CBC_OPCODE ''CBC_CALL1_PROP'' CBC_NO_FLAG (-4),
     CBC_OPCODE ''CBC_CALL1_PROP_PUSH_RESULT'' CBC_NO_FLAG (-3),
     CBC_OPCODE ''CBC_CALL1_PROP_BLOCK'' CBC_NO_FLAG (-4),
     CBC_OPCODE ''CBC_CALL2'' CBC_NO_FLAG (-3),
     CBC_OPCODE ''CBC_CALL2_PUSH_RESULT'' CBC_NO_FLAG (-2),
     CBC_OPCODE ''CBC_CALL2_BLOCK'' CBC_NO_FLAG (-3),
     CBC_OPCODE ''CBC_CALL2_PROP'' CBC_NO_FLAG (-4),
     CBC_OPCODE ''CBC_CALL2_PROP_PUSH_RESULT'' CBC_NO_FLAG (-3),
     CBC_OPCODE ''CBC_CALL2_PROP_BLOCK'' CBC_NO_FLAG (-4),
     CBC_OPCODE ''CBC_ASSIGN'' CBC_NO_FLAG (-3),
     CBC_OPCODE ''CBC_ASSIGN_PUSH_RESULT'' CBC_NO_FLAG (-2),
     CBC_OPCODE ''CBC_ASSIGN_BLOCK'' CBC_NO_FLAG (-3),
     CBC_OPCODE ''CBC_ASSIGN_SET_IDENT'' CBC_HAS_LITERAL_ARG (-1),
     CBC_OPCODE ''CBC_ASSIGN_SET_IDENT_PUSH_RESULT'' CBC_HAS_LITERAL_ARG 0,
     CBC_OPCODE ''CBC_ASSIGN_SET_IDENT_BLOCK'' CBC_HAS_LITERAL_ARG (-1),
     CBC_OPCODE ''CBC_ASSIGN_LITERAL_SET_IDENT'' (CBC_HAS_LITERAL_ARG OR CBC_HAS_LITERAL_ARG2) 0,
     CBC_OPCODE ''CBC_ASSIGN_LITERAL_SET_IDENT_PUSH_RESULT'' (CBC_HAS_LITERAL_ARG OR CBC_HAS_LITERAL_ARG2) 1,
     CBC_OPCODE ''CBC_ASSIGN_LITERAL_SET_IDENT_BLOCK'' (CBC_HAS_LITERAL_ARG OR CBC_HAS_LITERAL_ARG2) 0,
     CBC_OPCODE ''CBC_ASSIGN_PROP_LITERAL'' CBC_HAS_LITERAL_ARG (-2),
     CBC_OPCODE ''CBC_ASSIGN_PROP_LITERAL_PUSH_RESULT'' CBC_HAS_LITERAL_ARG (-1),
     CBC_OPCODE ''CBC_ASSIGN_PROP_LITERAL_BLOCK'' CBC_HAS_LITERAL_ARG (-2),
     CBC_OPCODE ''CBC_ASSIGN_PROP_THIS_LITERAL'' CBC_HAS_LITERAL_ARG (-1),
     CBC_OPCODE ''CBC_ASSIGN_PROP_THIS_LITERAL_PUSH_RESULT'' CBC_HAS_LITERAL_ARG 0,
     CBC_OPCODE ''CBC_ASSIGN_PROP_THIS_LITERAL_BLOCK'' CBC_HAS_LITERAL_ARG (-1),
     CBC_OPCODE ''CBC_END'' CBC_NO_FLAG 0]"

definition CBC_EXT_OPCODE_LIST :: "cbc_macro list" where
  "CBC_EXT_OPCODE_LIST =
    [CBC_OPCODE ''CBC_EXT_NOP'' CBC_NO_FLAG 0,
     CBC_FORWARD_BRANCH ''CBC_EXT_WITH_CREATE_CONTEXT'' (-1 + PARSER_WITH_CONTEXT_STACK_ALLOCATION),
     CBC_OPCODE ''CBC_EXT_FOR_IN_GET_NEXT'' CBC_NO_FLAG 1,
     CBC_FORWARD_BRANCH ''CBC_EXT_FOR_IN_CREATE_CONTEXT'' (-1 + PARSER_FOR_IN_CONTEXT_STACK_ALLOCATION),
     CBC_OPCODE ''CBC_EXT_SET_GETTER'' (CBC_HAS_LITERAL_ARG OR CBC_HAS_LITERAL_ARG2) 0,
     CBC_BACKWARD_BRANCH ''CBC_EXT_BRANCH_IF_FOR_IN_HAS_NEXT'' 0,
     CBC_OPCODE ''CBC_EXT_SET_SETTER'' (CBC_HAS_LITERAL_ARG OR CBC_HAS_LITERAL_ARG2) 0,
     CBC_FORWARD_BRANCH ''CBC_EXT_TRY_CREATE_CONTEXT'' (PARSER_TRY_CONTEXT_STACK_ALLOCATION),
     CBC_OPCODE ''CBC_EXT_THROW_REFERENCE_ERROR'' CBC_NO_FLAG 1,
     CBC_FORWARD_BRANCH ''CBC_EXT_CATCH'' 1,
     CBC_OPCODE ''CBC_EXT_PUSH_UNDEFINED_BASE'' CBC_NO_FLAG 1,
     CBC_FORWARD_BRANCH ''CBC_EXT_FINALLY'' 0,
     CBC_OPCODE ''CBC_EXT_CLASS_EXPR_CONTEXT_END'' CBC_NO_FLAG 0,
     CBC_FORWARD_BRANCH ''CBC_EXT_SUPER_CLASS_CREATE_CONTEXT'' (-1 + PARSER_SUPER_CLASS_CONTEXT_STACK_ALLOCATION),
     CBC_OPCODE ''CBC_EXT_DEBUGGER'' CBC_NO_FLAG 0,
     CBC_OPCODE ''CBC_EXT_PUSH_NAMED_FUNC_EXPRESSION'' (CBC_HAS_LITERAL_ARG OR CBC_HAS_LITERAL_ARG2) 1,
     CBC_OPCODE ''CBC_EXT_PUSH_LITERAL_PUSH_NUMBER_0'' CBC_HAS_LITERAL_ARG 2,
     CBC_OPCODE ''CBC_EXT_PUSH_LITERAL_PUSH_NUMBER_POS_BYTE'' (CBC_HAS_LITERAL_ARG OR CBC_HAS_BYTE_ARG) 2,
     CBC_OPCODE ''CBC_EXT_PUSH_LITERAL_PUSH_NUMBER_NEG_BYTE'' (CBC_HAS_LITERAL_ARG OR CBC_HAS_BYTE_ARG) 2,
     CBC_OPCODE ''CBC_EXT_SET_COMPUTED_PROPERTY'' CBC_NO_FLAG (-2),
     CBC_OPCODE ''CBC_EXT_SET_COMPUTED_PROPERTY_LITERAL'' CBC_HAS_LITERAL_ARG (-1),
     CBC_OPCODE ''CBC_EXT_SET_COMPUTED_GETTER'' CBC_HAS_LITERAL_ARG (-1),
     CBC_OPCODE ''CBC_EXT_SET_COMPUTED_SETTER'' CBC_HAS_LITERAL_ARG (-1),
     CBC_OPCODE ''CBC_EXT_SET_STATIC_PROPERTY_LITERAL'' (CBC_HAS_LITERAL_ARG OR CBC_HAS_LITERAL_ARG2) 0,
     CBC_OPCODE ''CBC_EXT_SET_STATIC_COMPUTED_PROPERTY_LITERAL'' CBC_HAS_LITERAL_ARG (-1),
     CBC_OPCODE ''CBC_EXT_SET_STATIC_GETTER'' (CBC_HAS_LITERAL_ARG OR CBC_HAS_LITERAL_ARG2) 0,
     CBC_OPCODE ''CBC_EXT_SET_STATIC_SETTER'' (CBC_HAS_LITERAL_ARG OR CBC_HAS_LITERAL_ARG2) 0,
     CBC_OPCODE ''CBC_EXT_SET_STATIC_COMPUTED_GETTER'' CBC_HAS_LITERAL_ARG (-1),
     CBC_OPCODE ''CBC_EXT_SET_STATIC_COMPUTED_SETTER'' CBC_HAS_LITERAL_ARG (-1),
     CBC_OPCODE ''CBC_EXT_RESOLVE_BASE'' CBC_NO_FLAG 0,
     CBC_OPCODE ''CBC_EXT_INHERIT_AND_SET_CONSTRUCTOR'' CBC_NO_FLAG 0,
     CBC_OPCODE ''CBC_EXT_PUSH_CLASS_CONSTRUCTOR'' CBC_NO_FLAG 1,
     CBC_OPCODE ''CBC_EXT_IMPLICIT_CONSTRUCTOR_CALL'' CBC_NO_FLAG 0,
     CBC_OPCODE ''CBC_EXT_SET_CLASS_LITERAL'' CBC_HAS_LITERAL_ARG 0,
     CBC_OPCODE ''CBC_EXT_CLASS_EVAL'' CBC_HAS_BYTE_ARG 0,
     CBC_OPCODE ''CBC_EXT_SUPER_CALL'' CBC_HAS_POP_STACK_BYTE_ARG (-1),
     CBC_OPCODE ''CBC_EXT_SUPER_CALL_PUSH_RESULT'' CBC_HAS_POP_STACK_BYTE_ARG 0,
     CBC_OPCODE ''CBC_EXT_SUPER_CALL_BLOCK'' CBC_HAS_POP_STACK_BYTE_ARG (-1),
     CBC_OPCODE ''CBC_EXT_PUSH_CONSTRUCTOR_SUPER'' CBC_NO_FLAG 1,
     CBC_OPCODE ''CBC_EXT_PUSH_CONSTRUCTOR_SUPER_PROP'' CBC_NO_FLAG 1,
     CBC_OPCODE ''CBC_EXT_PUSH_SUPER'' CBC_NO_FLAG 1,
     CBC_OPCODE ''CBC_EXT_PUSH_STATIC_SUPER'' CBC_NO_FLAG 1,
     CBC_OPCODE ''CBC_EXT_PUSH_CONSTRUCTOR_THIS'' CBC_NO_FLAG 1,
     CBC_OPCODE ''CBC_EXT_SUPER_PROP_CALL'' CBC_NO_FLAG 0,
     CBC_OPCODE ''CBC_EXT_SUPER_PROP_ASSIGN'' CBC_NO_FLAG 0,
     CBC_OPCODE ''CBC_EXT_CONSTRUCTOR_RETURN'' CBC_NO_FLAG (-1),
     CBC_OPCODE ''CBC_EXT_END'' CBC_NO_FLAG 0]"

text \<open>
  \<open>cbc_opcode_t\<close> and \<open>cbc_ext_opcode_t\<close> are the two enumerations: entry \<open>i\<close> of the
  expanded list is the opcode with enumerator \<open>i\<close>. \<open>cbc_flags\<close> is the flag table the
  header declares (\<open>cbc_flags[]\<close>, \<open>cbc_ext_flags[]\<close>), built from the same lists.
\<close>

definition cbc_opcode_t :: "cbc_entry list" where
  "cbc_opcode_t = concat (map cbc_expand CBC_OPCODE_LIST)"

definition cbc_ext_opcode_t :: "cbc_entry list" where
  "cbc_ext_opcode_t = concat (map cbc_expand CBC_EXT_OPCODE_LIST)"

fun cbc_index_of :: "string \<Rightarrow> cbc_entry list \<Rightarrow> nat \<Rightarrow> nat option" where
  "cbc_index_of name [] n = None"
| "cbc_index_of name ((nm, fl, st) # es) n =
     (if nm = name then Some n else cbc_index_of name es (Suc n))"

definition cbc_ordinal :: "cbc_entry list \<Rightarrow> string \<Rightarrow> nat option" where
  "cbc_ordinal enum name = cbc_index_of name enum 0"

definition cbc_flags :: "cbc_entry list \<Rightarrow> nat \<Rightarrow> 8 word" where
  "cbc_flags enum opcode = fst (snd (enum ! opcode))"

definition CBC_BRANCH_OFFSET_LENGTH :: "nat \<Rightarrow> nat" where
  "CBC_BRANCH_OFFSET_LENGTH opcode = opcode AND 0x3"

definition CBC_BRANCH_IS_FORWARD :: "8 word \<Rightarrow> bool" where
  "CBC_BRANCH_IS_FORWARD flags = (flags AND CBC_FORWARD_BRANCH_ARG \<noteq> 0)"

definition CBC_BRANCH_IS_BACKWARD :: "8 word \<Rightarrow> bool" where
  "CBC_BRANCH_IS_BACKWARD flags = (\<not> (flags AND CBC_FORWARD_BRANCH_ARG \<noteq> 0))"

text \<open>
  The branch opcodes of a list with their enumerator, the width in bytes of the offset
  they carry (the first opcode of a branch macro has a one byte offset, \<open>_2\<close> two and
  \<open>_3\<close> three bytes) and whether the macro is \<open>CBC_FORWARD_BRANCH\<close>. The first
  argument is the enumerator of the next opcode.
\<close>

fun cbc_branches :: "nat \<Rightarrow> cbc_macro list \<Rightarrow> (nat \<times> nat \<times> bool) list" where
  "cbc_branches n [] = []"
| "cbc_branches n (CBC_FORWARD_BRANCH name stack # ms) =
     (n, 1, True) # (n + 1, 2, True) # (n + 2, 3, True) # cbc_branches (n + 3) ms"
| "cbc_branches n (CBC_BACKWARD_BRANCH name stack # ms) =
     (n, 1, False) # (n + 1, 2, False) # (n + 2, 3, False) # cbc_branches (n + 3) ms"
| "cbc_branches n (m # ms) = cbc_branches (n + length (cbc_expand m)) ms"

section \<open>The lexer: data model\<close>

text \<open>
  Bytes are \<open>uint8_t\<close>, line and column counters are \<open>parser_line_counter_t\<close>
  (an unsigned 32 bit counter), \<open>size_t\<close> is the one of the 32 bit targets of the
  engine, and \<open>lexer_character_type_t\<close> is a 16 bit code unit. The source text is an
  immutable byte buffer: it is passed along as a list, a pointer into it is an index and
  \<open>source_end_p\<close> is the length of the list. A read outside the buffer has no defined
  result in C; the model reports it as \<open>Out_of_bounds\<close>.
\<close>

type_synonym byte = "8 word"
type_synonym parser_line_counter_t = "32 word"
type_synonym size_t = "32 word"
type_synonym lexer_character_type_t = "16 word"

datatype (plugins only: extraction) lexer_token_type_t =
    LEXER_EOS | LEXER_LITERAL | LEXER_TEMPLATE_LITERAL
  | LEXER_KEYW_THIS | LEXER_LIT_TRUE | LEXER_LIT_FALSE | LEXER_LIT_NULL
  | LEXER_KEYW_AWAIT | LEXER_KEYW_BREAK | LEXER_KEYW_CASE | LEXER_KEYW_CATCH
  | LEXER_KEYW_CLASS | LEXER_KEYW_CONST | LEXER_KEYW_CONTINUE | LEXER_KEYW_DEBUGGER
  | LEXER_KEYW_DEFAULT | LEXER_KEYW_DELETE | LEXER_KEYW_DO | LEXER_KEYW_ELSE
  | LEXER_KEYW_ENUM | LEXER_KEYW_EXPORT | LEXER_KEYW_EXTENDS | LEXER_KEYW_FINALLY
  | LEXER_KEYW_FOR | LEXER_KEYW_FUNCTION | LEXER_KEYW_IF | LEXER_KEYW_IMPLEMENTS
  | LEXER_KEYW_IMPORT | LEXER_KEYW_IN | LEXER_KEYW_INSTANCEOF | LEXER_KEYW_INTERFACE
  | LEXER_KEYW_LET | LEXER_KEYW_NEW | LEXER_KEYW_PACKAGE | LEXER_KEYW_PRIVATE
  | LEXER_KEYW_PROTECTED | LEXER_KEYW_PUBLIC | LEXER_KEYW_RETURN | LEXER_KEYW_STATIC
  | LEXER_KEYW_SUPER | LEXER_KEYW_SWITCH | LEXER_KEYW_THROW | LEXER_KEYW_TRY
  | LEXER_KEYW_TYPEOF | LEXER_KEYW_VAR | LEXER_KEYW_VOID | LEXER_KEYW_WHILE
  | LEXER_KEYW_WITH | LEXER_KEYW_YIELD
  | LEXER_LEFT_BRACE | LEXER_LEFT_PAREN | LEXER_LEFT_SQUARE
  | LEXER_RIGHT_BRACE | LEXER_RIGHT_PAREN | LEXER_RIGHT_SQUARE
  | LEXER_SEMICOLON | LEXER_COMMA | LEXER_DOT | LEXER_THREE_DOTS
  | LEXER_LESS | LEXER_LESS_EQUAL | LEXER_LEFT_SHIFT | LEXER_ASSIGN_LEFT_SHIFT
  | LEXER_GREATER | LEXER_GREATER_EQUAL | LEXER_RIGHT_SHIFT | LEXER_ASSIGN_RIGHT_SHIFT
  | LEXER_UNS_RIGHT_SHIFT | LEXER_ASSIGN_UNS_RIGHT_SHIFT
  | LEXER_ASSIGN | LEXER_EQUAL | LEXER_STRICT_EQUAL | LEXER_ARROW
  | LEXER_LOGICAL_NOT | LEXER_NOT_EQUAL | LEXER_STRICT_NOT_EQUAL
  | LEXER_ADD | LEXER_ASSIGN_ADD | LEXER_INCREASE
  | LEXER_SUBTRACT | LEXER_ASSIGN_SUBTRACT | LEXER_DECREASE
  | LEXER_MULTIPLY | LEXER_ASSIGN_MULTIPLY | LEXER_DIVIDE | LEXER_ASSIGN_DIVIDE
  | LEXER_MODULO | LEXER_ASSIGN_MODULO
  | LEXER_BIT_AND | LEXER_ASSIGN_BIT_AND | LEXER_LOGICAL_AND
  | LEXER_BIT_OR | LEXER_ASSIGN_BIT_OR | LEXER_LOGICAL_OR
  | LEXER_BIT_XOR | LEXER_ASSIGN_BIT_XOR
  | LEXER_BIT_NOT | LEXER_QUESTION_MARK | LEXER_COLON
  | LEXER_PROPERTY_GETTER | LEXER_PROPERTY_SETTER | LEXER_CLASS_CONSTRUCTOR

datatype lexer_literal_type_t =
    LEXER_IDENT_LITERAL | LEXER_STRING_LITERAL | LEXER_NUMBER_LITERAL
  | LEXER_FUNCTION_LITERAL | LEXER_REGEXP_LITERAL | LEXER_UNUSED_LITERAL

datatype lexer_number_type_t =
    LEXER_NUMBER_DECIMAL | LEXER_NUMBER_HEXADECIMAL | LEXER_NUMBER_OCTAL

datatype lexer_literal_object_type_t =
    LEXER_LITERAL_OBJECT_ANY | LEXER_LITERAL_OBJECT_EVAL | LEXER_LITERAL_OBJECT_ARGUMENTS

text \<open>
  The flag masks are declared in headers outside this part of the sources. Each mask is
  one bit of its flag word, so a flag word is modelled as the set of the flags that are
  on: \<open>flags | F\<close> inserts \<open>F\<close>, \<open>flags & ~F\<close> removes it and \<open>flags & F\<close> tests
  membership.
\<close>

datatype lexer_token_flag_t = LEXER_WAS_NEWLINE | LEXER_NO_SKIP_SPACES

datatype lexer_literal_flag_t =
    LEXER_FLAG_NO_REG_STORE | LEXER_FLAG_UNUSED_IDENT | LEXER_FLAG_SOURCE_PTR
  | LEXER_FLAG_VAR | LEXER_FLAG_INITIALIZED | LEXER_FLAG_FUNCTION_NAME
  | LEXER_FLAG_FUNCTION_ARGUMENT

datatype parser_status_flag_t =
    PARSER_IS_STRICT | PARSER_INSIDE_WITH | PARSER_ARGUMENTS_NOT_NEEDED
  | PARSER_ARGUMENTS_NEEDED | PARSER_LEXICAL_ENV_NEEDED | PARSER_RESOLVE_BASE_FOR_CALLS
  | PARSER_IS_ARROW_FUNCTION

datatype lexer_obj_ident_opts_t =
    LEXER_OBJ_IDENT_ONLY_IDENTIFIERS | LEXER_OBJ_IDENT_CLASS_METHOD

datatype parser_error_t =
    PARSER_ERR_OUT_OF_MEMORY
  | PARSER_ERR_INVALID_CHARACTER
  | PARSER_ERR_INVALID_HEX_DIGIT
  | PARSER_ERR_INVALID_ESCAPE_SEQUENCE
  | PARSER_ERR_INVALID_UNICODE_ESCAPE_SEQUENCE
  | PARSER_ERR_INVALID_IDENTIFIER_START
  | PARSER_ERR_INVALID_IDENTIFIER_PART
  | PARSER_ERR_INVALID_NUMBER
  | PARSER_ERR_MISSING_EXPONENT
  | PARSER_ERR_IDENTIFIER_AFTER_NUMBER
  | PARSER_ERR_INVALID_REGEXP
  | PARSER_ERR_UNKNOWN_REGEXP_FLAG
  | PARSER_ERR_DUPLICATED_REGEXP_FLAG
  | PARSER_ERR_UNTERMINATED_MULTILINE_COMMENT
  | PARSER_ERR_UNTERMINATED_STRING
  | PARSER_ERR_UNTERMINATED_REGEXP
  | PARSER_ERR_NEWLINE_NOT_ALLOWED
  | PARSER_ERR_OCTAL_NUMBER_NOT_ALLOWED
  | PARSER_ERR_OCTAL_ESCAPE_NOT_ALLOWED
  | PARSER_ERR_STRICT_IDENT_NOT_ALLOWED
  | PARSER_ERR_EVAL_NOT_ALLOWED
  | PARSER_ERR_ARGUMENTS_NOT_ALLOWED
  | PARSER_ERR_IDENTIFIER_TOO_LONG
  | PARSER_ERR_STRING_TOO_LONG
  | PARSER_ERR_NUMBER_TOO_LONG
  | PARSER_ERR_REGEXP_TOO_LONG
  | PARSER_ERR_LITERAL_LIMIT_REACHED
  | PARSER_ERR_IDENTIFIER_EXPECTED
  | PARSER_ERR_PROPERTY_IDENTIFIER_EXPECTED
  | PARSER_ERR_RIGHT_SQUARE_EXPECTED

text \<open>
  \<open>lexer_lit_location_t\<close>: where a literal is in the source. \<open>char_p\<close> is an index into
  the source buffer.
\<close>

record lexer_lit_location_t =
  loc_char_p :: nat
  loc_length :: "16 word"
  loc_type :: lexer_literal_type_t
  loc_has_escape :: bool

record lexer_token_t =
  tok_type :: lexer_token_type_t
  tok_literal_is_reserved :: bool
  tok_extra_value :: lexer_number_type_t
  tok_flags :: "lexer_token_flag_t set"
  tok_line :: parser_line_counter_t
  tok_column :: parser_line_counter_t
  tok_lit_location :: lexer_lit_location_t

text \<open>
  \<open>lexer_literal_t\<close>: an entry of the literal pool. \<open>lit_chars\<close> is what the entry's
  character pointer points at (into the source if \<open>LEXER_FLAG_SOURCE_PTR\<close> is on, into
  a buffer of its own otherwise); \<open>lit_length\<close> is \<open>prop.length\<close>.
\<close>

record lexer_literal_t =
  lit_chars :: "byte list"
  lit_length :: "16 word"
  lit_type :: lexer_literal_type_t
  lit_status_flags :: "lexer_literal_flag_t set"

text \<open>
  \<open>lexer_lit_object_t\<close>: the literal the last construct call produced. \<open>obj_literal_p\<close>
  is the position of the pointed entry in the pool.
\<close>

record lexer_lit_object_t =
  obj_literal_p :: nat
  obj_index :: "16 word"
  obj_type :: lexer_literal_object_type_t

record parser_context_t =
  ctx_status_flags :: "parser_status_flag_t set"
  ctx_source_p :: nat
  ctx_line :: parser_line_counter_t
  ctx_column :: parser_line_counter_t
  ctx_token :: lexer_token_t
  ctx_lit_object :: lexer_lit_object_t
  ctx_literal_pool :: "lexer_literal_t list"
  ctx_literal_count :: "16 word"

text \<open>
  \<open>parser_raise_error\<close> leaves the function with the error and the context as it is at
  that moment (the error location is read from \<open>token.line\<close> and \<open>token.column\<close>).
\<close>

datatype failure = Raised parser_error_t parser_context_t | Out_of_bounds

type_synonym 'a result = "failure + 'a"

definition parser_raise_error :: "parser_context_t \<Rightarrow> parser_error_t \<Rightarrow> 'a result" where
  "parser_raise_error context error = Inl (Raised error context)"

definition byte_at :: "byte list \<Rightarrow> nat \<Rightarrow> byte option" where
  "byte_at source i = (if i < length source then Some (source ! i) else None)"

text \<open>A loop body either goes round again with a new state or leaves the loop.\<close>

datatype ('s, 'r) iteration = Continue 's | Leave 'r

text \<open>
  What the lexer uses from the rest of the parser. The character class predicates, the
  limits of js-parser-limits.h, the order of the token enumeration
  (\<open>type >= LEXER_FIRST_FUTURE_STRICT_RESERVED_WORD\<close>), the lower case macro, the
  number and regexp literal helpers (they report a failure and fill the entry), the
  allocator (whether a request of a given size fails) and the expression parser are
  not in this part of the sources; they are parameters of the model.
\<close>

record lexer_env =
  util_is_identifier_start :: "byte list \<Rightarrow> nat \<Rightarrow> bool"
  util_is_identifier_part :: "byte list \<Rightarrow> nat \<Rightarrow> bool"
  util_is_identifier_start_character :: "lexer_character_type_t \<Rightarrow> bool"
  util_is_identifier_part_character :: "lexer_character_type_t \<Rightarrow> bool"
  is_future_strict_reserved_word :: "lexer_token_type_t \<Rightarrow> bool"
  PARSER_MAXIMUM_IDENT_LENGTH :: nat
  PARSER_MAXIMUM_STRING_LENGTH :: nat
  PARSER_MAXIMUM_NUMBER_OF_LITERALS :: nat
  LEXER_TO_ASCII_LOWERCASE :: "byte \<Rightarrow> byte"
  util_get_number :: "byte list \<Rightarrow> 32 word"
  util_set_number_literal :: "lexer_literal_t \<Rightarrow> byte list \<Rightarrow> bool \<times> lexer_literal_t"
  util_set_regexp_literal :: "lexer_literal_t \<Rightarrow> byte list \<Rightarrow> bool \<times> lexer_literal_t"
  parser_malloc_fails :: "nat \<Rightarrow> bool"
  parser_parse_expression :: "byte list \<Rightarrow> parser_context_t \<Rightarrow> parser_context_t result"

text \<open>
  Modelled from the spec: the character constants of the lexer header, which is not in
  this part of the sources. Tab, line feed and carriage return are the ASCII control
  characters, \<open>E2\<close> is the first byte of the three byte line separators U+2028 and
  U+2029, and a byte from \<open>F0\<close> on starts a four byte UTF-8 sequence.
\<close>

abbreviation LEXER_TAB :: byte where "LEXER_TAB \<equiv> 0x09"
abbreviation LEXER_NEWLINE_LF :: byte where "LEXER_NEWLINE_LF \<equiv> 0x0a"
abbreviation LEXER_NEWLINE_CR :: byte where "LEXER_NEWLINE_CR \<equiv> 0x0d"
abbreviation LEXER_NEWLINE_LS_PS_BYTE_1 :: byte where "LEXER_NEWLINE_LS_PS_BYTE_1 \<equiv> 0xe2"
abbreviation LEXER_UTF8_4BYTE_START :: byte where "LEXER_UTF8_4BYTE_START \<equiv> 0xf0"

definition IS_UTF8_INTERMEDIATE_OCTET :: "byte \<Rightarrow> bool" where
  "IS_UTF8_INTERMEDIATE_OCTET b = (b AND 0xc0 = 0x80)"

section \<open>The lexer: scanning\<close>

definition align_column_to_tab :: "parser_line_counter_t \<Rightarrow> parser_line_counter_t" where
  "align_column_to_tab column = ((column + (8 - 1)) AND NOT 0x7) + 1"

text \<open>\<open>PARSER_PLUS_EQUAL_LC (base, value)\<close> adds to a line or column counter.\<close>

definition PARSER_PLUS_EQUAL_LC :: "parser_line_counter_t \<Rightarrow> nat \<Rightarrow> parser_line_counter_t" where
  "PARSER_PLUS_EQUAL_LC base v = base + of_nat v"

text \<open>
  Modelled from the spec: \<open>LEXER_NEWLINE_LS_PS_BYTE_23\<close> is declared outside this
  part of the sources. U+2028 and U+2029 are the fixed three byte sequences
  \<open>E2 80 A8\<close> and \<open>E2 80 A9\<close>; the macro looks at the second and the third byte, which
  it reads without a bound check.
\<close>

definition LEXER_NEWLINE_LS_PS_BYTE_23 :: "byte list \<Rightarrow> nat \<Rightarrow> bool option" where
  "LEXER_NEWLINE_LS_PS_BYTE_23 source source_p =
     (case byte_at source (source_p + 1) of
        None \<Rightarrow> None
      | Some b1 \<Rightarrow>
          if b1 \<noteq> 0x80 then Some False
          else (case byte_at source (source_p + 2) of
                  None \<Rightarrow> None
                | Some b2 \<Rightarrow> Some (b2 OR 0x1 = 0xa9)))"

subsection \<open>lexer_hex_to_character\<close>

definition lexer_hex_digit :: "32 word \<Rightarrow> byte \<Rightarrow> 32 word option" where
  "lexer_hex_digit result b =
     (let byte = (ucast b :: 32 word); result = push_bit 4 result in
      if 0x30 \<le> byte \<and> byte \<le> 0x39 then Some (result + (byte - 0x30))
      else (let byte = byte OR 0x20 in
            if 0x61 \<le> byte \<and> byte \<le> 0x66 then Some (result + (byte - (0x61 - 10)))
            else None))"

function lexer_hex_loop ::
  "parser_context_t \<Rightarrow> byte list \<Rightarrow> nat \<Rightarrow> int \<Rightarrow> 32 word \<Rightarrow> 32 word result" where
  "lexer_hex_loop context source source_p len result =
     (case byte_at source source_p of
        None \<Rightarrow> Inl Out_of_bounds
      | Some b \<Rightarrow>
          (case lexer_hex_digit result b of
             None \<Rightarrow> parser_raise_error context PARSER_ERR_INVALID_ESCAPE_SEQUENCE
           | Some result' \<Rightarrow>
               if len - 1 > 0 then lexer_hex_loop context source (source_p + 1) (len - 1) result'
               else Inr result'))"
  by pat_completeness auto
termination
  by (relation "measure (\<lambda>(context, source, source_p, len, result). nat len)") auto

definition lexer_hex_to_character ::
  "parser_context_t \<Rightarrow> byte list \<Rightarrow> nat \<Rightarrow> int \<Rightarrow> lexer_character_type_t result" where
  "lexer_hex_to_character context source source_p len =
     (case lexer_hex_loop context source source_p len 0 of
        Inl e \<Rightarrow> Inl e
      | Inr result \<Rightarrow> Inr (ucast result))"

subsection \<open>lexer_skip_spaces\<close>

datatype skip_mode_t =
  LEXER_SKIP_SPACES | LEXER_SKIP_SINGLE_LINE_COMMENT | LEXER_SKIP_MULTI_LINE_COMMENT

text \<open>
  The three cases of the switch that fall through into each other: carriage return,
  line feed and the one column spaces.
\<close>

definition lexer_skip_case_space :: "parser_context_t \<Rightarrow> parser_context_t" where
  "lexer_skip_case_space context =
     context\<lparr>ctx_source_p := ctx_source_p context + 1, ctx_column := ctx_column context + 1\<rparr>"

definition lexer_skip_case_lf ::
  "parser_context_t \<Rightarrow> skip_mode_t \<Rightarrow> parser_context_t \<times> skip_mode_t" where
  "lexer_skip_case_lf context mode =
     (lexer_skip_case_space
        (context\<lparr>ctx_line := ctx_line context + 1, ctx_column := 0,
                 ctx_token := (ctx_token context)\<lparr>tok_flags := {LEXER_WAS_NEWLINE}\<rparr>\<rparr>),
      if mode = LEXER_SKIP_SINGLE_LINE_COMMENT then LEXER_SKIP_SPACES else mode)"

definition lexer_skip_case_cr ::
  "byte list \<Rightarrow> parser_context_t \<Rightarrow> skip_mode_t \<Rightarrow> parser_context_t \<times> skip_mode_t" where
  "lexer_skip_case_cr source context mode =
     (if ctx_source_p context + 1 < length source
         \<and> source ! (ctx_source_p context + 1) = LEXER_NEWLINE_LF
      then lexer_skip_case_lf (context\<lparr>ctx_source_p := ctx_source_p context + 1\<rparr>) mode
      else lexer_skip_case_lf context mode)"

text \<open>What follows the switch when a case ends in \<open>break\<close>.\<close>

definition lexer_skip_after_switch ::
  "byte list \<Rightarrow> parser_context_t \<Rightarrow> skip_mode_t
    \<Rightarrow> (parser_context_t \<times> skip_mode_t, parser_context_t result) iteration" where
  "lexer_skip_after_switch source context mode =
     (if mode = LEXER_SKIP_SPACES then Leave (Inr context)
      else (let context = context\<lparr>ctx_source_p := ctx_source_p context + 1\<rparr> in
            if ctx_source_p context < length source
               \<and> IS_UTF8_INTERMEDIATE_OCTET (source ! ctx_source_p context)
            then Continue (context\<lparr>ctx_column := ctx_column context + 1\<rparr>, mode)
            else Continue (context, mode)))"

text \<open>One round of the \<open>while (PARSER_TRUE)\<close> loop.\<close>

definition lexer_skip_spaces_step ::
  "byte list \<Rightarrow> parser_context_t \<Rightarrow> skip_mode_t
    \<Rightarrow> (parser_context_t \<times> skip_mode_t, parser_context_t result) iteration" where
  "lexer_skip_spaces_step source context mode =
     (let source_p = ctx_source_p context in
      if source_p \<ge> length source then
        (if mode = LEXER_SKIP_MULTI_LINE_COMMENT
         then Leave (parser_raise_error context PARSER_ERR_UNTERMINATED_MULTILINE_COMMENT)
         else Leave (Inr context))
      else (let c = source ! source_p in
        if c = LEXER_NEWLINE_CR then Continue (lexer_skip_case_cr source context mode)
        else if c = LEXER_NEWLINE_LF then Continue (lexer_skip_case_lf context mode)
        else if c = 0x0b \<or> c = 0x0c \<or> c = 0x20 then Continue (lexer_skip_case_space context, mode)
        else if c = LEXER_TAB then
          Continue (context\<lparr>ctx_column := align_column_to_tab (ctx_column context),
                            ctx_source_p := source_p + 1\<rparr>, mode)
        else if c = 0x2f then
          (if mode = LEXER_SKIP_SPACES \<and> source_p + 1 < length source then
             (let (mode, context) =
                (if source ! (source_p + 1) = 0x2f then (LEXER_SKIP_SINGLE_LINE_COMMENT, context)
                 else if source ! (source_p + 1) = 0x2a then
                   (LEXER_SKIP_MULTI_LINE_COMMENT,
                    context\<lparr>ctx_token := (ctx_token context)
                               \<lparr>tok_line := ctx_line context, tok_column := ctx_column context\<rparr>\<rparr>)
                 else (mode, context))
              in if mode \<noteq> LEXER_SKIP_SPACES then
                   Continue (context\<lparr>ctx_source_p := source_p + 2,
                                     ctx_column := PARSER_PLUS_EQUAL_LC (ctx_column context) 2\<rparr>, mode)
                 else lexer_skip_after_switch source context mode)
           else lexer_skip_after_switch source context mode)
        else if c = 0x2a then
          (if mode = LEXER_SKIP_MULTI_LINE_COMMENT \<and> source_p + 1 < length source
              \<and> source ! (source_p + 1) = 0x2f
           then Continue (context\<lparr>ctx_source_p := source_p + 2,
                                  ctx_column := PARSER_PLUS_EQUAL_LC (ctx_column context) 2\<rparr>,
                          LEXER_SKIP_SPACES)
           else lexer_skip_after_switch source context mode)
        else if c = 0xc2 then
          (if source_p + 1 < length source \<and> source ! (source_p + 1) = 0xa0
           then Continue (context\<lparr>ctx_source_p := source_p + 2,
                                  ctx_column := ctx_column context + 1\<rparr>, mode)
           else lexer_skip_after_switch source context mode)
        else if c = LEXER_NEWLINE_LS_PS_BYTE_1 then
          (case LEXER_NEWLINE_LS_PS_BYTE_23 source source_p of
             None \<Rightarrow> Leave (Inl Out_of_bounds)
           | Some True \<Rightarrow>
               Continue (context\<lparr>ctx_source_p := source_p + 3,
                                 ctx_line := ctx_line context + 1, ctx_column := 1,
                                 ctx_token := (ctx_token context)\<lparr>tok_flags := {LEXER_WAS_NEWLINE}\<rparr>\<rparr>,
                         if mode = LEXER_SKIP_SINGLE_LINE_COMMENT then LEXER_SKIP_SPACES else mode)
           | Some False \<Rightarrow> lexer_skip_after_switch source context mode)
        else if c = 0xef then
          (if source_p + 2 < length source \<and> source ! (source_p + 1) = 0xbb
              \<and> source ! (source_p + 2) = 0xbf
           then Continue (context\<lparr>ctx_source_p := source_p + 3,
                                  ctx_column := ctx_column context + 1\<rparr>, mode)
           else lexer_skip_after_switch source context mode)
        else lexer_skip_after_switch source context mode))"

lemma lexer_skip_spaces_step_advances:
  assumes "lexer_skip_spaces_step source context mode = Continue (context', mode')"
  shows "ctx_source_p context < length source \<and> ctx_source_p context < ctx_source_p context'"
  using assms
  by (auto simp: lexer_skip_spaces_step_def lexer_skip_after_switch_def lexer_skip_case_cr_def
      lexer_skip_case_lf_def lexer_skip_case_space_def Let_def
      split: if_splits option.splits bool.splits prod.splits)

function lexer_skip_spaces_loop ::
  "byte list \<Rightarrow> parser_context_t \<Rightarrow> skip_mode_t \<Rightarrow> parser_context_t result" where
  "lexer_skip_spaces_loop source context mode =
     (case lexer_skip_spaces_step source context mode of
        Continue (context', mode') \<Rightarrow> lexer_skip_spaces_loop source context' mode'
      | Leave r \<Rightarrow> r)"
  by pat_completeness auto
termination
proof (relation "measure (\<lambda>(source, context, mode). length source - ctx_source_p context)")
  show "wf (measure (\<lambda>(source, context, mode). length source - ctx_source_p context))"
    by simp
next
  fix source ctx mode x context' mode'
  assume "lexer_skip_spaces_step source ctx mode = Continue x" and "(context', mode') = x"
  then have "lexer_skip_spaces_step source ctx mode = Continue (context', mode')"
    by simp
  from lexer_skip_spaces_step_advances [OF this]
  show "((source, context', mode'), (source, ctx, mode))
          \<in> measure (\<lambda>(source, context, mode). length source - ctx_source_p context)"
    by simp arith
qed

definition lexer_skip_spaces :: "byte list \<Rightarrow> parser_context_t \<Rightarrow> parser_context_t result" where
  "lexer_skip_spaces source context =
     (if LEXER_NO_SKIP_SPACES \<in> tok_flags (ctx_token context) then
        Inr (context\<lparr>ctx_token := (ctx_token context)
                       \<lparr>tok_flags := tok_flags (ctx_token context) - {LEXER_NO_SKIP_SPACES}\<rparr>\<rparr>)
      else lexer_skip_spaces_loop source
             (context\<lparr>ctx_token := (ctx_token context)\<lparr>tok_flags := {}\<rparr>\<rparr>) LEXER_SKIP_SPACES)"

subsection \<open>UTF-8 helpers\<close>

text \<open>
  Modelled from the spec: \<open>util_get_utf8_length\<close> and \<open>util_to_utf8_bytes\<close> are
  not in this part of the sources. The escape decoder turns a 16 bit code unit into its
  UTF-8 bytes: one byte below \<open>0x80\<close>, two bytes below \<open>0x800\<close> and three bytes
  otherwise (so each half of a surrogate pair takes three bytes).
\<close>

definition util_get_utf8_length :: "lexer_character_type_t \<Rightarrow> size_t" where
  "util_get_utf8_length chr =
     (if chr AND NOT 0x007f = 0 then 1
      else if chr AND NOT 0x07ff = 0 then 2
      else 3)"

definition util_to_utf8_bytes :: "lexer_character_type_t \<Rightarrow> byte list" where
  "util_to_utf8_bytes chr =
     (if chr AND NOT 0x007f = 0 then [ucast chr]
      else if chr AND NOT 0x07ff = 0 then
        [0xc0 OR ucast (drop_bit 6 chr), 0x80 OR ucast (chr AND 0x3f)]
      else
        [0xe0 OR ucast (drop_bit 12 chr),
         0x80 OR ucast (drop_bit 6 chr AND 0x3f),
         0x80 OR ucast (chr AND 0x3f)])"

text \<open>
  The loop \<open>while (source_p < source_end_p && IS_UTF8_INTERMEDIATE_OCTET (*source_p))\<close>
  that follows a character: the number of intermediate octets at the front of the rest of
  the input.
\<close>

primrec utf8_intermediate_octets :: "byte list \<Rightarrow> nat" where
  "utf8_intermediate_octets [] = 0"
| "utf8_intermediate_octets (b # bs) =
     (if IS_UTF8_INTERMEDIATE_OCTET b then Suc (utf8_intermediate_octets bs) else 0)"

subsection \<open>lexer_parse_string\<close>

record string_scan_t =
  ss_source_p :: nat
  ss_line :: parser_line_counter_t
  ss_column :: parser_line_counter_t
  ss_length :: size_t
  ss_has_escape :: bool

type_synonym string_iteration =
  "(parser_context_t \<times> string_scan_t, (parser_context_t \<times> string_scan_t) result) iteration"

text \<open>
  The end of the loop body, from the test for a four byte sequence on. It is reached for
  a plain character and for a character after a backslash that is not an escape of its own.
\<close>

definition lexer_parse_string_char ::
  "byte list \<Rightarrow> byte \<Rightarrow> parser_context_t \<Rightarrow> string_scan_t \<Rightarrow> string_iteration" where
  "lexer_parse_string_char source str_end_character context st =
     (let source_p = ss_source_p st;
          plain = (\<lambda>st. let n = utf8_intermediate_octets (drop (source_p + 1) source) in
                     Continue (context,
                       st\<lparr>ss_source_p := source_p + 1 + n,
                          ss_column := ss_column st + 1,
                          ss_length := ss_length st + 1 + of_nat n\<rparr>))
      in case byte_at source source_p of
        None \<Rightarrow> Leave (Inl Out_of_bounds)
      | Some c \<Rightarrow>
        if c \<ge> LEXER_UTF8_4BYTE_START then
          Continue (context,
            st\<lparr>ss_length := ss_length st + 2 * 3, ss_has_escape := True,
               ss_source_p := source_p + 4, ss_column := ss_column st + 1\<rparr>)
        else if c = LEXER_TAB then
          plain (st\<lparr>ss_column := align_column_to_tab (ss_column st) - 1\<rparr>)
        else if str_end_character = 0x60 then
          (if c = 0x7b \<and> source_p < 1 then Leave (Inl Out_of_bounds)
           else if c = 0x7b \<and> source ! (source_p - 1) = 0x24 \<and> source_p < 2 then
             Leave (Inl Out_of_bounds)
           else if c = 0x7b \<and> source ! (source_p - 1) = 0x24 \<and> source ! (source_p - 2) \<noteq> 0x5c then
             Leave (Inr (context, st\<lparr>ss_length := ss_length st - 1\<rparr>))
           else if c = LEXER_NEWLINE_CR then
             (if source_p + 1 < length source \<and> source ! (source_p + 1) = LEXER_NEWLINE_LF then
                Continue (context,
                  st\<lparr>ss_source_p := source_p + 2, ss_length := ss_length st + 2,
                     ss_line := ss_line st + 1, ss_column := 1\<rparr>)
              else
                Continue (context,
                  st\<lparr>ss_source_p := source_p + 1, ss_length := ss_length st + 1,
                     ss_line := ss_line st + 1, ss_column := 1\<rparr>))
           else if c = LEXER_NEWLINE_LF then
             Continue (context,
               st\<lparr>ss_source_p := source_p + 1, ss_length := ss_length st + 1,
                  ss_line := ss_line st + 1, ss_column := 1\<rparr>)
           else if c = LEXER_NEWLINE_LS_PS_BYTE_1 then
             (case LEXER_NEWLINE_LS_PS_BYTE_23 source source_p of
                None \<Rightarrow> Leave (Inl Out_of_bounds)
              | Some True \<Rightarrow>
                  Continue (context,
                    st\<lparr>ss_source_p := source_p + 3, ss_length := ss_length st + 3,
                       ss_line := ss_line st + 1, ss_column := 1\<rparr>)
              | Some False \<Rightarrow> plain st)
           else plain st)
        else if c = LEXER_NEWLINE_CR \<or> c = LEXER_NEWLINE_LF then
          Leave (parser_raise_error
                   (context\<lparr>ctx_token := (ctx_token context)
                              \<lparr>tok_line := ss_line st, tok_column := ss_column st\<rparr>\<rparr>)
                   PARSER_ERR_NEWLINE_NOT_ALLOWED)
        else if c = LEXER_NEWLINE_LS_PS_BYTE_1 then
          (case LEXER_NEWLINE_LS_PS_BYTE_23 source source_p of
             None \<Rightarrow> Leave (Inl Out_of_bounds)
           | Some True \<Rightarrow>
               Leave (parser_raise_error
                        (context\<lparr>ctx_token := (ctx_token context)
                                   \<lparr>tok_line := ss_line st, tok_column := ss_column st\<rparr>\<rparr>)
                        PARSER_ERR_NEWLINE_NOT_ALLOWED)
           | Some False \<Rightarrow> plain st)
        else plain st)"

text \<open>The body of \<open>if (*source_p == '\\')\<close>; \<open>st\<close> still points at the backslash.\<close>

definition lexer_parse_string_escape ::
  "byte list \<Rightarrow> byte \<Rightarrow> parser_context_t \<Rightarrow> string_scan_t \<Rightarrow> string_iteration" where
  "lexer_parse_string_escape source str_end_character context st0 =
     (let st = st0\<lparr>ss_source_p := ss_source_p st0 + 1, ss_column := ss_column st0 + 1\<rparr>;
          source_p = ss_source_p st
      in
      if source_p \<ge> length source then Continue (context, st)
      else (let st = st\<lparr>ss_has_escape := True\<rparr>; c = source ! source_p in
        if c = LEXER_NEWLINE_CR then
          (if source_p + 1 < length source \<and> source ! (source_p + 1) = LEXER_NEWLINE_LF then
             Continue (context,
               st\<lparr>ss_source_p := source_p + 2, ss_line := ss_line st + 1, ss_column := 1\<rparr>)
           else
             Continue (context,
               st\<lparr>ss_source_p := source_p + 1, ss_line := ss_line st + 1, ss_column := 1\<rparr>))
        else if c = LEXER_NEWLINE_LF then
          Continue (context,
            st\<lparr>ss_source_p := source_p + 1, ss_line := ss_line st + 1, ss_column := 1\<rparr>)
        else
          (case (if c = LEXER_NEWLINE_LS_PS_BYTE_1 then LEXER_NEWLINE_LS_PS_BYTE_23 source source_p
                 else Some False) of
             None \<Rightarrow> Leave (Inl Out_of_bounds)
           | Some True \<Rightarrow>
               Continue (context,
                 st\<lparr>ss_source_p := source_p + 3, ss_line := ss_line st + 1, ss_column := 1\<rparr>)
           | Some False \<Rightarrow>
             if 0x30 \<le> c \<and> c \<le> 0x33 then
               (if PARSER_IS_STRICT \<in> ctx_status_flags context then
                  Leave (parser_raise_error context PARSER_ERR_OCTAL_ESCAPE_NOT_ALLOWED)
                else if source_p + 1 < length source
                        \<and> 0x30 \<le> source ! (source_p + 1) \<and> source ! (source_p + 1) \<le> 0x37 then
                  (if source_p + 2 < length source
                      \<and> 0x30 \<le> source ! (source_p + 2) \<and> source ! (source_p + 2) \<le> 0x37 then
                     Continue (context,
                       st\<lparr>ss_source_p := source_p + 3, ss_column := ss_column st + 3,
                          ss_length := (if c \<ge> 0x32 then ss_length st + 1 else ss_length st) + 1\<rparr>)
                   else
                     Continue (context,
                       st\<lparr>ss_source_p := source_p + 2, ss_column := ss_column st + 2,
                          ss_length := ss_length st + 1\<rparr>))
                else
                  Continue (context,
                    st\<lparr>ss_source_p := source_p + 1, ss_column := ss_column st + 1,
                       ss_length := ss_length st + 1\<rparr>))
             else if 0x34 \<le> c \<and> c \<le> 0x37 then
               (if PARSER_IS_STRICT \<in> ctx_status_flags context then
                  Leave (parser_raise_error context PARSER_ERR_OCTAL_ESCAPE_NOT_ALLOWED)
                else if source_p + 1 < length source
                        \<and> 0x30 \<le> source ! (source_p + 1) \<and> source ! (source_p + 1) \<le> 0x37 then
                  Continue (context,
                    st\<lparr>ss_source_p := source_p + 2, ss_column := ss_column st + 2,
                       ss_length := ss_length st + 1\<rparr>)
                else
                  Continue (context,
                    st\<lparr>ss_source_p := source_p + 1, ss_column := ss_column st + 1,
                       ss_length := ss_length st + 1\<rparr>))
             else if c = 0x78 \<or> c = 0x75 then
               (let hex_part_length = (if c = 0x78 then 2 else 4 :: nat);
                    context = context\<lparr>ctx_token := (ctx_token context)
                                \<lparr>tok_line := ss_line st, tok_column := ss_column st - 1\<rparr>\<rparr>
                in
                if source_p + 1 + hex_part_length > length source then
                  Leave (parser_raise_error context PARSER_ERR_INVALID_ESCAPE_SEQUENCE)
                else
                  (case lexer_hex_to_character context source (source_p + 1) (int hex_part_length) of
                     Inl e \<Rightarrow> Leave (Inl e)
                   | Inr chr \<Rightarrow>
                       Continue (context,
                         st\<lparr>ss_length := ss_length st + util_get_utf8_length chr,
                            ss_source_p := source_p + (hex_part_length + 1),
                            ss_column := PARSER_PLUS_EQUAL_LC (ss_column st) (hex_part_length + 1)\<rparr>)))
             else lexer_parse_string_char source str_end_character context st)))"

text \<open>One round of the \<open>while (PARSER_TRUE)\<close> loop of \<open>lexer_parse_string\<close>.\<close>

definition lexer_parse_string_step ::
  "byte list \<Rightarrow> byte \<Rightarrow> parser_line_counter_t \<Rightarrow> parser_line_counter_t
    \<Rightarrow> parser_context_t \<Rightarrow> string_scan_t \<Rightarrow> string_iteration" where
  "lexer_parse_string_step source str_end_character original_line original_column context st =
     (if ss_source_p st \<ge> length source then
        Leave (parser_raise_error
                 (context\<lparr>ctx_token := (ctx_token context)
                            \<lparr>tok_line := original_line, tok_column := original_column - 1\<rparr>\<rparr>)
                 PARSER_ERR_UNTERMINATED_STRING)
      else if source ! ss_source_p st = str_end_character then Leave (Inr (context, st))
      else if source ! ss_source_p st = 0x5c then
        lexer_parse_string_escape source str_end_character context st
      else lexer_parse_string_char source str_end_character context st)"

lemma lexer_parse_string_char_advances:
  assumes "lexer_parse_string_char source str_end_character context st = Continue (context', st')"
  shows "ss_source_p st < length source \<and> ss_source_p st < ss_source_p st'"
  using assms
  by (auto simp: lexer_parse_string_char_def byte_at_def Let_def
      split: if_splits option.splits bool.splits)

lemma lexer_parse_string_escape_advances:
  assumes "lexer_parse_string_escape source str_end_character context st = Continue (context', st')"
      and "ss_source_p st < length source"
  shows "ss_source_p st < ss_source_p st'"
  using assms
  by (auto simp: lexer_parse_string_escape_def Let_def
      dest!: lexer_parse_string_char_advances
      split: if_splits option.splits bool.splits sum.splits)

lemma lexer_parse_string_step_advances:
  assumes "lexer_parse_string_step source str_end_character original_line original_column context st
            = Continue (context', st')"
  shows "ss_source_p st < length source \<and> ss_source_p st < ss_source_p st'"
  using assms
  by (auto simp: lexer_parse_string_step_def
      dest: lexer_parse_string_char_advances lexer_parse_string_escape_advances
      split: if_splits)

function lexer_parse_string_loop ::
  "byte list \<Rightarrow> byte \<Rightarrow> parser_line_counter_t \<Rightarrow> parser_line_counter_t
    \<Rightarrow> parser_context_t \<Rightarrow> string_scan_t \<Rightarrow> (parser_context_t \<times> string_scan_t) result" where
  "lexer_parse_string_loop source str_end_character original_line original_column context st =
     (case lexer_parse_string_step source str_end_character original_line original_column context st of
        Continue (context', st') \<Rightarrow>
          lexer_parse_string_loop source str_end_character original_line original_column context' st'
      | Leave r \<Rightarrow> r)"
  by pat_completeness auto
termination
proof (relation "measure (\<lambda>(source, e, l, c, ctx, st). length source - ss_source_p st)")
  show "wf (measure (\<lambda>(source, e, l, c, ctx, st). length source - ss_source_p st))"
    by simp
next
  fix source e l c ctx st x context' st'
  assume "lexer_parse_string_step source e l c ctx st = Continue x" and "(context', st') = x"
  then have "lexer_parse_string_step source e l c ctx st = Continue (context', st')"
    by simp
  from lexer_parse_string_step_advances [OF this]
  show "((source, e, l, c, context', st'), (source, e, l, c, ctx, st))
          \<in> measure (\<lambda>(source, e, l, c, ctx, st). length source - ss_source_p st)"
    by simp arith
qed

definition lexer_parse_string ::
  "lexer_env \<Rightarrow> byte list \<Rightarrow> parser_context_t \<Rightarrow> parser_context_t result" where
  "lexer_parse_string env source context =
     (case byte_at source (ctx_source_p context) of
        None \<Rightarrow> Inl Out_of_bounds
      | Some c0 \<Rightarrow>
        (let str_end_character = (if c0 = 0x7d then 0x60 else c0);
             string_start_p = ctx_source_p context + 1;
             original_line = ctx_line context;
             original_column = ctx_column context + 1
         in case lexer_parse_string_loop source str_end_character original_line original_column context
                   \<lparr>ss_source_p = string_start_p, ss_line = original_line,
                    ss_column = original_column, ss_length = 0, ss_has_escape = False\<rparr> of
              Inl e \<Rightarrow> Inl e
            | Inr (context, st) \<Rightarrow>
                if unat (ss_length st) > PARSER_MAXIMUM_STRING_LENGTH env then
                  parser_raise_error context PARSER_ERR_STRING_TOO_LONG
                else
                  Inr (context
                    \<lparr>ctx_token := (ctx_token context)
                       \<lparr>tok_type := (if str_end_character \<noteq> 0x60 then LEXER_LITERAL
                                     else LEXER_TEMPLATE_LITERAL),
                        tok_lit_location :=
                          \<lparr>loc_char_p = string_start_p,
                           loc_length = ucast (ss_length st),
                           loc_type = LEXER_STRING_LITERAL,
                           loc_has_escape = ss_has_escape st\<rparr>\<rparr>,
                     ctx_source_p := ss_source_p st + 1,
                     ctx_line := ss_line st,
                     ctx_column := ss_column st + 1\<rparr>)))"

subsection \<open>Keyword tables\<close>

type_synonym keyword_string_t = "byte list \<times> lexer_token_type_t"

definition LEXER_KEYWORD :: "string \<Rightarrow> lexer_token_type_t \<Rightarrow> keyword_string_t" where
  "LEXER_KEYWORD name t = (map of_char name, t)"

definition keywords_with_length_2 :: "keyword_string_t list" where
  "keywords_with_length_2 =
    [LEXER_KEYWORD ''do'' LEXER_KEYW_DO,
     LEXER_KEYWORD ''if'' LEXER_KEYW_IF,
     LEXER_KEYWORD ''in'' LEXER_KEYW_IN]"

definition keywords_with_length_3 :: "keyword_string_t list" where
  "keywords_with_length_3 =
    [LEXER_KEYWORD ''for'' LEXER_KEYW_FOR,
     LEXER_KEYWORD ''let'' LEXER_KEYW_LET,
     LEXER_KEYWORD ''new'' LEXER_KEYW_NEW,
     LEXER_KEYWORD ''try'' LEXER_KEYW_TRY,
     LEXER_KEYWORD ''var'' LEXER_KEYW_VAR]"

definition keywords_with_length_4 :: "keyword_string_t list" where
  "keywords_with_length_4 =
    [LEXER_KEYWORD ''case'' LEXER_KEYW_CASE,
     LEXER_KEYWORD ''else'' LEXER_KEYW_ELSE,
     LEXER_KEYWORD ''enum'' LEXER_KEYW_ENUM,
     LEXER_KEYWORD ''null'' LEXER_LIT_NULL,
     LEXER_KEYWORD ''this'' LEXER_KEYW_THIS,
     LEXER_KEYWORD ''true'' LEXER_LIT_TRUE,
     LEXER_KEYWORD ''void'' LEXER_KEYW_VOID,
     LEXER_KEYWORD ''with'' LEXER_KEYW_WITH]"

definition keywords_with_length_5 :: "keyword_string_t list" where
  "keywords_with_length_5 =
    [LEXER_KEYWORD ''await'' LEXER_KEYW_AWAIT,
     LEXER_KEYWORD ''break'' LEXER_KEYW_BREAK,
     LEXER_KEYWORD ''catch'' LEXER_KEYW_CATCH,
     LEXER_KEYWORD ''class'' LEXER_KEYW_CLASS,
     LEXER_KEYWORD ''const'' LEXER_KEYW_CONST,
     LEXER_KEYWORD ''false'' LEXER_LIT_FALSE,
     LEXER_KEYWORD ''super'' LEXER_KEYW_SUPER,
     LEXER_KEYWORD ''throw'' LEXER_KEYW_THROW,
     LEXER_KEYWORD ''while'' LEXER_KEYW_WHILE,
     LEXER_KEYWORD ''yield'' LEXER_KEYW_YIELD]"

definition keywords_with_length_6 :: "keyword_string_t list" where
  "keywords_with_length_6 =
    [LEXER_KEYWORD ''delete'' LEXER_KEYW_DELETE,
     LEXER_KEYWORD ''export'' LEXER_KEYW_EXPORT,
     LEXER_KEYWORD ''import'' LEXER_KEYW_IMPORT,
     LEXER_KEYWORD ''public'' LEXER_KEYW_PUBLIC,
     LEXER_KEYWORD ''return'' LEXER_KEYW_RETURN,
     LEXER_KEYWORD ''static'' LEXER_KEYW_STATIC,
     LEXER_KEYWORD ''switch'' LEXER_KEYW_SWITCH,
     LEXER_KEYWORD ''typeof'' LEXER_KEYW_TYPEOF]"

definition keywords_with_length_7 :: "keyword_string_t list" where
  "keywords_with_length_7 =
    [LEXER_KEYWORD ''default'' LEXER_KEYW_DEFAULT,
     LEXER_KEYWORD ''extends'' LEXER_KEYW_EXTENDS,
     LEXER_KEYWORD ''finally'' LEXER_KEYW_FINALLY,
     LEXER_KEYWORD ''package'' LEXER_KEYW_PACKAGE,
     LEXER_KEYWORD ''private'' LEXER_KEYW_PRIVATE]"

definition keywords_with_length_8 :: "keyword_string_t list" where
  "keywords_with_length_8 =
    [LEXER_KEYWORD ''continue'' LEXER_KEYW_CONTINUE,
     LEXER_KEYWORD ''debugger'' LEXER_KEYW_DEBUGGER,
     LEXER_KEYWORD ''function'' LEXER_KEYW_FUNCTION]"

definition keywords_with_length_9 :: "keyword_string_t list" where
  "keywords_with_length_9 =
    [LEXER_KEYWORD ''interface'' LEXER_KEYW_INTERFACE,
     LEXER_KEYWORD ''protected'' LEXER_KEYW_PROTECTED]"

definition keywords_with_length_10 :: "keyword_string_t list" where
  "keywords_with_length_10 =
    [LEXER_KEYWORD ''implements'' LEXER_KEYW_IMPLEMENTS,
     LEXER_KEYWORD ''instanceof'' LEXER_KEYW_INSTANCEOF]"

definition keyword_strings_list :: "keyword_string_t list list" where
  "keyword_strings_list =
    [keywords_with_length_2, keywords_with_length_3, keywords_with_length_4,
     keywords_with_length_5, keywords_with_length_6, keywords_with_length_7,
     keywords_with_length_8, keywords_with_length_9, keywords_with_length_10]"

definition keyword_lengths_list :: "nat list" where
  "keyword_lengths_list = map length keyword_strings_list"

subsection \<open>lexer_parse_identifier\<close>

text \<open>
  \<open>memcmp\<close> over two byte sequences of the same length: the sign of the difference of
  the first two bytes that differ.
\<close>

fun memcmp :: "byte list \<Rightarrow> byte list \<Rightarrow> int" where
  "memcmp (a # as) (b # bs) = (if a = b then memcmp as bs else if a < b then -1 else 1)"
| "memcmp as bs = 0"

text \<open>
  The binary search of the keyword check. \<open>middle\<close> is \<open>end / 2\<close> before the first round
  (where \<open>start\<close> is 0) and \<open>(start + end) / 2\<close> before every later one. \<open>ident\<close> is the
  \<open>length\<close> bytes at \<open>ident_start_p\<close>. The result is the table entry that is equal to
  the identifier, if the search finds one.
\<close>

function lexer_keyword_search ::
  "keyword_string_t list \<Rightarrow> byte list \<Rightarrow> nat \<Rightarrow> nat \<Rightarrow> keyword_string_t option" where
  "lexer_keyword_search keyword_list_p ident start end =
     (let middle = (start + end) div 2;
          keyword_p = keyword_list_p ! middle;
          first_difference = uint (hd ident) - uint (hd (fst keyword_p));
          compare_result = (if first_difference = 0 then memcmp ident (fst keyword_p)
                            else first_difference)
      in if compare_result = 0 then Some keyword_p
         else (let start' = (if compare_result > 0 then middle + 1 else start);
                   end' = (if compare_result > 0 then end else middle)
               in if start' < end' then lexer_keyword_search keyword_list_p ident start' end'
                  else None))"
  by pat_completeness auto
termination
  by (relation "measure (\<lambda>(keyword_list_p, ident, start, end). end - start)")
     (auto simp: Let_def split: if_splits)

record ident_scan_t =
  is_source_p :: nat
  is_column :: parser_line_counter_t
  is_length :: size_t

text \<open>
  The body of the \<open>do\<close> loop. The first read of a round is not guarded in the first
  round and guarded by the loop condition afterwards.
\<close>

definition lexer_parse_identifier_body ::
  "lexer_env \<Rightarrow> byte list \<Rightarrow> parser_context_t \<Rightarrow> ident_scan_t
    \<Rightarrow> (parser_context_t \<times> ident_scan_t) result" where
  "lexer_parse_identifier_body env source context st =
     (let source_p = is_source_p st in
      case byte_at source source_p of
        None \<Rightarrow> Inl Out_of_bounds
      | Some c \<Rightarrow>
        if c = 0x5c then
          (let context = context
                 \<lparr>ctx_token := (ctx_token context)
                    \<lparr>tok_lit_location := (tok_lit_location (ctx_token context))
                        \<lparr>loc_has_escape := True\<rparr>,
                     tok_column := is_column st\<rparr>,
                  ctx_source_p := source_p\<rparr>
           in
           if source_p + 6 > length source \<or> source ! (source_p + 1) \<noteq> 0x75 then
             parser_raise_error context PARSER_ERR_INVALID_UNICODE_ESCAPE_SEQUENCE
           else
             (case lexer_hex_to_character context source (source_p + 2) 4 of
                Inl e \<Rightarrow> Inl e
              | Inr character \<Rightarrow>
                  if is_length st = 0 \<and> \<not> util_is_identifier_start_character env character then
                    parser_raise_error context PARSER_ERR_INVALID_IDENTIFIER_START
                  else if is_length st \<noteq> 0 \<and> \<not> util_is_identifier_part_character env character then
                    parser_raise_error context PARSER_ERR_INVALID_IDENTIFIER_PART
                  else
                    Inr (context,
                         st\<lparr>is_length := is_length st + util_get_utf8_length character,
                            is_source_p := source_p + 6,
                            is_column := PARSER_PLUS_EQUAL_LC (is_column st) 6\<rparr>)))
        else
          (let n = utf8_intermediate_octets (drop (source_p + 1) source) in
           Inr (context,
                st\<lparr>is_source_p := source_p + 1 + n,
                   is_length := is_length st + 1 + of_nat n,
                   is_column := is_column st + 1\<rparr>)))"

lemma lexer_parse_identifier_body_advances:
  assumes "lexer_parse_identifier_body env source context st = Inr (context', st')"
  shows "is_source_p st < length source \<and> is_source_p st < is_source_p st'"
  using assms
  by (auto simp: lexer_parse_identifier_body_def byte_at_def Let_def parser_raise_error_def
      split: if_splits option.splits sum.splits)

function lexer_parse_identifier_loop ::
  "lexer_env \<Rightarrow> byte list \<Rightarrow> parser_context_t \<Rightarrow> ident_scan_t
    \<Rightarrow> (parser_context_t \<times> ident_scan_t) result" where
  "lexer_parse_identifier_loop env source context st =
     (case lexer_parse_identifier_body env source context st of
        Inl e \<Rightarrow> Inl e
      | Inr (context', st') \<Rightarrow>
          if is_source_p st' < length source
             \<and> (util_is_identifier_part env source (is_source_p st')
                 \<or> source ! is_source_p st' = 0x5c)
          then lexer_parse_identifier_loop env source context' st'
          else Inr (context', st'))"
  by pat_completeness auto
termination
proof (relation "measure (\<lambda>(env, source, ctx, st). length source - is_source_p st)")
  show "wf (measure (\<lambda>(env, source, ctx, st). length source - is_source_p st))"
    by simp
next
  fix env :: lexer_env and source ctx st x context' st'
  assume "lexer_parse_identifier_body env source ctx st = Inr x" and "(context', st') = x"
  then have "lexer_parse_identifier_body env source ctx st = Inr (context', st')"
    by simp
  from lexer_parse_identifier_body_advances [OF this]
  show "((env, source, context', st'), (env, source, ctx, st))
          \<in> measure (\<lambda>(env, source, ctx, st). length source - is_source_p st)"
    by simp arith
qed

text \<open>
  The end of \<open>lexer_parse_identifier\<close>, from \<open>if (context_p->token.type == LEXER_LITERAL)\<close>
  on: the literal data is filled in for a literal token, and the scan position is stored.
\<close>

definition lexer_parse_identifier_finish ::
  "nat \<Rightarrow> ident_scan_t \<Rightarrow> parser_context_t \<Rightarrow> parser_context_t" where
  "lexer_parse_identifier_finish ident_start_p st context =
     (let context =
        (if tok_type (ctx_token context) = LEXER_LITERAL then
           context\<lparr>ctx_token := (ctx_token context)
             \<lparr>tok_lit_location := (tok_lit_location (ctx_token context))
                \<lparr>loc_char_p := ident_start_p, loc_length := ucast (is_length st)\<rparr>\<rparr>\<rparr>
         else context)
      in context\<lparr>ctx_source_p := is_source_p st, ctx_column := is_column st\<rparr>)"

text \<open>
  The keyword check, entered when \<open>check_keywords\<close> is set, the identifier has no escape
  sequence and its length is between 2 and 10.
\<close>

definition lexer_parse_identifier_keyword ::
  "lexer_env \<Rightarrow> byte list \<Rightarrow> nat \<Rightarrow> size_t \<Rightarrow> parser_context_t \<Rightarrow> parser_context_t result" where
  "lexer_parse_identifier_keyword env source ident_start_p len context =
     (case lexer_keyword_search (keyword_strings_list ! (unat len - 2))
             (take (unat len) (drop ident_start_p source))
             0 (keyword_lengths_list ! (unat len - 2)) of
        None \<Rightarrow> Inr context
      | Some keyword_p \<Rightarrow>
          if is_future_strict_reserved_word env (snd keyword_p) then
            (if PARSER_IS_STRICT \<in> ctx_status_flags context then
               parser_raise_error context PARSER_ERR_STRICT_IDENT_NOT_ALLOWED
             else Inr (context\<lparr>ctx_token := (ctx_token context)
                            \<lparr>tok_literal_is_reserved := True\<rparr>\<rparr>))
          else Inr (context\<lparr>ctx_token := (ctx_token context)
                         \<lparr>tok_type := snd keyword_p\<rparr>\<rparr>))"

definition lexer_parse_identifier ::
  "lexer_env \<Rightarrow> byte list \<Rightarrow> parser_context_t \<Rightarrow> bool \<Rightarrow> parser_context_t result" where
  "lexer_parse_identifier env source context0 check_keywords =
     (let ident_start_p = ctx_source_p context0;
          context = context0
            \<lparr>ctx_token := (ctx_token context0)
               \<lparr>tok_type := LEXER_LITERAL,
                tok_literal_is_reserved := False,
                tok_lit_location := (tok_lit_location (ctx_token context0))
                   \<lparr>loc_type := LEXER_IDENT_LITERAL, loc_has_escape := False\<rparr>\<rparr>\<rparr>
      in
      case lexer_parse_identifier_loop env source context
             \<lparr>is_source_p = ident_start_p, is_column = ctx_column context0, is_length = 0\<rparr> of
        Inl e \<Rightarrow> Inl e
      | Inr (context, st) \<Rightarrow>
        (let len = is_length st;
             context = context
               \<lparr>ctx_source_p := ident_start_p,
                ctx_token := (ctx_token context)\<lparr>tok_column := ctx_column context\<rparr>\<rparr>
         in
         if unat len > PARSER_MAXIMUM_IDENT_LENGTH env then
           parser_raise_error context PARSER_ERR_IDENTIFIER_TOO_LONG
         else if check_keywords
                 \<and> \<not> loc_has_escape (tok_lit_location (ctx_token context))
                 \<and> (len \<ge> 2 \<and> len \<le> 10) then
           (case lexer_parse_identifier_keyword env source ident_start_p len context of
              Inl e \<Rightarrow> Inl e
            | Inr context \<Rightarrow> Inr (lexer_parse_identifier_finish ident_start_p st context))
         else Inr (lexer_parse_identifier_finish ident_start_p st context)))"
subsection \<open>lexer_parse_number\<close>

definition lexer_is_hex_digit :: "byte \<Rightarrow> bool" where
  "lexer_is_hex_digit character =
     ((character \<ge> 0x30 \<and> character \<le> 0x39)
      \<or> ((character OR 0x20) \<ge> 0x61 \<and> (character OR 0x20) \<le> 0x66))"

text \<open>
  The loops \<open>while (source_p < source_end_p && P (source_p[0])) source_p++\<close>: the
  position after the longest run of bytes with \<open>P\<close> that starts at \<open>source_p\<close>.
\<close>

definition lexer_skip_while :: "(byte \<Rightarrow> bool) \<Rightarrow> byte list \<Rightarrow> nat \<Rightarrow> nat" where
  "lexer_skip_while P source source_p = source_p + length (takeWhile P (drop source_p source))"

definition lexer_is_decimal_digit :: "byte \<Rightarrow> bool" where
  "lexer_is_decimal_digit b = (b \<ge> 0x30 \<and> b \<le> 0x39)"

definition lexer_is_octal_digit :: "byte \<Rightarrow> bool" where
  "lexer_is_octal_digit b = (b \<ge> 0x30 \<and> b \<le> 0x37)"

text \<open>The part of \<open>lexer_parse_number\<close> that follows \<open>if (can_be_float)\<close>.\<close>

definition lexer_parse_number_float ::
  "byte list \<Rightarrow> parser_context_t \<Rightarrow> nat \<Rightarrow> nat result" where
  "lexer_parse_number_float source context source_p0 =
     (let source_p =
        (if source_p0 < length source \<and> source ! source_p0 = 0x2e
         then lexer_skip_while lexer_is_decimal_digit source (source_p0 + 1)
         else source_p0)
      in
      if source_p < length source \<and> (source ! source_p OR 0x20) = 0x65 then
        (let source_p = source_p + 1;
             source_p = (if source_p < length source
                            \<and> (source ! source_p = 0x2b \<or> source ! source_p = 0x2d)
                         then source_p + 1 else source_p)
         in
         if source_p \<ge> length source \<or> source ! source_p < 0x30 \<or> source ! source_p > 0x39 then
           parser_raise_error context PARSER_ERR_MISSING_EXPONENT
         else Inr (lexer_skip_while lexer_is_decimal_digit source (source_p + 1)))
      else Inr source_p)"

definition lexer_parse_number_digits ::
  "byte list \<Rightarrow> parser_context_t \<Rightarrow> (parser_context_t \<times> nat) result" where
  "lexer_parse_number_digits source context =
     (let source_p = ctx_source_p context;
          set_extra = (\<lambda>v. context\<lparr>ctx_token := (ctx_token context)\<lparr>tok_extra_value := v\<rparr>\<rparr>);
          float = (\<lambda>p. case lexer_parse_number_float source context p of
                           Inl e \<Rightarrow> Inl e | Inr p' \<Rightarrow> Inr (context, p'))
      in
      case byte_at source source_p of
        None \<Rightarrow> Inl Out_of_bounds
      | Some c0 \<Rightarrow>
        if c0 = 0x30 \<and> source_p + 1 < length source then
          (let c1 = source ! (source_p + 1) in
           if (c1 OR 0x20) = 0x78 then
             (let context = set_extra LEXER_NUMBER_HEXADECIMAL; source_p = source_p + 2 in
              if source_p \<ge> length source \<or> \<not> lexer_is_hex_digit (source ! source_p) then
                parser_raise_error context PARSER_ERR_INVALID_HEX_DIGIT
              else Inr (context, lexer_skip_while lexer_is_hex_digit source (source_p + 1)))
           else if c1 \<ge> 0x30 \<and> c1 \<le> 0x37 then
             (let context = set_extra LEXER_NUMBER_OCTAL in
              if PARSER_IS_STRICT \<in> ctx_status_flags context then
                parser_raise_error context PARSER_ERR_OCTAL_NUMBER_NOT_ALLOWED
              else
                (let source_p = lexer_skip_while lexer_is_octal_digit source (source_p + 1) in
                 if source_p < length source
                    \<and> source ! source_p \<ge> 0x38 \<and> source ! source_p \<le> 0x39 then
                   parser_raise_error context PARSER_ERR_INVALID_NUMBER
                 else Inr (context, source_p)))
           else if c1 \<ge> 0x38 \<and> c1 \<le> 0x39 then
             parser_raise_error context PARSER_ERR_INVALID_NUMBER
           else float (source_p + 1))
        else float (lexer_skip_while lexer_is_decimal_digit source source_p))"

definition lexer_parse_number ::
  "lexer_env \<Rightarrow> byte list \<Rightarrow> parser_context_t \<Rightarrow> parser_context_t result" where
  "lexer_parse_number env source context0 =
     (let context = context0
            \<lparr>ctx_token := (ctx_token context0)
               \<lparr>tok_type := LEXER_LITERAL,
                tok_literal_is_reserved := False,
                tok_extra_value := LEXER_NUMBER_DECIMAL,
                tok_lit_location := (tok_lit_location (ctx_token context0))
                   \<lparr>loc_char_p := ctx_source_p context0,
                    loc_type := LEXER_NUMBER_LITERAL,
                    loc_has_escape := False\<rparr>\<rparr>\<rparr>
      in
      case lexer_parse_number_digits source context of
        Inl e \<Rightarrow> Inl e
      | Inr (context, source_p) \<Rightarrow>
        if source_p < length source
           \<and> (util_is_identifier_start env source source_p \<or> source ! source_p = 0x5c) then
          parser_raise_error context PARSER_ERR_IDENTIFIER_AFTER_NUMBER
        else
          (let len = source_p - ctx_source_p context in
           if len > PARSER_MAXIMUM_IDENT_LENGTH env then
             parser_raise_error context PARSER_ERR_NUMBER_TOO_LONG
           else
             Inr (context
               \<lparr>ctx_token := (ctx_token context)
                  \<lparr>tok_lit_location := (tok_lit_location (ctx_token context))
                     \<lparr>loc_length := of_nat len\<rparr>\<rparr>,
                ctx_column := PARSER_PLUS_EQUAL_LC (ctx_column context) len,
                ctx_source_p := source_p\<rparr>)))"

subsection \<open>lexer_next_token\<close>

text \<open>
  The token macros give the type and the length of a punctuator; \<open>len\<close> is the number
  of bytes left in the source.
\<close>

definition LEXER_TYPE_A_TOKEN :: "lexer_token_type_t \<Rightarrow> lexer_token_type_t \<times> nat" where
  "LEXER_TYPE_A_TOKEN type1 = (type1, 1)"

definition LEXER_TYPE_B_TOKEN ::
  "byte list \<Rightarrow> nat \<Rightarrow> nat \<Rightarrow> lexer_token_type_t \<Rightarrow> byte \<Rightarrow> lexer_token_type_t
    \<Rightarrow> lexer_token_type_t \<times> nat" where
  "LEXER_TYPE_B_TOKEN source source_p len type1 char2 type2 =
     (if len \<ge> 2 \<and> source ! (source_p + 1) = char2 then (type2, 2) else (type1, 1))"

definition LEXER_TYPE_C_TOKEN ::
  "byte list \<Rightarrow> nat \<Rightarrow> nat \<Rightarrow> lexer_token_type_t \<Rightarrow> byte \<Rightarrow> lexer_token_type_t
    \<Rightarrow> byte \<Rightarrow> lexer_token_type_t \<Rightarrow> lexer_token_type_t \<times> nat" where
  "LEXER_TYPE_C_TOKEN source source_p len type1 char2 type2 char3 type3 =
     (if len \<ge> 2 \<and> source ! (source_p + 1) = char2 then (type2, 2)
      else if len \<ge> 2 \<and> source ! (source_p + 1) = char3 then (type3, 2)
      else (type1, 1))"

text \<open>
  The cases of the switch that end in \<open>break\<close>: the punctuators. \<open>None\<close> is the default
  case. The dot before a digit and the quotes are handled by \<open>lexer_next_token\<close> itself.
\<close>

definition lexer_punctuator ::
  "byte list \<Rightarrow> nat \<Rightarrow> (lexer_token_type_t \<times> nat) option" where
  "lexer_punctuator source source_p =
     (let len = length source - source_p;
          c = source ! source_p;
          c1 = source ! (source_p + 1);
          c2 = source ! (source_p + 2);
          c3 = source ! (source_p + 3)
      in
      if c = 0x7b then Some (LEXER_TYPE_A_TOKEN LEXER_LEFT_BRACE)
      else if c = 0x28 then Some (LEXER_TYPE_A_TOKEN LEXER_LEFT_PAREN)
      else if c = 0x5b then Some (LEXER_TYPE_A_TOKEN LEXER_LEFT_SQUARE)
      else if c = 0x7d then Some (LEXER_TYPE_A_TOKEN LEXER_RIGHT_BRACE)
      else if c = 0x29 then Some (LEXER_TYPE_A_TOKEN LEXER_RIGHT_PAREN)
      else if c = 0x5d then Some (LEXER_TYPE_A_TOKEN LEXER_RIGHT_SQUARE)
      else if c = 0x3b then Some (LEXER_TYPE_A_TOKEN LEXER_SEMICOLON)
      else if c = 0x2c then Some (LEXER_TYPE_A_TOKEN LEXER_COMMA)
      else if c = 0x2e then
        (if len \<ge> 3 \<and> c1 = 0x2e \<and> c2 = 0x2e then Some (LEXER_THREE_DOTS, 3)
         else Some (LEXER_DOT, 1))
      else if c = 0x3c then
        (if len \<ge> 2 \<and> c1 = 0x3d then Some (LEXER_LESS_EQUAL, 2)
         else if len \<ge> 2 \<and> c1 = 0x3c then
           (if len \<ge> 3 \<and> c2 = 0x3d then Some (LEXER_ASSIGN_LEFT_SHIFT, 3)
            else Some (LEXER_LEFT_SHIFT, 2))
         else Some (LEXER_LESS, 1))
      else if c = 0x3e then
        (if len \<ge> 2 \<and> c1 = 0x3d then Some (LEXER_GREATER_EQUAL, 2)
         else if len \<ge> 2 \<and> c1 = 0x3e then
           (if len \<ge> 3 \<and> c2 = 0x3d then Some (LEXER_ASSIGN_RIGHT_SHIFT, 3)
            else if len \<ge> 3 \<and> c2 = 0x3e then
              (if len \<ge> 4 \<and> c3 = 0x3d then Some (LEXER_ASSIGN_UNS_RIGHT_SHIFT, 4)
               else Some (LEXER_UNS_RIGHT_SHIFT, 3))
            else Some (LEXER_RIGHT_SHIFT, 2))
         else Some (LEXER_GREATER, 1))
      else if c = 0x3d then
        (if len \<ge> 2 \<and> c1 = 0x3d then
           (if len \<ge> 3 \<and> c2 = 0x3d then Some (LEXER_STRICT_EQUAL, 3)
            else Some (LEXER_EQUAL, 2))
         else if len \<ge> 2 \<and> c1 = 0x3e then Some (LEXER_ARROW, 2)
         else Some (LEXER_ASSIGN, 1))
      else if c = 0x21 then
        (if len \<ge> 2 \<and> c1 = 0x3d then
           (if len \<ge> 3 \<and> c2 = 0x3d then Some (LEXER_STRICT_NOT_EQUAL, 3)
            else Some (LEXER_NOT_EQUAL, 2))
         else Some (LEXER_LOGICAL_NOT, 1))
      else if c = 0x2b then
        Some (LEXER_TYPE_C_TOKEN source source_p len LEXER_ADD 0x3d LEXER_ASSIGN_ADD 0x2b LEXER_INCREASE)
      else if c = 0x2d then
        Some (LEXER_TYPE_C_TOKEN source source_p len
                LEXER_SUBTRACT 0x3d LEXER_ASSIGN_SUBTRACT 0x2d LEXER_DECREASE)
      else if c = 0x2a then
        Some (LEXER_TYPE_B_TOKEN source source_p len LEXER_MULTIPLY 0x3d LEXER_ASSIGN_MULTIPLY)
      else if c = 0x2f then
        Some (LEXER_TYPE_B_TOKEN source source_p len LEXER_DIVIDE 0x3d LEXER_ASSIGN_DIVIDE)
      else if c = 0x25 then
        Some (LEXER_TYPE_B_TOKEN source source_p len LEXER_MODULO 0x3d LEXER_ASSIGN_MODULO)
      else if c = 0x26 then
        Some (LEXER_TYPE_C_TOKEN source source_p len
                LEXER_BIT_AND 0x3d LEXER_ASSIGN_BIT_AND 0x26 LEXER_LOGICAL_AND)
      else if c = 0x7c then
        Some (LEXER_TYPE_C_TOKEN source source_p len
                LEXER_BIT_OR 0x3d LEXER_ASSIGN_BIT_OR 0x7c LEXER_LOGICAL_OR)
      else if c = 0x5e then
        Some (LEXER_TYPE_B_TOKEN source source_p len LEXER_BIT_XOR 0x3d LEXER_ASSIGN_BIT_XOR)
      else if c = 0x7e then Some (LEXER_TYPE_A_TOKEN LEXER_BIT_NOT)
      else if c = 0x3f then Some (LEXER_TYPE_A_TOKEN LEXER_QUESTION_MARK)
      else if c = 0x3a then Some (LEXER_TYPE_A_TOKEN LEXER_COLON)
      else None)"

definition lexer_next_token ::
  "lexer_env \<Rightarrow> byte list \<Rightarrow> parser_context_t \<Rightarrow> parser_context_t result" where
  "lexer_next_token env source context0 =
     (case lexer_skip_spaces source context0 of
        Inl e \<Rightarrow> Inl e
      | Inr context1 \<Rightarrow>
        (let context = context1
               \<lparr>ctx_token := (ctx_token context1)
                  \<lparr>tok_line := ctx_line context1, tok_column := ctx_column context1\<rparr>\<rparr>;
             source_p = ctx_source_p context;
             len = length source - source_p
         in
         if len = 0 then
           Inr (context\<lparr>ctx_token := (ctx_token context)\<lparr>tok_type := LEXER_EOS\<rparr>\<rparr>)
         else if util_is_identifier_start env source source_p \<or> source ! source_p = 0x5c then
           lexer_parse_identifier env source context True
         else if source ! source_p \<ge> 0x30 \<and> source ! source_p \<le> 0x39 then
           lexer_parse_number env source context
         else if source ! source_p = 0x2e \<and> len \<ge> 2
                 \<and> source ! (source_p + 1) \<ge> 0x30 \<and> source ! (source_p + 1) \<le> 0x39 then
           lexer_parse_number env source context
         else if source ! source_p = 0x27 \<or> source ! source_p = 0x22 \<or> source ! source_p = 0x60 then
           lexer_parse_string env source context
         else
           (case lexer_punctuator source source_p of
              None \<Rightarrow> parser_raise_error context PARSER_ERR_INVALID_CHARACTER
            | Some (type1, token_length) \<Rightarrow>
                Inr (context
                  \<lparr>ctx_token := (ctx_token context)\<lparr>tok_type := type1\<rparr>,
                   ctx_source_p := source_p + token_length,
                   ctx_column := PARSER_PLUS_EQUAL_LC (ctx_column context) token_length\<rparr>))))"

subsection \<open>The literal pool\<close>

text \<open>
  Modelled from the spec: \<open>util_compare_char_literals\<close> and \<open>util_set_char_literal\<close>
  are not in this part of the sources. The comparison is content equality over the
  length of the pool entry against the bytes at \<open>char_p\<close>. Setting the characters stores
  a pointer into the source for an entry without escapes and a copy in a freshly
  allocated buffer otherwise; the result is non-zero when that allocation fails.
\<close>

definition util_compare_char_literals :: "lexer_literal_t \<Rightarrow> byte list \<Rightarrow> bool" where
  "util_compare_char_literals literal_p char_p =
     (take (unat (lit_length literal_p)) (lit_chars literal_p)
      = take (unat (lit_length literal_p)) char_p)"

definition util_set_char_literal ::
  "lexer_env \<Rightarrow> lexer_literal_t \<Rightarrow> byte list \<Rightarrow> bool \<times> lexer_literal_t" where
  "util_set_char_literal env literal_p char_p =
     (if LEXER_FLAG_SOURCE_PTR \<in> lit_status_flags literal_p then
        (False, literal_p\<lparr>lit_chars := take (unat (lit_length literal_p)) char_p\<rparr>)
      else if parser_malloc_fails env (unat (lit_length literal_p)) then (True, literal_p)
      else (False, literal_p\<lparr>lit_chars := take (unat (lit_length literal_p)) char_p\<rparr>))"

text \<open>
  The search loop of \<open>lexer_process_char_literal\<close>: the index of the first entry that
  matches, counted from \<open>literal_index\<close>.
\<close>

fun lexer_find_char_literal ::
  "lexer_literal_t list \<Rightarrow> byte list \<Rightarrow> size_t \<Rightarrow> lexer_literal_type_t \<Rightarrow> nat \<Rightarrow> nat option" where
  "lexer_find_char_literal [] char_p len literal_type literal_index = None"
| "lexer_find_char_literal (literal_p # pool) char_p len literal_type literal_index =
     (if lit_type literal_p = literal_type
         \<and> ucast (lit_length literal_p) = len
         \<and> util_compare_char_literals literal_p char_p
      then Some literal_index
      else lexer_find_char_literal pool char_p len literal_type (literal_index + 1))"

text \<open>
  \<open>char_p\<close> is the bytes the pointer points at (at least \<open>len\<close> of them). The index is
  a \<open>uint32_t\<close> counter; \<open>parser_list_append\<close> adds an entry at the end of the pool.
\<close>

definition lexer_process_char_literal ::
  "lexer_env \<Rightarrow> parser_context_t \<Rightarrow> byte list \<Rightarrow> size_t \<Rightarrow> lexer_literal_type_t \<Rightarrow> bool
    \<Rightarrow> parser_context_t result" where
  "lexer_process_char_literal env context char_p len literal_type has_escape =
     (case lexer_find_char_literal (ctx_literal_pool context) char_p len literal_type 0 of
        Some literal_index \<Rightarrow>
          Inr (context
            \<lparr>ctx_lit_object := (ctx_lit_object context)
               \<lparr>obj_literal_p := literal_index, obj_index := of_nat literal_index\<rparr>,
             ctx_literal_pool := (ctx_literal_pool context)
               [literal_index := (ctx_literal_pool context ! literal_index)
                  \<lparr>lit_status_flags :=
                     lit_status_flags (ctx_literal_pool context ! literal_index)
                       - {LEXER_FLAG_UNUSED_IDENT}\<rparr>]\<rparr>)
      | None \<Rightarrow>
        (let literal_index = length (ctx_literal_pool context) in
         if literal_index \<ge> PARSER_MAXIMUM_NUMBER_OF_LITERALS env then
           parser_raise_error context PARSER_ERR_LITERAL_LIMIT_REACHED
         else
           (let has_escape = (if len = 0 then False else has_escape);
                literal_p = \<lparr>lit_chars = [], lit_length = ucast len, lit_type = literal_type,
                             lit_status_flags = (if has_escape then {} else {LEXER_FLAG_SOURCE_PTR})\<rparr>;
                (failed, literal_p) = util_set_char_literal env literal_p char_p;
                context = context\<lparr>ctx_literal_pool := ctx_literal_pool context @ [literal_p]\<rparr>
            in
            if failed then parser_raise_error context PARSER_ERR_OUT_OF_MEMORY
            else
              Inr (context
                \<lparr>ctx_lit_object := (ctx_lit_object context)
                   \<lparr>obj_literal_p := literal_index, obj_index := of_nat literal_index\<rparr>,
                 ctx_literal_count := ctx_literal_count context + 1\<rparr>))))"

subsection \<open>lexer_construct_literal_object\<close>

abbreviation LEXER_MAX_LITERAL_LOCAL_BUFFER_SIZE :: nat where
  "LEXER_MAX_LITERAL_LOCAL_BUFFER_SIZE \<equiv> 48"

record decode_t =
  dc_source_p :: nat
  dc_destination :: "byte list"

text \<open>
  Decoding an identifier: the body of the \<open>do\<close> loop. The decoded bytes are appended to
  the destination buffer.
\<close>

definition lexer_decode_identifier_body ::
  "parser_context_t \<Rightarrow> byte list \<Rightarrow> decode_t \<Rightarrow> decode_t result" where
  "lexer_decode_identifier_body context source st =
     (let source_p = dc_source_p st in
      case byte_at source source_p of
        None \<Rightarrow> Inl Out_of_bounds
      | Some c \<Rightarrow>
        if c = 0x5c then
          (case lexer_hex_to_character context source (source_p + 2) 4 of
             Inl e \<Rightarrow> Inl e
           | Inr chr \<Rightarrow>
               Inr (st\<lparr>dc_destination := dc_destination st @ util_to_utf8_bytes chr,
                       dc_source_p := source_p + 6\<rparr>))
        else
          (let n = utf8_intermediate_octets (drop (source_p + 1) source) in
           Inr (st\<lparr>dc_destination := dc_destination st @ take (1 + n) (drop source_p source),
                   dc_source_p := source_p + 1 + n\<rparr>)))"

lemma lexer_decode_identifier_body_advances:
  assumes "lexer_decode_identifier_body context source st = Inr st'"
  shows "dc_source_p st < length source \<and> dc_source_p st < dc_source_p st'"
  using assms
  by (auto simp: lexer_decode_identifier_body_def byte_at_def Let_def
      split: if_splits option.splits sum.splits)

function lexer_decode_identifier_loop ::
  "lexer_env \<Rightarrow> parser_context_t \<Rightarrow> byte list \<Rightarrow> decode_t \<Rightarrow> decode_t result" where
  "lexer_decode_identifier_loop env context source st =
     (case lexer_decode_identifier_body context source st of
        Inl e \<Rightarrow> Inl e
      | Inr st' \<Rightarrow>
          if dc_source_p st' < length source
             \<and> (util_is_identifier_part env source (dc_source_p st')
                 \<or> source ! dc_source_p st' = 0x5c)
          then lexer_decode_identifier_loop env context source st'
          else Inr st')"
  by pat_completeness auto
termination
proof (relation "measure (\<lambda>(env, ctx, source, st). length source - dc_source_p st)")
  show "wf (measure (\<lambda>(env, ctx, source, st). length source - dc_source_p st))"
    by simp
next
  fix env :: lexer_env and ctx source st st'
  assume "lexer_decode_identifier_body ctx source st = Inr st'"
  from lexer_decode_identifier_body_advances [OF this]
  show "((env, ctx, source, st'), (env, ctx, source, st))
          \<in> measure (\<lambda>(env, ctx, source, st). length source - dc_source_p st)"
    by simp arith
qed

text \<open>
  Decoding a string. The reads of this loop have no bound check: the scanner has seen
  the closing quote. \<open>lexer_decode_octal\<close> reads up to \<open>digits\<close> further octal digits.
\<close>

fun lexer_decode_octal :: "byte list \<Rightarrow> nat \<Rightarrow> nat \<Rightarrow> 32 word \<Rightarrow> (nat \<times> 32 word) option" where
  "lexer_decode_octal source source_p 0 octal_number = Some (source_p, octal_number)"
| "lexer_decode_octal source source_p (Suc digits) octal_number =
     (case byte_at source source_p of
        None \<Rightarrow> None
      | Some c \<Rightarrow>
          if c \<ge> 0x30 \<and> c \<le> 0x37 then
            lexer_decode_octal source (source_p + 1) digits (octal_number * 8 + (ucast c - 0x30))
          else Some (source_p, octal_number))"

definition lexer_decode_4byte :: "byte \<Rightarrow> byte \<Rightarrow> byte \<Rightarrow> byte \<Rightarrow> byte list" where
  "lexer_decode_4byte b0 b1 b2 b3 =
     (let character = push_bit 18 ((ucast b0 :: 32 word) AND 0x7);
          character = character OR push_bit 12 ((ucast b1 :: 32 word) AND 0x3f);
          character = character OR push_bit 6 ((ucast b2 :: 32 word) AND 0x3f);
          character = character OR ((ucast b3 :: 32 word) AND 0x3f);
          character = character - 0x10000
      in util_to_utf8_bytes (ucast (0xd800 OR drop_bit 10 character))
         @ util_to_utf8_bytes (ucast (0xdc00 OR (character AND 0x3ff))))"

type_synonym decode_iteration = "(decode_t, decode_t result) iteration"

text \<open>The end of the loop body, from the test for a four byte sequence on.\<close>

definition lexer_decode_string_char :: "byte list \<Rightarrow> decode_t \<Rightarrow> decode_iteration" where
  "lexer_decode_string_char source st =
     (let source_p = dc_source_p st in
      case byte_at source source_p of
        None \<Rightarrow> Leave (Inl Out_of_bounds)
      | Some c \<Rightarrow>
        if c \<ge> LEXER_UTF8_4BYTE_START then
          (case (byte_at source (source_p + 1), byte_at source (source_p + 2),
                 byte_at source (source_p + 3)) of
             (Some b1, Some b2, Some b3) \<Rightarrow>
               Continue (st\<lparr>dc_destination := dc_destination st @ lexer_decode_4byte c b1 b2 b3,
                            dc_source_p := source_p + 4\<rparr>)
           | _ \<Rightarrow> Leave (Inl Out_of_bounds))
        else
          (let n = utf8_intermediate_octets (drop (source_p + 1) source) in
           if source_p + 1 + n \<ge> length source then Leave (Inl Out_of_bounds)
           else
             Continue (st\<lparr>dc_destination := dc_destination st @ take (1 + n) (drop source_p source),
                          dc_source_p := source_p + 1 + n\<rparr>)))"

text \<open>The body of \<open>if (*source_p == '\\')\<close>; \<open>st\<close> still points at the backslash.\<close>

definition lexer_decode_string_escape ::
  "parser_context_t \<Rightarrow> byte list \<Rightarrow> decode_t \<Rightarrow> decode_iteration" where
  "lexer_decode_string_escape context source st0 =
     (let source_p = dc_source_p st0 + 1; st = st0\<lparr>dc_source_p := source_p\<rparr> in
      case byte_at source source_p of
        None \<Rightarrow> Leave (Inl Out_of_bounds)
      | Some c \<Rightarrow>
        if c = LEXER_NEWLINE_CR then
          (case byte_at source (source_p + 1) of
             None \<Rightarrow> Leave (Inl Out_of_bounds)
           | Some c1 \<Rightarrow>
               Continue (st\<lparr>dc_source_p := (if c1 = LEXER_NEWLINE_LF then source_p + 2
                                              else source_p + 1)\<rparr>))
        else if c = LEXER_NEWLINE_LF then Continue (st\<lparr>dc_source_p := source_p + 1\<rparr>)
        else
          (case (if c = LEXER_NEWLINE_LS_PS_BYTE_1 then LEXER_NEWLINE_LS_PS_BYTE_23 source source_p
                 else Some False) of
             None \<Rightarrow> Leave (Inl Out_of_bounds)
           | Some True \<Rightarrow> Continue (st\<lparr>dc_source_p := source_p + 3\<rparr>)
           | Some False \<Rightarrow>
             if c \<ge> 0x30 \<and> c \<le> 0x33 then
               (case lexer_decode_octal source (source_p + 1) 2 (ucast c - 0x30) of
                  None \<Rightarrow> Leave (Inl Out_of_bounds)
                | Some (source_p', octal_number) \<Rightarrow>
                    Continue (st\<lparr>dc_destination :=
                                   dc_destination st @ util_to_utf8_bytes (ucast octal_number),
                                 dc_source_p := source_p'\<rparr>))
             else if c \<ge> 0x34 \<and> c \<le> 0x37 then
               (case lexer_decode_octal source (source_p + 1) 1 (ucast c - 0x30) of
                  None \<Rightarrow> Leave (Inl Out_of_bounds)
                | Some (source_p', octal_number) \<Rightarrow>
                    Continue (st\<lparr>dc_destination := dc_destination st @ [ucast octal_number],
                                 dc_source_p := source_p'\<rparr>))
             else if c = 0x78 \<or> c = 0x75 then
               (let hex_part_length = (if c = 0x78 then 2 else 4 :: nat) in
                case lexer_hex_to_character context source (source_p + 1) (int hex_part_length) of
                  Inl e \<Rightarrow> Leave (Inl e)
                | Inr chr \<Rightarrow>
                    Continue (st\<lparr>dc_destination := dc_destination st @ util_to_utf8_bytes chr,
                                 dc_source_p := source_p + (hex_part_length + 1)\<rparr>))
             else
               (let conv_character =
                      (if c = 0x62 then 0x08 else if c = 0x74 then 0x09
                       else if c = 0x6e then 0x0a else if c = 0x76 then 0x0b
                       else if c = 0x66 then 0x0c else if c = 0x72 then 0x0d else c)
                in
                if conv_character \<noteq> c then
                  Continue (st\<lparr>dc_destination := dc_destination st @ [conv_character],
                               dc_source_p := source_p + 1\<rparr>)
                else lexer_decode_string_char source st)))"

definition lexer_decode_string_step ::
  "parser_context_t \<Rightarrow> byte list \<Rightarrow> byte \<Rightarrow> decode_t \<Rightarrow> decode_iteration" where
  "lexer_decode_string_step context source str_end_character st =
     (let source_p = dc_source_p st in
      case byte_at source source_p of
        None \<Rightarrow> Leave (Inl Out_of_bounds)
      | Some c \<Rightarrow>
        if c = str_end_character then Leave (Inr st)
        else if c = 0x5c then lexer_decode_string_escape context source st
        else if str_end_character = 0x60 \<and> c = 0x24 \<and> byte_at source (source_p + 1) = None then
          Leave (Inl Out_of_bounds)
        else if str_end_character = 0x60 \<and> c = 0x24 \<and> byte_at source (source_p + 1) = Some 0x7b then
          Leave (Inr (st\<lparr>dc_source_p := source_p + 1\<rparr>))
        else lexer_decode_string_char source st)"

lemma lexer_decode_octal_advances:
  "lexer_decode_octal source source_p digits octal_number = Some (source_p', octal_number')
    \<Longrightarrow> source_p \<le> source_p'"
  by (induction source source_p digits octal_number rule: lexer_decode_octal.induct)
     (auto split: option.splits if_splits)

lemma lexer_decode_string_char_advances:
  assumes "lexer_decode_string_char source st = Continue st'"
  shows "dc_source_p st < length source \<and> dc_source_p st < dc_source_p st'"
  using assms
  by (auto simp: lexer_decode_string_char_def byte_at_def Let_def
      split: if_splits option.splits)

lemma lexer_decode_string_escape_advances:
  assumes "lexer_decode_string_escape context source st = Continue st'"
  shows "dc_source_p st < length source \<and> dc_source_p st < dc_source_p st'"
  using assms
  by (auto simp: lexer_decode_string_escape_def byte_at_def Let_def
      dest!: lexer_decode_string_char_advances lexer_decode_octal_advances
      split: if_splits option.splits bool.splits sum.splits)

lemma lexer_decode_string_step_advances:
  assumes "lexer_decode_string_step context source str_end_character st = Continue st'"
  shows "dc_source_p st < length source \<and> dc_source_p st < dc_source_p st'"
  using assms
  by (auto simp: lexer_decode_string_step_def byte_at_def Let_def
      dest: lexer_decode_string_char_advances lexer_decode_string_escape_advances
      split: if_splits option.splits)

function lexer_decode_string_loop ::
  "parser_context_t \<Rightarrow> byte list \<Rightarrow> byte \<Rightarrow> decode_t \<Rightarrow> decode_t result" where
  "lexer_decode_string_loop context source str_end_character st =
     (case lexer_decode_string_step context source str_end_character st of
        Continue st' \<Rightarrow> lexer_decode_string_loop context source str_end_character st'
      | Leave r \<Rightarrow> r)"
  by pat_completeness auto
termination
proof (relation "measure (\<lambda>(ctx, source, e, st). length source - dc_source_p st)")
  show "wf (measure (\<lambda>(ctx, source, e, st). length source - dc_source_p st))"
    by simp
next
  fix ctx source e st st'
  assume "lexer_decode_string_step ctx source e st = Continue st'"
  from lexer_decode_string_step_advances [OF this]
  show "((ctx, source, e, st'), (ctx, source, e, st))
          \<in> measure (\<lambda>(ctx, source, e, st). length source - dc_source_p st)"
    by simp arith
qed

text \<open>
  The decoding part of \<open>lexer_construct_literal_object\<close>: the bytes \<open>source_p\<close> points
  at when \<open>lexer_process_char_literal\<close> is called. Modelled from the spec:
  \<open>parser_malloc_local\<close> is not in this part of the sources; a failed allocation of the
  decode buffer raises the out of memory error.
\<close>

definition lexer_literal_chars ::
  "lexer_env \<Rightarrow> byte list \<Rightarrow> parser_context_t \<Rightarrow> lexer_lit_location_t \<Rightarrow> byte list result" where
  "lexer_literal_chars env source context literal_p =
     (if loc_has_escape literal_p then
        (if unat (loc_length literal_p) > LEXER_MAX_LITERAL_LOCAL_BUFFER_SIZE
            \<and> parser_malloc_fails env (unat (loc_length literal_p)) then
           parser_raise_error context PARSER_ERR_OUT_OF_MEMORY
         else if loc_type literal_p = LEXER_IDENT_LITERAL then
           (case lexer_decode_identifier_loop env context source
                   \<lparr>dc_source_p = loc_char_p literal_p, dc_destination = []\<rparr> of
              Inl e \<Rightarrow> Inl e
            | Inr st \<Rightarrow> Inr (dc_destination st))
         else if loc_char_p literal_p < 1 then Inl Out_of_bounds
         else
           (case byte_at source (loc_char_p literal_p - 1) of
              None \<Rightarrow> Inl Out_of_bounds
            | Some c0 \<Rightarrow>
                (case lexer_decode_string_loop context source (if c0 = 0x7d then 0x60 else c0)
                        \<lparr>dc_source_p = loc_char_p literal_p, dc_destination = []\<rparr> of
                   Inl e \<Rightarrow> Inl e
                 | Inr st \<Rightarrow> Inr (dc_destination st))))
      else Inr (drop (loc_char_p literal_p) source))"

definition lexer_construct_literal_object ::
  "lexer_env \<Rightarrow> byte list \<Rightarrow> parser_context_t \<Rightarrow> lexer_lit_location_t \<Rightarrow> lexer_literal_type_t
    \<Rightarrow> parser_context_t result" where
  "lexer_construct_literal_object env source context0 literal_p literal_type =
     (case lexer_literal_chars env source context0 literal_p of
        Inl e \<Rightarrow> Inl e
      | Inr chars \<Rightarrow>
        (case lexer_process_char_literal env context0 chars (ucast (loc_length literal_p))
                literal_type (loc_has_escape literal_p) of
           Inl e \<Rightarrow> Inl e
         | Inr context1 \<Rightarrow>
           (let add_no_reg_store = (\<lambda>context.
                  (let i = obj_literal_p (ctx_lit_object context) in
                   context\<lparr>ctx_literal_pool := (ctx_literal_pool context)
                     [i := (ctx_literal_pool context ! i)
                        \<lparr>lit_status_flags :=
                           insert LEXER_FLAG_NO_REG_STORE
                             (lit_status_flags (ctx_literal_pool context ! i))\<rparr>]\<rparr>));
                context = context1\<lparr>ctx_lit_object := (ctx_lit_object context1)
                            \<lparr>obj_type := LEXER_LITERAL_OBJECT_ANY\<rparr>\<rparr>;
                context =
                  (if literal_type = LEXER_IDENT_LITERAL
                      \<and> PARSER_INSIDE_WITH \<in> ctx_status_flags context
                      \<and> lit_type (ctx_literal_pool context ! obj_literal_p (ctx_lit_object context))
                          = LEXER_IDENT_LITERAL
                   then add_no_reg_store context else context);
                context =
                  (if loc_length literal_p = 4 \<and> take 4 chars = map of_char ''eval'' then
                     context\<lparr>ctx_lit_object := (ctx_lit_object context)
                       \<lparr>obj_type := LEXER_LITERAL_OBJECT_EVAL\<rparr>\<rparr>
                   else context);
                context =
                  (if loc_length literal_p = 9 \<and> take 9 chars = map of_char ''arguments'' then
                     (let context = context\<lparr>ctx_lit_object := (ctx_lit_object context)
                            \<lparr>obj_type := LEXER_LITERAL_OBJECT_ARGUMENTS\<rparr>\<rparr>
                      in if PARSER_ARGUMENTS_NOT_NEEDED \<notin> ctx_status_flags context
                            \<and> literal_type = LEXER_IDENT_LITERAL
                         then add_no_reg_store
                                (context\<lparr>ctx_status_flags := ctx_status_flags context
                                   \<union> {PARSER_ARGUMENTS_NEEDED, PARSER_LEXICAL_ENV_NEEDED}\<rparr>)
                         else context)
                   else context)
            in Inr context)))"

subsection \<open>lexer_construct_number_object\<close>

text \<open>The result is the returned flag (\<open>PARSER_TRUE\<close> for a small number) and the context.\<close>

definition lexer_construct_number_object ::
  "lexer_env \<Rightarrow> byte list \<Rightarrow> parser_context_t \<Rightarrow> bool \<Rightarrow> bool
    \<Rightarrow> (bool \<times> parser_context_t) result" where
  "lexer_construct_number_object env source context is_expr is_negative_number =
     (let literal_count = ctx_literal_count context;
          location = tok_lit_location (ctx_token context);
          chars = take (unat (loc_length location)) (drop (loc_char_p location) source);
          number = util_get_number env chars
      in
      if is_expr \<and> number \<le>s word_of_int CBC_PUSH_NUMBER_BYTE_RANGE_END
         \<and> (number \<noteq> 0 \<or> \<not> is_negative_number) then
        Inr (True, context\<lparr>ctx_lit_object := (ctx_lit_object context)\<lparr>obj_index := ucast number\<rparr>\<rparr>)
      else if unat literal_count \<ge> PARSER_MAXIMUM_NUMBER_OF_LITERALS env then
        parser_raise_error context PARSER_ERR_LITERAL_LIMIT_REACHED
      else
        (let literal_p = \<lparr>lit_chars = [], lit_length = loc_length location,
                          lit_type = LEXER_UNUSED_LITERAL, lit_status_flags = {}\<rparr>;
             (failed, literal_p) = util_set_number_literal env literal_p chars;
             pool = ctx_literal_pool context
         in
         if failed then
           parser_raise_error
             (context\<lparr>ctx_literal_pool := pool @ [literal_p],
                      ctx_literal_count := ctx_literal_count context + 1\<rparr>)
             PARSER_ERR_OUT_OF_MEMORY
         else
           Inr (False, context
             \<lparr>ctx_literal_pool := pool @ [literal_p\<lparr>lit_type := LEXER_NUMBER_LITERAL\<rparr>],
              ctx_literal_count := ctx_literal_count context + 1,
              ctx_lit_object :=
                \<lparr>obj_literal_p = length pool,
                 obj_index = literal_count,
                 obj_type = LEXER_LITERAL_OBJECT_ANY\<rparr>\<rparr>)))"

subsection \<open>lexer_construct_regexp_object\<close>








subsection \<open>Comparing identifiers\<close>

text \<open>
  \<open>memcmp (char_p, right_ident_p, len) == 0\<close> against bytes of the source: the \<open>len\<close>
  bytes at \<open>char_p\<close> have to be inside the buffer.
\<close>

definition lexer_memcmp_source :: "byte list \<Rightarrow> nat \<Rightarrow> byte list \<Rightarrow> nat \<Rightarrow> bool result" where
  "lexer_memcmp_source source char_p right_ident_p len =
     (if char_p + len > length source then Inl Out_of_bounds
      else Inr (take len (drop char_p source) = take len right_ident_p))"

definition lexer_compare_raw_identifier_to_current ::
  "byte list \<Rightarrow> parser_context_t \<Rightarrow> string \<Rightarrow> nat \<Rightarrow> bool result" where
  "lexer_compare_raw_identifier_to_current source context right_ident_p right_ident_length =
     (let left_ident_p = tok_lit_location (ctx_token context) in
      if unat (loc_length left_ident_p) \<noteq> right_ident_length \<or> loc_has_escape left_ident_p then
        Inr False
      else lexer_memcmp_source source (loc_char_p left_ident_p) (map of_char right_ident_p)
             right_ident_length)"

text \<open>
  \<open>lexer_decode_unicode_sequence\<close> reads the four digits of \<open>\uXXXX\<close> without checking
  them. The arithmetic is done on the 16 bit result.
\<close>

fun lexer_decode_unicode_digits ::
  "lexer_env \<Rightarrow> byte list \<Rightarrow> lexer_character_type_t \<Rightarrow> lexer_character_type_t" where
  "lexer_decode_unicode_digits env [] chr = chr"
| "lexer_decode_unicode_digits env (byte # bytes) chr =
     (let chr = push_bit 4 chr in
      lexer_decode_unicode_digits env bytes
        (if byte \<le> 0x39 then chr + ucast byte - 0x30
         else chr + ucast (LEXER_TO_ASCII_LOWERCASE env byte) - (0x61 - 10)))"

definition lexer_decode_unicode_sequence ::
  "lexer_env \<Rightarrow> byte list \<Rightarrow> nat \<Rightarrow> lexer_character_type_t option" where
  "lexer_decode_unicode_sequence env source source_p =
     (if source_p + 6 > length source then None
      else Some (lexer_decode_unicode_digits env (take 4 (drop (source_p + 2) source)) 0))"

text \<open>
  The inner loop of the comparison: the bytes of \<open>utf8_buf\<close> against the bytes at
  \<open>right_p\<close>, one after the other, up to the first difference.
\<close>

fun lexer_compare_utf8_buf :: "byte list \<Rightarrow> byte list \<Rightarrow> nat \<Rightarrow> bool option" where
  "lexer_compare_utf8_buf [] source right_p = Some True"
| "lexer_compare_utf8_buf (b # utf8_buf) source right_p =
     (case byte_at source right_p of
        None \<Rightarrow> None
      | Some c \<Rightarrow> if b \<noteq> c then Some False else lexer_compare_utf8_buf utf8_buf source (right_p + 1))"

record compare_t =
  cmp_left_p :: nat
  cmp_right_p :: nat
  cmp_count :: size_t

definition lexer_compare_identifier_body ::
  "lexer_env \<Rightarrow> byte list \<Rightarrow> compare_t \<Rightarrow> (compare_t, bool result) iteration" where
  "lexer_compare_identifier_body env source st =
     (case (byte_at source (cmp_left_p st), byte_at source (cmp_right_p st)) of
        (Some l, Some r) \<Rightarrow>
          if l \<noteq> 0x5c \<and> r \<noteq> 0x5c then
            (if l \<noteq> r then Leave (Inr False)
             else Continue (st\<lparr>cmp_left_p := cmp_left_p st + 1,
                               cmp_right_p := cmp_right_p st + 1,
                               cmp_count := cmp_count st - 1\<rparr>))
          else if l = 0x5c \<and> r = 0x5c then
            (case (lexer_decode_unicode_sequence env source (cmp_left_p st),
                   lexer_decode_unicode_sequence env source (cmp_right_p st)) of
               (Some left_chr, Some right_chr) \<Rightarrow>
                 if left_chr \<noteq> right_chr then Leave (Inr False)
                 else Continue (st\<lparr>cmp_left_p := cmp_left_p st + 6,
                                   cmp_right_p := cmp_right_p st + 6,
                                   cmp_count := cmp_count st + util_get_utf8_length left_chr\<rparr>)
             | _ \<Rightarrow> Leave (Inl Out_of_bounds))
          else
            (let (left_p, right_p) =
                   (if r = 0x5c then (cmp_right_p st, cmp_left_p st)
                    else (cmp_left_p st, cmp_right_p st))
             in case lexer_decode_unicode_sequence env source left_p of
                  None \<Rightarrow> Leave (Inl Out_of_bounds)
                | Some chr \<Rightarrow>
                    (let utf8_buf = util_to_utf8_bytes chr in
                     case lexer_compare_utf8_buf utf8_buf source right_p of
                       None \<Rightarrow> Leave (Inl Out_of_bounds)
                     | Some False \<Rightarrow> Leave (Inr False)
                     | Some True \<Rightarrow>
                         Continue (st\<lparr>cmp_left_p := left_p + 6,
                                      cmp_right_p := right_p + length utf8_buf,
                                      cmp_count := cmp_count st - of_nat (length utf8_buf)\<rparr>)))
      | _ \<Rightarrow> Leave (Inl Out_of_bounds))"

lemma util_to_utf8_bytes_length: "0 < length (util_to_utf8_bytes chr)"
  by (simp add: util_to_utf8_bytes_def)

lemma lexer_compare_identifier_body_advances:
  assumes "lexer_compare_identifier_body env source st = Continue st'"
  shows "cmp_left_p st < length source \<and> cmp_right_p st < length source
         \<and> (length source - cmp_left_p st') + (length source - cmp_right_p st')
             < (length source - cmp_left_p st) + (length source - cmp_right_p st)"
  using assms util_to_utf8_bytes_length
  by (auto simp: lexer_compare_identifier_body_def byte_at_def Let_def
      lexer_decode_unicode_sequence_def
      split: if_splits option.splits bool.splits prod.splits)

function lexer_compare_identifier_loop ::
  "lexer_env \<Rightarrow> byte list \<Rightarrow> compare_t \<Rightarrow> bool result" where
  "lexer_compare_identifier_loop env source st =
     (case lexer_compare_identifier_body env source st of
        Leave r \<Rightarrow> r
      | Continue st' \<Rightarrow>
          if cmp_count st' > 0 then lexer_compare_identifier_loop env source st'
          else Inr True)"
  by pat_completeness auto
termination
proof (relation "measure (\<lambda>(env, source, st).
         (length source - cmp_left_p st) + (length source - cmp_right_p st))")
  show "wf (measure (\<lambda>(env, source, st).
         (length source - cmp_left_p st) + (length source - cmp_right_p st)))"
    by simp
next
  fix env :: lexer_env and source st st'
  assume "lexer_compare_identifier_body env source st = Continue st'"
  from lexer_compare_identifier_body_advances [OF this]
  show "((env, source, st'), (env, source, st))
          \<in> measure (\<lambda>(env, source, st).
               (length source - cmp_left_p st) + (length source - cmp_right_p st))"
    by simp arith
qed

definition lexer_compare_identifier_to_current ::
  "lexer_env \<Rightarrow> byte list \<Rightarrow> parser_context_t \<Rightarrow> lexer_lit_location_t \<Rightarrow> bool result" where
  "lexer_compare_identifier_to_current env source context right_ident_p =
     (let left_ident_p = tok_lit_location (ctx_token context) in
      if loc_length left_ident_p \<noteq> loc_length right_ident_p then Inr False
      else if \<not> loc_has_escape left_ident_p \<and> \<not> loc_has_escape right_ident_p then
        (if loc_char_p right_ident_p + unat (loc_length left_ident_p) > length source
         then Inl Out_of_bounds
         else lexer_memcmp_source source (loc_char_p left_ident_p)
                (drop (loc_char_p right_ident_p) source) (unat (loc_length left_ident_p)))
      else lexer_compare_identifier_loop env source
             \<lparr>cmp_left_p = loc_char_p left_ident_p,
              cmp_right_p = loc_char_p right_ident_p,
              cmp_count = ucast (loc_length left_ident_p)\<rparr>)"

subsection \<open>lexer_scan_identifier and lexer_expect_object_literal_id\<close>

text \<open>Sequencing of calls that may raise.\<close>

definition and_then :: "'a result \<Rightarrow> ('a \<Rightarrow> 'b result) \<Rightarrow> 'b result" where
  "and_then r f = (case r of Inl e \<Rightarrow> Inl e | Inr x \<Rightarrow> f x)"

definition set_token_type :: "parser_context_t \<Rightarrow> lexer_token_type_t \<Rightarrow> parser_context_t" where
  "set_token_type context t = context\<lparr>ctx_token := (ctx_token context)\<lparr>tok_type := t\<rparr>\<rparr>"

text \<open>
  The getter and setter test both functions make after an identifier of length 3:
  \<open>Some\<close> is the token type the function returns with at once.
\<close>

definition lexer_check_getter_setter ::
  "byte list \<Rightarrow> parser_context_t \<Rightarrow> (parser_context_t \<times> lexer_token_type_t option) result" where
  "lexer_check_getter_setter source context0 =
     and_then (lexer_skip_spaces source context0) (\<lambda>context.
       if ctx_source_p context < length source \<and> source ! ctx_source_p context \<noteq> 0x3a then
         and_then (lexer_compare_raw_identifier_to_current source context ''get'' 3) (\<lambda>is_get.
           if is_get then Inr (context, Some LEXER_PROPERTY_GETTER)
           else
             and_then (lexer_compare_raw_identifier_to_current source context ''set'' 3) (\<lambda>is_set.
               if is_set then Inr (context, Some LEXER_PROPERTY_SETTER)
               else Inr (context, None)))
       else Inr (context, None))"

definition lexer_scan_identifier ::
  "lexer_env \<Rightarrow> byte list \<Rightarrow> parser_context_t \<Rightarrow> bool \<Rightarrow> parser_context_t result" where
  "lexer_scan_identifier env source context0 property_name =
     and_then (lexer_skip_spaces source context0) (\<lambda>context1.
       let context = context1
             \<lparr>ctx_token := (ctx_token context1)
                \<lparr>tok_line := ctx_line context1, tok_column := ctx_column context1\<rparr>\<rparr>
       in
       if ctx_source_p context < length source
          \<and> (util_is_identifier_start env source (ctx_source_p context)
              \<or> source ! ctx_source_p context = 0x5c) then
         and_then (lexer_parse_identifier env source context False) (\<lambda>context.
           if property_name \<and> loc_length (tok_lit_location (ctx_token context)) = 3 then
             and_then (lexer_check_getter_setter source context) (\<lambda>(context, found).
               case found of
                 Some t \<Rightarrow> Inr (set_token_type context t)
               | None \<Rightarrow> Inr context)
           else Inr context)
       else if property_name then
         and_then (lexer_next_token env source context) (\<lambda>context.
           if tok_type (ctx_token context) = LEXER_LITERAL
              \<or> tok_type (ctx_token context) = LEXER_LEFT_SQUARE
              \<or> tok_type (ctx_token context) = LEXER_RIGHT_BRACE
           then Inr context
           else parser_raise_error context PARSER_ERR_IDENTIFIER_EXPECTED)
       else parser_raise_error context PARSER_ERR_IDENTIFIER_EXPECTED)"

text \<open>
  The end of \<open>lexer_expect_object_literal_id\<close>, where \<open>create_literal_object\<close> is set.
\<close>

definition lexer_create_literal_object ::
  "lexer_env \<Rightarrow> byte list \<Rightarrow> parser_context_t \<Rightarrow> bool \<Rightarrow> parser_context_t result" where
  "lexer_create_literal_object env source context is_class_method =
     and_then (if is_class_method
               then lexer_compare_raw_identifier_to_current source context ''constructor'' 11
               else Inr False) (\<lambda>is_constructor.
       if is_constructor then Inr (set_token_type context LEXER_CLASS_CONSTRUCTOR)
       else lexer_construct_literal_object env source context
              (tok_lit_location (ctx_token context)) LEXER_STRING_LITERAL)"

definition lexer_expect_object_literal_id ::
  "lexer_env \<Rightarrow> byte list \<Rightarrow> parser_context_t \<Rightarrow> lexer_obj_ident_opts_t set
    \<Rightarrow> parser_context_t result" where
  "lexer_expect_object_literal_id env source context0 ident_opts =
     and_then (lexer_skip_spaces source context0) (\<lambda>context1.
       let is_class_method = (LEXER_OBJ_IDENT_CLASS_METHOD \<in> ident_opts
                               \<and> LEXER_OBJ_IDENT_ONLY_IDENTIFIERS \<notin> ident_opts
                               \<and> tok_type (ctx_token context1) \<noteq> LEXER_KEYW_STATIC);
           context = context1
             \<lparr>ctx_token := (ctx_token context1)
                \<lparr>tok_line := ctx_line context1, tok_column := ctx_column context1\<rparr>\<rparr>;
           source_p = ctx_source_p context
       in
       if source_p < length source then
         (if util_is_identifier_start env source source_p \<or> source ! source_p = 0x5c then
            and_then (lexer_parse_identifier env source context False) (\<lambda>context.
              and_then
                (if LEXER_OBJ_IDENT_ONLY_IDENTIFIERS \<notin> ident_opts
                    \<and> loc_length (tok_lit_location (ctx_token context)) = 3
                 then lexer_check_getter_setter source context
                 else Inr (context, None)) (\<lambda>(context, found).
                case found of
                  Some t \<Rightarrow> Inr (set_token_type context t)
                | None \<Rightarrow>
                    and_then (if is_class_method
                              then lexer_compare_raw_identifier_to_current source context ''static'' 6
                              else Inr False) (\<lambda>is_static.
                      if is_static then Inr (set_token_type context LEXER_KEYW_STATIC)
                      else lexer_create_literal_object env source context is_class_method)))
          else if source ! source_p = 0x22 \<or> source ! source_p = 0x27 then
            and_then (lexer_parse_string env source context) (\<lambda>context.
              lexer_create_literal_object env source context is_class_method)
          else if source ! source_p = 0x5b then
            and_then (lexer_next_token env source
                        (context\<lparr>ctx_source_p := source_p + 1,
                                 ctx_column := ctx_column context + 1\<rparr>)) (\<lambda>context.
              and_then (parser_parse_expression env source context) (\<lambda>context.
                if tok_type (ctx_token context) \<noteq> LEXER_RIGHT_SQUARE then
                  parser_raise_error context PARSER_ERR_RIGHT_SQUARE_EXPECTED
                else Inr context))
          else if LEXER_OBJ_IDENT_ONLY_IDENTIFIERS \<notin> ident_opts \<and> source ! source_p = 0x7d then
            Inr ((set_token_type context LEXER_RIGHT_BRACE)
                   \<lparr>ctx_source_p := source_p + 1, ctx_column := ctx_column context + 1\<rparr>)
          else
            (let char_p = (if source ! source_p = 0x2e then source_p + 1 else source_p) in
             if char_p < length source \<and> source ! char_p \<ge> 0x30 \<and> source ! char_p \<le> 0x39 then
               and_then (lexer_parse_number env source context) (\<lambda>context.
                 and_then (lexer_construct_number_object env source context False False)
                   (\<lambda>(small, context). Inr context))
             else parser_raise_error context PARSER_ERR_PROPERTY_IDENTIFIER_EXPECTED))
       else parser_raise_error context PARSER_ERR_PROPERTY_IDENTIFIER_EXPECTED)"

subsection \<open>A context and an environment for the examples\<close>

text \<open>
  The examples run the lexer on short sources. \<open>example_context\<close> is a context at the
  start of a source, with an empty literal pool. \<open>example_env\<close> knows the ASCII
  identifier characters only, reads a number as a run of decimal digits, and has the
  limits 255 (identifier), 65535 (string) and 511 (literals); its argument tells whether
  allocations fail.
\<close>

definition example_context :: parser_context_t where
  "example_context =
     \<lparr>ctx_status_flags = {},
      ctx_source_p = 0,
      ctx_line = 1,
      ctx_column = 1,
      ctx_token =
        \<lparr>tok_type = LEXER_EOS, tok_literal_is_reserved = False,
         tok_extra_value = LEXER_NUMBER_DECIMAL, tok_flags = {},
         tok_line = 1, tok_column = 1,
         tok_lit_location =
           \<lparr>loc_char_p = 0, loc_length = 0, loc_type = LEXER_IDENT_LITERAL,
            loc_has_escape = False\<rparr>\<rparr>,
      ctx_lit_object =
        \<lparr>obj_literal_p = 0, obj_index = 0, obj_type = LEXER_LITERAL_OBJECT_ANY\<rparr>,
      ctx_literal_pool = [],
      ctx_literal_count = 0\<rparr>"

definition example_is_identifier_start :: "byte \<Rightarrow> bool" where
  "example_is_identifier_start b =
     ((0x61 \<le> b \<and> b \<le> 0x7a) \<or> (0x41 \<le> b \<and> b \<le> 0x5a) \<or> b = 0x24 \<or> b = 0x5f)"

definition example_is_identifier_part :: "byte \<Rightarrow> bool" where
  "example_is_identifier_part b = (example_is_identifier_start b \<or> (0x30 \<le> b \<and> b \<le> 0x39))"

definition example_env :: "bool \<Rightarrow> lexer_env" where
  "example_env out_of_memory =
     \<lparr>util_is_identifier_start =
        (\<lambda>source source_p. source_p < length source \<and> example_is_identifier_start (source ! source_p)),
      util_is_identifier_part =
        (\<lambda>source source_p. source_p < length source \<and> example_is_identifier_part (source ! source_p)),
      util_is_identifier_start_character = (\<lambda>chr. chr < 0x80 \<and> example_is_identifier_start (ucast chr)),
      util_is_identifier_part_character = (\<lambda>chr. chr < 0x80 \<and> example_is_identifier_part (ucast chr)),
      is_future_strict_reserved_word =
        (\<lambda>t. t \<in> {LEXER_KEYW_IMPLEMENTS, LEXER_KEYW_LET, LEXER_KEYW_PRIVATE, LEXER_KEYW_PUBLIC,
                   LEXER_KEYW_YIELD, LEXER_KEYW_INTERFACE, LEXER_KEYW_PACKAGE,
                   LEXER_KEYW_PROTECTED, LEXER_KEYW_STATIC}),
      PARSER_MAXIMUM_IDENT_LENGTH = 255,
      PARSER_MAXIMUM_STRING_LENGTH = 65535,
      PARSER_MAXIMUM_NUMBER_OF_LITERALS = 511,
      LEXER_TO_ASCII_LOWERCASE = (\<lambda>b. b OR 0x20),
      util_get_number = (\<lambda>chars. foldl (\<lambda>n c. n * 10 + (ucast c - 0x30)) 0 chars),
      util_set_number_literal = (\<lambda>literal_p chars. (out_of_memory, literal_p\<lparr>lit_chars := chars\<rparr>)),
      util_set_regexp_literal = (\<lambda>literal_p chars. (False, literal_p\<lparr>lit_chars := chars\<rparr>)),
      parser_malloc_fails = (\<lambda>n. out_of_memory),
      parser_parse_expression = (\<lambda>source context. Inr context)\<rparr>"

subsection \<open>Surrogate pairs, as the specification words them\<close>

text \<open>
  The code point a four byte UTF-8 sequence encodes (three bits of the first byte and six
  bits of each of the other bytes), the two surrogate code units of a code point above
  \<open>0xFFFF\<close>, and the three byte UTF-8 encoding of a 16 bit code unit. These are written
  over the natural numbers, independently of the decoder, and are what the decoder is
  compared with.
\<close>

definition utf8_4byte_codepoint :: "byte \<Rightarrow> byte \<Rightarrow> byte \<Rightarrow> byte \<Rightarrow> nat" where
  "utf8_4byte_codepoint b0 b1 b2 b3 =
     (unat b0 mod 8) * 2 ^ 18 + (unat b1 mod 64) * 2 ^ 12 + (unat b2 mod 64) * 2 ^ 6
       + unat b3 mod 64"

definition surrogate_high :: "nat \<Rightarrow> nat" where
  "surrogate_high C = 0xD800 OR drop_bit 10 (C - 0x10000)"

definition surrogate_low :: "nat \<Rightarrow> nat" where
  "surrogate_low C = 0xDC00 OR ((C - 0x10000) AND 0x3FF)"

definition utf8_3byte_encoding :: "nat \<Rightarrow> byte list" where
  "utf8_3byte_encoding u =
     [of_nat (0xe0 + u div 2 ^ 12), of_nat (0x80 + u div 2 ^ 6 mod 64), of_nat (0x80 + u mod 64)]"

subsection \<open>Runs of the scanning loops\<close>





section \<open>Properties of the opcode lists\<close>

text \<open>
  C1 at failing inputs. The header says of the branch opcodes that bit \<open>0x4\<close> of the
  opcode tells the direction (clear for a forward branch, set for a backward branch), and
  of the extended list that all its branches are forward branches. The enumeration does
  not keep this. \<open>CBC_BRANCH_IF_LOGICAL_TRUE\<close> is a forward branch (it comes from
  \<open>CBC_FORWARD_BRANCH\<close> and carries \<open>CBC_FORWARD_BRANCH_ARG\<close>) with enumerator 29, whose
  bit \<open>0x4\<close> is set, and four positions later sits \<open>CBC_BRANCH_IF_LOGICAL_FALSE\<close>,
  another forward branch, not its backward form. In the extended list
  \<open>CBC_EXT_BRANCH_IF_FOR_IN_HAS_NEXT\<close> comes from \<open>CBC_BACKWARD_BRANCH\<close>: it is a
  backward branch, with enumerator 9, whose bit \<open>0x4\<close> is clear.
\<close>

theorem cbc_direction_bit_counterexample:
  "cbc_ordinal cbc_opcode_t ''CBC_BRANCH_IF_LOGICAL_TRUE'' = Some 29
   \<and> (29, 1, True) \<in> set (cbc_branches 0 CBC_OPCODE_LIST)
   \<and> CBC_BRANCH_IS_FORWARD (cbc_flags cbc_opcode_t 29)
   \<and> (29 :: nat) AND 0x4 \<noteq> 0
   \<and> cbc_ordinal cbc_opcode_t ''CBC_BRANCH_IF_LOGICAL_FALSE'' = Some (29 + 4)
   \<and> CBC_BRANCH_IS_FORWARD (cbc_flags cbc_opcode_t (29 + 4))
   \<and> cbc_ordinal cbc_ext_opcode_t ''CBC_EXT_BRANCH_IF_FOR_IN_HAS_NEXT'' = Some 9
   \<and> (9, 1, False) \<in> set (cbc_branches 0 CBC_EXT_OPCODE_LIST)
   \<and> CBC_BRANCH_IS_BACKWARD (cbc_flags cbc_ext_opcode_t 9)
   \<and> (9 :: nat) AND 0x4 = 0"
  by code_simp

text \<open>
  What the two lists do keep. For every branch opcode \<open>opcode & 0x3\<close> is the width in
  bytes of the branch offset, and it is 1, 2 or 3. \<open>CBC_FORWARD_BRANCH_ARG\<close> is set in
  the flag table exactly on the opcodes of the \<open>CBC_FORWARD_BRANCH\<close> expansions. In
  \<open>CBC_OPCODE_LIST\<close> every backward branch has bit \<open>0x4\<close> of its enumerator set, and the
  three forward branches that have a backward form (jump, branch if true, branch if false)
  have it exactly 4 positions later, in the same group of 8.
\<close>

lemma cbc_branch_layout:
  "(\<forall>(opcode, width, forward)
       \<in> set (cbc_branches 0 CBC_OPCODE_LIST @ cbc_branches 0 CBC_EXT_OPCODE_LIST).
      CBC_BRANCH_OFFSET_LENGTH opcode = width \<and> width \<in> {1, 2, 3})
   \<and> (\<forall>(opcode, width, forward) \<in> set (cbc_branches 0 CBC_OPCODE_LIST).
        cbc_flags cbc_opcode_t opcode AND CBC_HAS_BRANCH_ARG \<noteq> 0
        \<and> CBC_BRANCH_IS_FORWARD (cbc_flags cbc_opcode_t opcode) = forward
        \<and> CBC_BRANCH_IS_BACKWARD (cbc_flags cbc_opcode_t opcode) = (\<not> forward)
        \<and> (\<not> forward \<longrightarrow> opcode AND 0x4 \<noteq> 0))
   \<and> (\<forall>(opcode, width, forward) \<in> set (cbc_branches 0 CBC_EXT_OPCODE_LIST).
        cbc_flags cbc_ext_opcode_t opcode AND CBC_HAS_BRANCH_ARG \<noteq> 0
        \<and> CBC_BRANCH_IS_FORWARD (cbc_flags cbc_ext_opcode_t opcode) = forward
        \<and> CBC_BRANCH_IS_BACKWARD (cbc_flags cbc_ext_opcode_t opcode) = (\<not> forward))
   \<and> cbc_ordinal cbc_opcode_t ''CBC_JUMP_FORWARD'' = Some 1
   \<and> cbc_ordinal cbc_opcode_t ''CBC_JUMP_BACKWARD'' = Some (1 + 4)
   \<and> cbc_ordinal cbc_opcode_t ''CBC_BRANCH_IF_TRUE_FORWARD'' = Some 9
   \<and> cbc_ordinal cbc_opcode_t ''CBC_BRANCH_IF_TRUE_BACKWARD'' = Some (9 + 4)
   \<and> cbc_ordinal cbc_opcode_t ''CBC_BRANCH_IF_FALSE_FORWARD'' = Some 17
   \<and> cbc_ordinal cbc_opcode_t ''CBC_BRANCH_IF_FALSE_BACKWARD'' = Some (17 + 4)"
  by code_simp

lemma cbc_branch_layout_example:
  "(30, 2, True) \<in> set (cbc_branches 0 CBC_OPCODE_LIST @ cbc_branches 0 CBC_EXT_OPCODE_LIST)
   \<and> (14, 2, False) \<in> set (cbc_branches 0 CBC_OPCODE_LIST)
   \<and> (6, 2, True) \<in> set (cbc_branches 0 CBC_EXT_OPCODE_LIST)
   \<and> CBC_BRANCH_OFFSET_LENGTH 30 = 2
   \<and> CBC_BRANCH_IS_BACKWARD (cbc_flags cbc_opcode_t 14)
   \<and> (14 :: nat) AND 0x4 \<noteq> 0
   \<and> CBC_BRANCH_IS_FORWARD (cbc_flags cbc_ext_opcode_t 6)"
proof -
  have m1: "(30, 2, True) \<in> set (cbc_branches 0 CBC_OPCODE_LIST @ cbc_branches 0 CBC_EXT_OPCODE_LIST)"
    by code_simp
  have m2: "(14, 2, False) \<in> set (cbc_branches 0 CBC_OPCODE_LIST)"
    by code_simp
  have m3: "(6, 2, True) \<in> set (cbc_branches 0 CBC_EXT_OPCODE_LIST)"
    by code_simp
  from cbc_branch_layout have
    a: "\<forall>(opcode, width, forward)
          \<in> set (cbc_branches 0 CBC_OPCODE_LIST @ cbc_branches 0 CBC_EXT_OPCODE_LIST).
         CBC_BRANCH_OFFSET_LENGTH opcode = width \<and> width \<in> {1, 2, 3}"
    and b: "\<forall>(opcode, width, forward) \<in> set (cbc_branches 0 CBC_OPCODE_LIST).
        cbc_flags cbc_opcode_t opcode AND CBC_HAS_BRANCH_ARG \<noteq> 0
        \<and> CBC_BRANCH_IS_FORWARD (cbc_flags cbc_opcode_t opcode) = forward
        \<and> CBC_BRANCH_IS_BACKWARD (cbc_flags cbc_opcode_t opcode) = (\<not> forward)
        \<and> (\<not> forward \<longrightarrow> opcode AND 0x4 \<noteq> 0)"
    and c: "\<forall>(opcode, width, forward) \<in> set (cbc_branches 0 CBC_EXT_OPCODE_LIST).
        cbc_flags cbc_ext_opcode_t opcode AND CBC_HAS_BRANCH_ARG \<noteq> 0
        \<and> CBC_BRANCH_IS_FORWARD (cbc_flags cbc_ext_opcode_t opcode) = forward
        \<and> CBC_BRANCH_IS_BACKWARD (cbc_flags cbc_ext_opcode_t opcode) = (\<not> forward)"
    by blast+
  from a m1 have "CBC_BRANCH_OFFSET_LENGTH 30 = 2" by fast
  moreover from b m2 have "CBC_BRANCH_IS_BACKWARD (cbc_flags cbc_opcode_t 14) \<and> (14 :: nat) AND 0x4 \<noteq> 0"
    by fast
  moreover from c m3 have "CBC_BRANCH_IS_FORWARD (cbc_flags cbc_ext_opcode_t 6)" by fast
  ultimately show ?thesis using m1 m2 m3 by blast
qed

section \<open>Comparing and interning identifiers\<close>

lemmas identifier_decode_eval =
  lexer_literal_chars_def lexer_decode_identifier_loop.simps lexer_decode_identifier_body_def
  lexer_hex_to_character_def lexer_hex_loop.simps lexer_hex_digit_def
  util_to_utf8_bytes_def byte_at_def Let_def IS_UTF8_INTERMEDIATE_OCTET_def

lemma intern_both_escaped:
  "\<exists>context1 context2.
     lexer_construct_literal_object (example_env False)
        [0x5c, 0x75, 0x30, 0x30, 0x36, 0x31, 0x3a, 0x5c, 0x75, 0x30, 0x30, 0x36, 0x31, 0x3b]
        example_context
        \<lparr>loc_char_p = 0, loc_length = 1, loc_type = LEXER_IDENT_LITERAL, loc_has_escape = True\<rparr>
        LEXER_IDENT_LITERAL = Inr context1
     \<and> lexer_construct_literal_object (example_env False)
        [0x5c, 0x75, 0x30, 0x30, 0x36, 0x31, 0x3a, 0x5c, 0x75, 0x30, 0x30, 0x36, 0x31, 0x3b]
        context1
        \<lparr>loc_char_p = 7, loc_length = 1, loc_type = LEXER_IDENT_LITERAL, loc_has_escape = True\<rparr>
        LEXER_IDENT_LITERAL = Inr context2
     \<and> obj_index (ctx_lit_object context1) = 0
     \<and> obj_index (ctx_lit_object context2) = 0
     \<and> length (ctx_literal_pool context2) = 1"
  by (simp add: lexer_construct_literal_object_def identifier_decode_eval
      lexer_process_char_literal_def util_set_char_literal_def util_compare_char_literals_def
      example_env_def example_is_identifier_part_def example_is_identifier_start_def
      example_context_def)

text \<open>
  C2 at a failing input. The source is \<open>a:a;\<close>: the identifier \<open>a\<close> spelled
  with an escape at offset 0 (the current token) and spelled the same way at offset 7.
  Both spellings decode to the one byte \<open>a\<close> and interning them gives the same pool
  index 0, but \<open>lexer_compare_identifier_to_current\<close> returns zero. When both sides are
  at an escape the loop adds the length of the character to \<open>count\<close> where the other
  branches subtract it, so the loop does not stop at the end of the identifiers and goes
  on to compare the colon with the semicolon.
\<close>

theorem compare_identifier_both_escaped:
  "lexer_compare_identifier_to_current (example_env False)
      [0x5c, 0x75, 0x30, 0x30, 0x36, 0x31, 0x3a, 0x5c, 0x75, 0x30, 0x30, 0x36, 0x31, 0x3b]
      (example_context
         \<lparr>ctx_token := (ctx_token example_context)
            \<lparr>tok_type := LEXER_LITERAL,
             tok_lit_location :=
               \<lparr>loc_char_p = 0, loc_length = 1, loc_type = LEXER_IDENT_LITERAL,
                loc_has_escape = True\<rparr>\<rparr>\<rparr>)
      \<lparr>loc_char_p = 7, loc_length = 1, loc_type = LEXER_IDENT_LITERAL, loc_has_escape = True\<rparr>
     = Inr False
   \<and> lexer_literal_chars (example_env False)
      [0x5c, 0x75, 0x30, 0x30, 0x36, 0x31, 0x3a, 0x5c, 0x75, 0x30, 0x30, 0x36, 0x31, 0x3b]
      example_context
      \<lparr>loc_char_p = 0, loc_length = 1, loc_type = LEXER_IDENT_LITERAL, loc_has_escape = True\<rparr>
     = Inr [0x61]
   \<and> lexer_literal_chars (example_env False)
      [0x5c, 0x75, 0x30, 0x30, 0x36, 0x31, 0x3a, 0x5c, 0x75, 0x30, 0x30, 0x36, 0x31, 0x3b]
      example_context
      \<lparr>loc_char_p = 7, loc_length = 1, loc_type = LEXER_IDENT_LITERAL, loc_has_escape = True\<rparr>
     = Inr [0x61]
   \<and> (\<exists>context1 context2.
     lexer_construct_literal_object (example_env False)
        [0x5c, 0x75, 0x30, 0x30, 0x36, 0x31, 0x3a, 0x5c, 0x75, 0x30, 0x30, 0x36, 0x31, 0x3b]
        example_context
        \<lparr>loc_char_p = 0, loc_length = 1, loc_type = LEXER_IDENT_LITERAL, loc_has_escape = True\<rparr>
        LEXER_IDENT_LITERAL = Inr context1
     \<and> lexer_construct_literal_object (example_env False)
        [0x5c, 0x75, 0x30, 0x30, 0x36, 0x31, 0x3a, 0x5c, 0x75, 0x30, 0x30, 0x36, 0x31, 0x3b]
        context1
        \<lparr>loc_char_p = 7, loc_length = 1, loc_type = LEXER_IDENT_LITERAL, loc_has_escape = True\<rparr>
        LEXER_IDENT_LITERAL = Inr context2
     \<and> obj_index (ctx_lit_object context1) = 0
     \<and> obj_index (ctx_lit_object context2) = 0
     \<and> length (ctx_literal_pool context2) = 1)"
proof (intro conjI)
  show "lexer_compare_identifier_to_current (example_env False)
      [0x5c, 0x75, 0x30, 0x30, 0x36, 0x31, 0x3a, 0x5c, 0x75, 0x30, 0x30, 0x36, 0x31, 0x3b]
      (example_context
         \<lparr>ctx_token := (ctx_token example_context)
            \<lparr>tok_type := LEXER_LITERAL,
             tok_lit_location :=
               \<lparr>loc_char_p = 0, loc_length = 1, loc_type = LEXER_IDENT_LITERAL,
                loc_has_escape = True\<rparr>\<rparr>\<rparr>)
      \<lparr>loc_char_p = 7, loc_length = 1, loc_type = LEXER_IDENT_LITERAL, loc_has_escape = True\<rparr>
     = Inr False"
    by (simp add: lexer_compare_identifier_to_current_def lexer_compare_identifier_loop.simps
        lexer_compare_identifier_body_def lexer_decode_unicode_sequence_def
        util_get_utf8_length_def byte_at_def Let_def example_context_def)
  show "lexer_literal_chars (example_env False)
      [0x5c, 0x75, 0x30, 0x30, 0x36, 0x31, 0x3a, 0x5c, 0x75, 0x30, 0x30, 0x36, 0x31, 0x3b]
      example_context
      \<lparr>loc_char_p = 0, loc_length = 1, loc_type = LEXER_IDENT_LITERAL, loc_has_escape = True\<rparr>
     = Inr [0x61]"
    by (simp add: identifier_decode_eval example_env_def example_is_identifier_part_def
        example_is_identifier_start_def)
  show "lexer_literal_chars (example_env False)
      [0x5c, 0x75, 0x30, 0x30, 0x36, 0x31, 0x3a, 0x5c, 0x75, 0x30, 0x30, 0x36, 0x31, 0x3b]
      example_context
      \<lparr>loc_char_p = 7, loc_length = 1, loc_type = LEXER_IDENT_LITERAL, loc_has_escape = True\<rparr>
     = Inr [0x61]"
    by (simp add: identifier_decode_eval example_env_def example_is_identifier_part_def
        example_is_identifier_start_def)
  show "\<exists>context1 context2.
     lexer_construct_literal_object (example_env False)
        [0x5c, 0x75, 0x30, 0x30, 0x36, 0x31, 0x3a, 0x5c, 0x75, 0x30, 0x30, 0x36, 0x31, 0x3b]
        example_context
        \<lparr>loc_char_p = 0, loc_length = 1, loc_type = LEXER_IDENT_LITERAL, loc_has_escape = True\<rparr>
        LEXER_IDENT_LITERAL = Inr context1
     \<and> lexer_construct_literal_object (example_env False)
        [0x5c, 0x75, 0x30, 0x30, 0x36, 0x31, 0x3a, 0x5c, 0x75, 0x30, 0x30, 0x36, 0x31, 0x3b]
        context1
        \<lparr>loc_char_p = 7, loc_length = 1, loc_type = LEXER_IDENT_LITERAL, loc_has_escape = True\<rparr>
        LEXER_IDENT_LITERAL = Inr context2
     \<and> obj_index (ctx_lit_object context1) = 0
     \<and> obj_index (ctx_lit_object context2) = 0
     \<and> length (ctx_literal_pool context2) = 1"
    by (rule intern_both_escaped)
qed

section \<open>Properties of the literal pool\<close>

lemma lexer_find_char_literal_Some:
  "lexer_find_char_literal pool char_p len literal_type k = Some i \<Longrightarrow>
     k \<le> i \<and> i - k < length pool
     \<and> lit_type (pool ! (i - k)) = literal_type
     \<and> ucast (lit_length (pool ! (i - k))) = len
     \<and> util_compare_char_literals (pool ! (i - k)) char_p
     \<and> (\<forall>j < i - k. \<not> (lit_type (pool ! j) = literal_type
                        \<and> ucast (lit_length (pool ! j)) = len
                        \<and> util_compare_char_literals (pool ! j) char_p))"
proof (induction pool arbitrary: k)
  case Nil
  then show ?case by simp
next
  case (Cons literal_p pool)
  show ?case
  proof (cases "lit_type literal_p = literal_type \<and> ucast (lit_length literal_p) = len
                \<and> util_compare_char_literals literal_p char_p")
    case True
    with Cons.prems show ?thesis by auto
  next
    case False
    with Cons.prems have f: "lexer_find_char_literal pool char_p len literal_type (k + 1) = Some i"
      by auto
    from Cons.IH [OF f] have ih: "k + 1 \<le> i" "i - (k + 1) < length pool"
      "lit_type (pool ! (i - (k + 1))) = literal_type"
      "ucast (lit_length (pool ! (i - (k + 1)))) = len"
      "util_compare_char_literals (pool ! (i - (k + 1))) char_p"
      "\<forall>j < i - (k + 1). \<not> (lit_type (pool ! j) = literal_type
                        \<and> ucast (lit_length (pool ! j)) = len
                        \<and> util_compare_char_literals (pool ! j) char_p)"
      by blast+
    from ih(1) have s: "i - k = Suc (i - (k + 1))" by arith
    have "\<forall>j < i - k. \<not> (lit_type ((literal_p # pool) ! j) = literal_type
                        \<and> ucast (lit_length ((literal_p # pool) ! j)) = len
                        \<and> util_compare_char_literals ((literal_p # pool) ! j) char_p)"
    proof (intro allI impI)
      fix j assume "j < i - k"
      then show "\<not> (lit_type ((literal_p # pool) ! j) = literal_type
                        \<and> ucast (lit_length ((literal_p # pool) ! j)) = len
                        \<and> util_compare_char_literals ((literal_p # pool) ! j) char_p)"
        using False ih(6) s by (cases j) auto
    qed
    with ih s show ?thesis by simp
  qed
qed

lemma lexer_find_char_literal_None:
  "lexer_find_char_literal pool char_p len literal_type k = None \<longleftrightarrow>
     (\<forall>literal_p \<in> set pool. \<not> (lit_type literal_p = literal_type
                        \<and> ucast (lit_length literal_p) = len
                        \<and> util_compare_char_literals literal_p char_p))"
  by (induction pool arbitrary: k) auto

lemma lexer_find_char_literal_first:
  assumes "i < length pool"
      and "lit_type (pool ! i) = literal_type \<and> ucast (lit_length (pool ! i)) = len
           \<and> util_compare_char_literals (pool ! i) char_p"
      and "\<forall>j < i. \<not> (lit_type (pool ! j) = literal_type \<and> ucast (lit_length (pool ! j)) = len
                      \<and> util_compare_char_literals (pool ! j) char_p)"
  shows "lexer_find_char_literal pool char_p len literal_type 0 = Some i"
proof (cases "lexer_find_char_literal pool char_p len literal_type 0")
  case None
  with assms(1,2) show ?thesis
    by (auto simp: lexer_find_char_literal_None)
next
  case (Some i')
  from lexer_find_char_literal_Some [OF Some]
  have i': "i' < length pool"
    "lit_type (pool ! i') = literal_type \<and> ucast (lit_length (pool ! i')) = len
      \<and> util_compare_char_literals (pool ! i') char_p"
    "\<forall>j < i'. \<not> (lit_type (pool ! j) = literal_type \<and> ucast (lit_length (pool ! j)) = len
                      \<and> util_compare_char_literals (pool ! j) char_p)"
    by simp_all
  have "\<not> i < i'" using i'(3) assms(2) by blast
  moreover have "\<not> i' < i" using assms(3) i'(2) by blast
  ultimately have "i' = i" by arith
  with Some show ?thesis by simp
qed

text \<open>
  C3, as stated, fails in one case: when no entry matches and the pool is not full, the
  function can still leave with an error. The buffer for an entry with escapes is
  allocated by \<open>util_set_char_literal\<close>, and when that fails the function raises
  \<open>PARSER_ERR_OUT_OF_MEMORY\<close> after the entry has been appended, without setting the
  index and without incrementing \<open>literal_count\<close>.
\<close>

theorem process_char_literal_out_of_memory_counterexample:
  "lexer_find_char_literal (ctx_literal_pool example_context) [0x61] 1 LEXER_STRING_LITERAL 0 = None
   \<and> length (ctx_literal_pool example_context) < PARSER_MAXIMUM_NUMBER_OF_LITERALS (example_env True)
   \<and> lexer_process_char_literal (example_env True) example_context [0x61] 1 LEXER_STRING_LITERAL True
       = Inl (Raised PARSER_ERR_OUT_OF_MEMORY
               (example_context
                  \<lparr>ctx_literal_pool :=
                     [\<lparr>lit_chars = [], lit_length = 1, lit_type = LEXER_STRING_LITERAL,
                       lit_status_flags = {}\<rparr>]\<rparr>))
   \<and> ctx_literal_count example_context = 0"
  by (simp add: lexer_process_char_literal_def example_context_def example_env_def
      util_set_char_literal_def parser_raise_error_def Let_def)

text \<open>
  C3, amended. The context satisfies the assertion of the function, that
  \<open>literal_count\<close> is the number of entries of the pool. An entry matches when it has the
  type and the length asked for and \<open>util_compare_char_literals\<close> accepts it.
  \<^item> If \<open>i\<close> is the first entry that matches, the function sets \<open>lit_object\<close> to entry
    \<open>i\<close>, removes \<open>LEXER_FLAG_UNUSED_IDENT\<close> from that entry and changes nothing else,
    so \<open>literal_count\<close> stays.
  \<^item> If no entry matches and the pool has reached \<open>PARSER_MAXIMUM_NUMBER_OF_LITERALS\<close>,
    it raises \<open>PARSER_ERR_LITERAL_LIMIT_REACHED\<close> with the context unchanged.
  \<^item> If no entry matches, the pool is not full and the allocation of the buffer of an
    entry with escapes does not fail, it appends an entry, the index is the previous
    \<open>literal_count\<close> and \<open>literal_count\<close> is incremented.
  \<^item> If that allocation fails, it raises \<open>PARSER_ERR_OUT_OF_MEMORY\<close>.
\<close>

theorem process_char_literal_cases:
  assumes "unat (ctx_literal_count context) = length (ctx_literal_pool context)"
  shows
    "(i < length (ctx_literal_pool context)
      \<and> (lit_type (ctx_literal_pool context ! i) = literal_type
          \<and> ucast (lit_length (ctx_literal_pool context ! i)) = len
          \<and> util_compare_char_literals (ctx_literal_pool context ! i) char_p)
      \<and> (\<forall>j < i. \<not> (lit_type (ctx_literal_pool context ! j) = literal_type
                      \<and> ucast (lit_length (ctx_literal_pool context ! j)) = len
                      \<and> util_compare_char_literals (ctx_literal_pool context ! j) char_p))
      \<longrightarrow> lexer_process_char_literal env context char_p len literal_type has_escape
          = Inr (context
              \<lparr>ctx_lit_object := (ctx_lit_object context)
                 \<lparr>obj_literal_p := i, obj_index := of_nat i\<rparr>,
               ctx_literal_pool := (ctx_literal_pool context)
                 [i := (ctx_literal_pool context ! i)
                    \<lparr>lit_status_flags :=
                       lit_status_flags (ctx_literal_pool context ! i) - {LEXER_FLAG_UNUSED_IDENT}\<rparr>]\<rparr>))
     \<and> ((\<forall>literal_p \<in> set (ctx_literal_pool context).
            \<not> (lit_type literal_p = literal_type \<and> ucast (lit_length literal_p) = len
                \<and> util_compare_char_literals literal_p char_p))
         \<longrightarrow> lexer_process_char_literal env context char_p len literal_type has_escape
             = (if unat (ctx_literal_count context) \<ge> PARSER_MAXIMUM_NUMBER_OF_LITERALS env
                then Inl (Raised PARSER_ERR_LITERAL_LIMIT_REACHED context)
                else if has_escape \<and> len \<noteq> 0
                        \<and> parser_malloc_fails env (unat (ucast len :: 16 word))
                then Inl (Raised PARSER_ERR_OUT_OF_MEMORY
                       (context\<lparr>ctx_literal_pool := ctx_literal_pool context @
                          [\<lparr>lit_chars = [], lit_length = ucast len, lit_type = literal_type,
                            lit_status_flags = {}\<rparr>]\<rparr>))
                else Inr (context
                       \<lparr>ctx_literal_pool := ctx_literal_pool context @
                          [\<lparr>lit_chars = take (unat (ucast len :: 16 word)) char_p,
                            lit_length = ucast len, lit_type = literal_type,
                            lit_status_flags = (if has_escape \<and> len \<noteq> 0 then {}
                                                else {LEXER_FLAG_SOURCE_PTR})\<rparr>],
                        ctx_lit_object := (ctx_lit_object context)
                          \<lparr>obj_literal_p := length (ctx_literal_pool context),
                           obj_index := ctx_literal_count context\<rparr>,
                        ctx_literal_count := ctx_literal_count context + 1\<rparr>)))"
proof (intro conjI impI)
  assume "i < length (ctx_literal_pool context)
      \<and> (lit_type (ctx_literal_pool context ! i) = literal_type
          \<and> ucast (lit_length (ctx_literal_pool context ! i)) = len
          \<and> util_compare_char_literals (ctx_literal_pool context ! i) char_p)
      \<and> (\<forall>j < i. \<not> (lit_type (ctx_literal_pool context ! j) = literal_type
                      \<and> ucast (lit_length (ctx_literal_pool context ! j)) = len
                      \<and> util_compare_char_literals (ctx_literal_pool context ! j) char_p))"
  then have "lexer_find_char_literal (ctx_literal_pool context) char_p len literal_type 0 = Some i"
    by (intro lexer_find_char_literal_first) blast+
  then show "lexer_process_char_literal env context char_p len literal_type has_escape
          = Inr (context
              \<lparr>ctx_lit_object := (ctx_lit_object context)
                 \<lparr>obj_literal_p := i, obj_index := of_nat i\<rparr>,
               ctx_literal_pool := (ctx_literal_pool context)
                 [i := (ctx_literal_pool context ! i)
                    \<lparr>lit_status_flags :=
                       lit_status_flags (ctx_literal_pool context ! i) - {LEXER_FLAG_UNUSED_IDENT}\<rparr>]\<rparr>)"
    by (simp add: lexer_process_char_literal_def)
next
  assume "\<forall>literal_p \<in> set (ctx_literal_pool context).
            \<not> (lit_type literal_p = literal_type \<and> ucast (lit_length literal_p) = len
                \<and> util_compare_char_literals literal_p char_p)"
  then have n: "lexer_find_char_literal (ctx_literal_pool context) char_p len literal_type 0 = None"
    by (simp add: lexer_find_char_literal_None)
  have c: "word_of_nat (length (ctx_literal_pool context)) = ctx_literal_count context"
    using assms [symmetric] by simp
  show "lexer_process_char_literal env context char_p len literal_type has_escape
             = (if unat (ctx_literal_count context) \<ge> PARSER_MAXIMUM_NUMBER_OF_LITERALS env
                then Inl (Raised PARSER_ERR_LITERAL_LIMIT_REACHED context)
                else if has_escape \<and> len \<noteq> 0
                        \<and> parser_malloc_fails env (unat (ucast len :: 16 word))
                then Inl (Raised PARSER_ERR_OUT_OF_MEMORY
                       (context\<lparr>ctx_literal_pool := ctx_literal_pool context @
                          [\<lparr>lit_chars = [], lit_length = ucast len, lit_type = literal_type,
                            lit_status_flags = {}\<rparr>]\<rparr>))
                else Inr (context
                       \<lparr>ctx_literal_pool := ctx_literal_pool context @
                          [\<lparr>lit_chars = take (unat (ucast len :: 16 word)) char_p,
                            lit_length = ucast len, lit_type = literal_type,
                            lit_status_flags = (if has_escape \<and> len \<noteq> 0 then {}
                                                else {LEXER_FLAG_SOURCE_PTR})\<rparr>],
                        ctx_lit_object := (ctx_lit_object context)
                          \<lparr>obj_literal_p := length (ctx_literal_pool context),
                           obj_index := ctx_literal_count context\<rparr>,
                        ctx_literal_count := ctx_literal_count context + 1\<rparr>))"
    by (simp add: lexer_process_char_literal_def n c assms util_set_char_literal_def
        parser_raise_error_def Let_def)
qed

theorem process_char_literal_cases_witness:
  "lexer_process_char_literal (example_env False)
      (example_context
         \<lparr>ctx_literal_pool :=
            [\<lparr>lit_chars = [0x61], lit_length = 1, lit_type = LEXER_IDENT_LITERAL,
              lit_status_flags = {LEXER_FLAG_SOURCE_PTR, LEXER_FLAG_UNUSED_IDENT}\<rparr>],
          ctx_literal_count := 1\<rparr>)
      [0x61, 0x3b] 1 LEXER_IDENT_LITERAL False
     = Inr (example_context
         \<lparr>ctx_literal_pool :=
            [\<lparr>lit_chars = [0x61], lit_length = 1, lit_type = LEXER_IDENT_LITERAL,
              lit_status_flags = {LEXER_FLAG_SOURCE_PTR}\<rparr>],
          ctx_literal_count := 1\<rparr>)
   \<and> lexer_process_char_literal (example_env False)
      (example_context
         \<lparr>ctx_literal_pool :=
            [\<lparr>lit_chars = [0x61], lit_length = 1, lit_type = LEXER_IDENT_LITERAL,
              lit_status_flags = {LEXER_FLAG_SOURCE_PTR, LEXER_FLAG_UNUSED_IDENT}\<rparr>],
          ctx_literal_count := 1\<rparr>)
      [0x62, 0x3b] 1 LEXER_IDENT_LITERAL False
     = Inr (example_context
         \<lparr>ctx_literal_pool :=
            [\<lparr>lit_chars = [0x61], lit_length = 1, lit_type = LEXER_IDENT_LITERAL,
              lit_status_flags = {LEXER_FLAG_SOURCE_PTR, LEXER_FLAG_UNUSED_IDENT}\<rparr>,
             \<lparr>lit_chars = [0x62], lit_length = 1, lit_type = LEXER_IDENT_LITERAL,
              lit_status_flags = {LEXER_FLAG_SOURCE_PTR}\<rparr>],
          ctx_lit_object := \<lparr>obj_literal_p = 1, obj_index = 1, obj_type = LEXER_LITERAL_OBJECT_ANY\<rparr>,
          ctx_literal_count := 2\<rparr>)"
  using
    process_char_literal_cases [of
      "example_context
         \<lparr>ctx_literal_pool :=
            [\<lparr>lit_chars = [0x61], lit_length = 1, lit_type = LEXER_IDENT_LITERAL,
              lit_status_flags = {LEXER_FLAG_SOURCE_PTR, LEXER_FLAG_UNUSED_IDENT}\<rparr>],
          ctx_literal_count := 1\<rparr>"
      0 LEXER_IDENT_LITERAL 1 "[0x61, 0x3b]" "example_env False" False]
    process_char_literal_cases [of
      "example_context
         \<lparr>ctx_literal_pool :=
            [\<lparr>lit_chars = [0x61], lit_length = 1, lit_type = LEXER_IDENT_LITERAL,
              lit_status_flags = {LEXER_FLAG_SOURCE_PTR, LEXER_FLAG_UNUSED_IDENT}\<rparr>],
          ctx_literal_count := 1\<rparr>"
      0 LEXER_IDENT_LITERAL 1 "[0x62, 0x3b]" "example_env False" False]
  by (simp add: example_context_def example_env_def util_compare_char_literals_def insert_Diff_if)

text \<open>
  C8: with length 0 the function takes \<open>has_escape\<close> as 0, so the entry it appends has
  \<open>LEXER_FLAG_SOURCE_PTR\<close> set (and nothing is allocated for it, so the out of memory
  error cannot arise), whatever \<open>has_escape\<close> was. Whenever a call with length 0 changes
  the number of entries of the pool, whether it returns or raises, the pool is the old
  pool followed by one entry with exactly that flag.
\<close>

theorem process_char_literal_empty_source_ptr:
  assumes "lexer_process_char_literal env context char_p 0 literal_type has_escape = Inr context'
           \<or> lexer_process_char_literal env context char_p 0 literal_type has_escape
               = Inl (Raised error context')"
      and "length (ctx_literal_pool context') \<noteq> length (ctx_literal_pool context)"
  shows "ctx_literal_pool context'
         = ctx_literal_pool context @
             [\<lparr>lit_chars = [], lit_length = 0, lit_type = literal_type,
               lit_status_flags = {LEXER_FLAG_SOURCE_PTR}\<rparr>]
         \<and> LEXER_FLAG_SOURCE_PTR \<in> lit_status_flags (last (ctx_literal_pool context'))
         \<and> lexer_process_char_literal env context char_p 0 literal_type has_escape = Inr context'"
  using assms
  by (auto simp: lexer_process_char_literal_def util_set_char_literal_def
      parser_raise_error_def Let_def
      split: option.splits if_splits)

lemmas string_eval =
  lexer_parse_string_def lexer_parse_string_loop.simps lexer_parse_string_step_def
  lexer_parse_string_escape_def lexer_parse_string_char_def byte_at_def Let_def
  LEXER_NEWLINE_LS_PS_BYTE_23_def IS_UTF8_INTERMEDIATE_OCTET_def parser_raise_error_def

lemmas decode_eval =
  lexer_literal_chars_def lexer_decode_string_loop.simps lexer_decode_string_step_def
  lexer_decode_string_escape_def lexer_decode_string_char_def byte_at_def Let_def
  LEXER_NEWLINE_LS_PS_BYTE_23_def IS_UTF8_INTERMEDIATE_OCTET_def parser_raise_error_def

text \<open>
  The example of C8: the source is a string that consists of a line continuation only
  (a quote, a backslash, a line feed and a quote). The scanner gives it length 0 with
  \<open>has_escape\<close> set, and even with an allocator that always fails the literal is
  interned as an entry with \<open>LEXER_FLAG_SOURCE_PTR\<close>.
\<close>

theorem process_char_literal_empty_source_ptr_witness:
  "tok_lit_location (ctx_token
      (projr (lexer_parse_string (example_env True) [0x27, 0x5c, 0x0a, 0x27] example_context)))
     = \<lparr>loc_char_p = 1, loc_length = 0, loc_type = LEXER_STRING_LITERAL, loc_has_escape = True\<rparr>
   \<and> lexer_process_char_literal (example_env True) example_context [] 0 LEXER_STRING_LITERAL True
     = Inr (example_context
         \<lparr>ctx_literal_pool :=
            [\<lparr>lit_chars = [], lit_length = 0, lit_type = LEXER_STRING_LITERAL,
              lit_status_flags = {LEXER_FLAG_SOURCE_PTR}\<rparr>],
          ctx_literal_count := 1\<rparr>)
   \<and> ctx_literal_pool
       (projr (lexer_construct_literal_object (example_env True) [0x27, 0x5c, 0x0a, 0x27]
                 example_context
                 \<lparr>loc_char_p = 1, loc_length = 0, loc_type = LEXER_STRING_LITERAL,
                  loc_has_escape = True\<rparr> LEXER_STRING_LITERAL))
     = [\<lparr>lit_chars = [], lit_length = 0, lit_type = LEXER_STRING_LITERAL,
         lit_status_flags = {LEXER_FLAG_SOURCE_PTR}\<rparr>]"
proof -
  let ?ctx' = "example_context
         \<lparr>ctx_literal_pool :=
            [\<lparr>lit_chars = [], lit_length = 0, lit_type = LEXER_STRING_LITERAL,
              lit_status_flags = {LEXER_FLAG_SOURCE_PTR}\<rparr>],
          ctx_literal_count := 1\<rparr>"
  have run: "lexer_process_char_literal (example_env True) example_context [] 0
               LEXER_STRING_LITERAL True = Inr ?ctx'"
    by (simp add: lexer_process_char_literal_def example_context_def example_env_def
        util_set_char_literal_def Let_def)
  then have h1: "lexer_process_char_literal (example_env True) example_context [] 0
               LEXER_STRING_LITERAL True = Inr ?ctx'
             \<or> lexer_process_char_literal (example_env True) example_context [] 0
               LEXER_STRING_LITERAL True = Inl (Raised PARSER_ERR_OUT_OF_MEMORY ?ctx')"
    by simp
  have h2: "length (ctx_literal_pool ?ctx') \<noteq> length (ctx_literal_pool example_context)"
    by (simp add: example_context_def)
  have scan: "tok_lit_location (ctx_token
      (projr (lexer_parse_string (example_env True) [0x27, 0x5c, 0x0a, 0x27] example_context)))
     = \<lparr>loc_char_p = 1, loc_length = 0, loc_type = LEXER_STRING_LITERAL, loc_has_escape = True\<rparr>"
    by (simp add: string_eval example_context_def example_env_def)
  have chars: "lexer_literal_chars (example_env True) [0x27, 0x5c, 0x0a, 0x27] example_context
      \<lparr>loc_char_p = 1, loc_length = 0, loc_type = LEXER_STRING_LITERAL, loc_has_escape = True\<rparr>
     = Inr []"
    by (simp add: decode_eval)
  have intern: "ctx_literal_pool
       (projr (lexer_construct_literal_object (example_env True) [0x27, 0x5c, 0x0a, 0x27]
                 example_context
                 \<lparr>loc_char_p = 1, loc_length = 0, loc_type = LEXER_STRING_LITERAL,
                  loc_has_escape = True\<rparr> LEXER_STRING_LITERAL))
     = ctx_literal_pool ?ctx'"
    unfolding lexer_construct_literal_object_def chars
    by (simp add: run Let_def)
  from process_char_literal_empty_source_ptr [OF h1 h2] scan intern
  show ?thesis
    by (simp add: example_context_def)
qed

text \<open>
  C9, as stated, fails for its last part: a negative zero does not always get a full
  numeric pool entry. In a context whose pool already holds
  \<open>PARSER_MAXIMUM_NUMBER_OF_LITERALS\<close> entries (511 here), \<open>-0\<close> in an expression raises
  \<open>PARSER_ERR_LITERAL_LIMIT_REACHED\<close> and the pool stays as it is: this is the explicit
  check of \<open>literal_count\<close> that precedes the append. And with an empty pool, when
  \<open>util_set_number_literal\<close> fails, \<open>-0\<close> raises \<open>PARSER_ERR_OUT_OF_MEMORY\<close> by the
  explicit check of its result, and the entry that has been appended still has the type
  \<open>LEXER_UNUSED_LITERAL\<close>.
\<close>

theorem construct_number_negative_zero_counterexample:
  "util_get_number (example_env False) [0x30] = 0
   \<and> lexer_construct_number_object (example_env False) [0x30]
        (example_context
           \<lparr>ctx_token := (ctx_token example_context)
              \<lparr>tok_type := LEXER_LITERAL,
               tok_lit_location :=
                 \<lparr>loc_char_p = 0, loc_length = 1, loc_type = LEXER_NUMBER_LITERAL,
                  loc_has_escape = False\<rparr>\<rparr>,
            ctx_literal_pool :=
              replicate 511 \<lparr>lit_chars = [], lit_length = 0, lit_type = LEXER_FUNCTION_LITERAL,
                             lit_status_flags = {}\<rparr>,
            ctx_literal_count := 511\<rparr>)
        True True
     = Inl (Raised PARSER_ERR_LITERAL_LIMIT_REACHED
        (example_context
           \<lparr>ctx_token := (ctx_token example_context)
              \<lparr>tok_type := LEXER_LITERAL,
               tok_lit_location :=
                 \<lparr>loc_char_p = 0, loc_length = 1, loc_type = LEXER_NUMBER_LITERAL,
                  loc_has_escape = False\<rparr>\<rparr>,
            ctx_literal_pool :=
              replicate 511 \<lparr>lit_chars = [], lit_length = 0, lit_type = LEXER_FUNCTION_LITERAL,
                             lit_status_flags = {}\<rparr>,
            ctx_literal_count := 511\<rparr>))
   \<and> lexer_construct_number_object (example_env True) [0x30]
        (example_context
           \<lparr>ctx_token := (ctx_token example_context)
              \<lparr>tok_type := LEXER_LITERAL,
               tok_lit_location :=
                 \<lparr>loc_char_p = 0, loc_length = 1, loc_type = LEXER_NUMBER_LITERAL,
                  loc_has_escape = False\<rparr>\<rparr>\<rparr>)
        True True
     = Inl (Raised PARSER_ERR_OUT_OF_MEMORY
        (example_context
           \<lparr>ctx_token := (ctx_token example_context)
              \<lparr>tok_type := LEXER_LITERAL,
               tok_lit_location :=
                 \<lparr>loc_char_p = 0, loc_length = 1, loc_type = LEXER_NUMBER_LITERAL,
                  loc_has_escape = False\<rparr>\<rparr>,
            ctx_literal_pool :=
              [\<lparr>lit_chars = [0x30], lit_length = 1, lit_type = LEXER_UNUSED_LITERAL,
                lit_status_flags = {}\<rparr>],
            ctx_literal_count := 1\<rparr>))"
  by (simp add: lexer_construct_number_object_def example_context_def example_env_def
      parser_raise_error_def CBC_PUSH_NUMBER_BYTE_RANGE_END_def Let_def)

lemma sint_nonneg_eq_uint:
  assumes "0 \<le> sint (w :: 32 word)"
  shows "sint w = uint w"
proof -
  have b: "uint w < 2 ^ 32"
    using uint_bounded [of w] by simp
  then have "take_bit 32 (uint w) = uint w"
    by (simp add: take_bit_int_eq_self)
  then have "sint w = uint w - 2 ^ 32 * of_bool (bit (uint w) 31)"
    by (simp add: sint_uint signed_take_bit_eq_take_bit_minus)
  with assms b show ?thesis
    by (cases "bit (uint w) 31") simp_all
qed

text \<open>
  C9, amended. \<open>number\<close> is the decoded integer, the result of \<open>util_get_number\<close> on the
  bytes of the token, and \<open>(failed, literal_p)\<close> is what \<open>util_set_number_literal\<close> gives
  for a fresh entry and these bytes. The function takes the fast path, returning
  \<open>PARSER_TRUE\<close>, if and only if \<open>is_expr\<close> is set, the number is at most
  \<open>CBC_PUSH_NUMBER_BYTE_RANGE_END\<close> (256) and it is not a negative zero; then only
  \<open>lit_object.index\<close> changes, to the number (as a 16 bit value, which is the number itself
  when it is not negative), and the pool is as it was. A negative zero never takes the
  fast path. Off the fast path the function raises \<open>PARSER_ERR_LITERAL_LIMIT_REACHED\<close>
  with the context unchanged when \<open>literal_count\<close> has reached the maximum. Otherwise it
  appends the entry and increments \<open>literal_count\<close>; when \<open>util_set_number_literal\<close> has
  failed it raises \<open>PARSER_ERR_OUT_OF_MEMORY\<close>, and when it has not, the entry gets the
  type \<open>LEXER_NUMBER_LITERAL\<close>, \<open>lit_object\<close> points at it with the previous
  \<open>literal_count\<close> as index, and the function returns \<open>PARSER_FALSE\<close>.
\<close>

theorem construct_number_object_fast_path:
  assumes "chars = take (unat (loc_length (tok_lit_location (ctx_token context))))
                     (drop (loc_char_p (tok_lit_location (ctx_token context))) source)"
      and "number = util_get_number env chars"
      and "fast = (is_expr \<and> sint number \<le> CBC_PUSH_NUMBER_BYTE_RANGE_END
                   \<and> \<not> (number = 0 \<and> is_negative_number))"
      and "util_set_number_literal env
             \<lparr>lit_chars = [], lit_length = loc_length (tok_lit_location (ctx_token context)),
              lit_type = LEXER_UNUSED_LITERAL, lit_status_flags = {}\<rparr> chars
           = (failed, literal_p)"
      and "r = lexer_construct_number_object env source context is_expr is_negative_number"
  shows "((\<exists>context'. r = Inr (True, context')) \<longleftrightarrow> fast)
     \<and> (fast \<longrightarrow> r = Inr (True, context\<lparr>ctx_lit_object := (ctx_lit_object context)
                                    \<lparr>obj_index := ucast number\<rparr>\<rparr>)
                  \<and> (0 \<le> sint number \<longrightarrow> uint (ucast number :: 16 word) = sint number))
     \<and> (number = 0 \<and> is_negative_number \<longrightarrow> \<not> fast)
     \<and> (\<not> fast \<and> unat (ctx_literal_count context) \<ge> PARSER_MAXIMUM_NUMBER_OF_LITERALS env
          \<longrightarrow> r = Inl (Raised PARSER_ERR_LITERAL_LIMIT_REACHED context))
     \<and> (\<not> fast \<and> unat (ctx_literal_count context) < PARSER_MAXIMUM_NUMBER_OF_LITERALS env
          \<and> failed
          \<longrightarrow> r = Inl (Raised PARSER_ERR_OUT_OF_MEMORY
                    (context\<lparr>ctx_literal_pool := ctx_literal_pool context @ [literal_p],
                             ctx_literal_count := ctx_literal_count context + 1\<rparr>)))
     \<and> (\<not> fast \<and> unat (ctx_literal_count context) < PARSER_MAXIMUM_NUMBER_OF_LITERALS env
          \<and> \<not> failed
          \<longrightarrow> r = Inr (False, context
                    \<lparr>ctx_literal_pool := ctx_literal_pool context
                         @ [literal_p\<lparr>lit_type := LEXER_NUMBER_LITERAL\<rparr>],
                     ctx_literal_count := ctx_literal_count context + 1,
                     ctx_lit_object :=
                       \<lparr>obj_literal_p = length (ctx_literal_pool context),
                        obj_index = ctx_literal_count context,
                        obj_type = LEXER_LITERAL_OBJECT_ANY\<rparr>\<rparr>))"
proof -
  have le: "(number \<le>s word_of_int CBC_PUSH_NUMBER_BYTE_RANGE_END)
            = (sint number \<le> CBC_PUSH_NUMBER_BYTE_RANGE_END)"
    by (simp add: CBC_PUSH_NUMBER_BYTE_RANGE_END_def word_sle_eq)
  have small: "uint (ucast number :: 16 word) = sint number"
    if "0 \<le> sint number" and "sint number \<le> CBC_PUSH_NUMBER_BYTE_RANGE_END"
  proof -
    from that(1) have "sint number = uint number"
      by (rule sint_nonneg_eq_uint)
    moreover from this that(2) have "uint number < 2 ^ 16"
      by (simp add: CBC_PUSH_NUMBER_BYTE_RANGE_END_def)
    then have "uint (ucast number :: 16 word) = uint number"
      by (simp add: unsigned_ucast_eq take_bit_int_eq_self)
    ultimately show ?thesis by simp
  qed
  note u = assms(4) [unfolded assms(1)]
  show ?thesis
  proof (cases fast)
    case True
    with assms le have "r = Inr (True, context\<lparr>ctx_lit_object := (ctx_lit_object context)
                                    \<lparr>obj_index := ucast number\<rparr>\<rparr>)"
      by (auto simp: lexer_construct_number_object_def Let_def)
    with True assms(3) small show ?thesis by auto
  next
    case False
    show ?thesis
    proof (cases "unat (ctx_literal_count context) \<ge> PARSER_MAXIMUM_NUMBER_OF_LITERALS env")
      case True
      with False assms le have "r = Inl (Raised PARSER_ERR_LITERAL_LIMIT_REACHED context)"
        by (auto simp: lexer_construct_number_object_def Let_def parser_raise_error_def)
      with False True assms(3) show ?thesis by auto
    next
      case full: False
      show ?thesis
      proof (cases failed)
        case True
        with False full assms(1,2,3,5) le u
        have "r = Inl (Raised PARSER_ERR_OUT_OF_MEMORY
                    (context\<lparr>ctx_literal_pool := ctx_literal_pool context @ [literal_p],
                             ctx_literal_count := ctx_literal_count context + 1\<rparr>))"
          by (auto simp: lexer_construct_number_object_def Let_def parser_raise_error_def)
        with True False full assms(3) show ?thesis by auto
      next
        case nf: False
        from nf False full assms(1,2,3,5) le u
        have "r = Inr (False, context
                    \<lparr>ctx_literal_pool := ctx_literal_pool context
                         @ [literal_p\<lparr>lit_type := LEXER_NUMBER_LITERAL\<rparr>],
                     ctx_literal_count := ctx_literal_count context + 1,
                     ctx_lit_object :=
                       \<lparr>obj_literal_p = length (ctx_literal_pool context),
                        obj_index = ctx_literal_count context,
                        obj_type = LEXER_LITERAL_OBJECT_ANY\<rparr>\<rparr>)"
          by (auto simp: lexer_construct_number_object_def Let_def parser_raise_error_def)
        with nf False full assms(3) show ?thesis by auto
      qed
    qed
  qed
qed

theorem construct_number_object_fast_path_witness:
  "lexer_construct_number_object (example_env False) [0x37]
      (example_context
         \<lparr>ctx_token := (ctx_token example_context)
            \<lparr>tok_lit_location :=
               \<lparr>loc_char_p = 0, loc_length = 1, loc_type = LEXER_NUMBER_LITERAL,
                loc_has_escape = False\<rparr>\<rparr>\<rparr>)
      True False
     = Inr (True,
         example_context
           \<lparr>ctx_token := (ctx_token example_context)
              \<lparr>tok_lit_location :=
                 \<lparr>loc_char_p = 0, loc_length = 1, loc_type = LEXER_NUMBER_LITERAL,
                  loc_has_escape = False\<rparr>\<rparr>,
            ctx_lit_object := (ctx_lit_object example_context)\<lparr>obj_index := 7\<rparr>\<rparr>)
   \<and> lexer_construct_number_object (example_env False) [0x30]
        (example_context
           \<lparr>ctx_token := (ctx_token example_context)
              \<lparr>tok_lit_location :=
                 \<lparr>loc_char_p = 0, loc_length = 1, loc_type = LEXER_NUMBER_LITERAL,
                  loc_has_escape = False\<rparr>\<rparr>\<rparr>)
        True True
     = Inr (False,
         example_context
           \<lparr>ctx_token := (ctx_token example_context)
              \<lparr>tok_lit_location :=
                 \<lparr>loc_char_p = 0, loc_length = 1, loc_type = LEXER_NUMBER_LITERAL,
                  loc_has_escape = False\<rparr>\<rparr>,
            ctx_literal_pool :=
              [\<lparr>lit_chars = [0x30], lit_length = 1, lit_type = LEXER_NUMBER_LITERAL,
                lit_status_flags = {}\<rparr>],
            ctx_literal_count := 1,
            ctx_lit_object :=
              \<lparr>obj_literal_p = 0, obj_index = 0, obj_type = LEXER_LITERAL_OBJECT_ANY\<rparr>\<rparr>)
   \<and> lexer_construct_number_object (example_env True) [0x30]
        (example_context
           \<lparr>ctx_token := (ctx_token example_context)
              \<lparr>tok_lit_location :=
                 \<lparr>loc_char_p = 0, loc_length = 1, loc_type = LEXER_NUMBER_LITERAL,
                  loc_has_escape = False\<rparr>\<rparr>\<rparr>)
        False False
     = Inl (Raised PARSER_ERR_OUT_OF_MEMORY
         (example_context
           \<lparr>ctx_token := (ctx_token example_context)
              \<lparr>tok_lit_location :=
                 \<lparr>loc_char_p = 0, loc_length = 1, loc_type = LEXER_NUMBER_LITERAL,
                  loc_has_escape = False\<rparr>\<rparr>,
            ctx_literal_pool :=
              [\<lparr>lit_chars = [0x30], lit_length = 1, lit_type = LEXER_UNUSED_LITERAL,
                lit_status_flags = {}\<rparr>],
            ctx_literal_count := 1\<rparr>))"
proof -
  let ?ctx = "example_context
         \<lparr>ctx_token := (ctx_token example_context)
            \<lparr>tok_lit_location :=
               \<lparr>loc_char_p = 0, loc_length = 1, loc_type = LEXER_NUMBER_LITERAL,
                loc_has_escape = False\<rparr>\<rparr>\<rparr>"
  let ?fresh = "\<lparr>lit_chars = [], lit_length = loc_length (tok_lit_location (ctx_token ?ctx)),
              lit_type = LEXER_UNUSED_LITERAL, lit_status_flags = {}\<rparr>"
  have c7: "[0x37] = take (unat (loc_length (tok_lit_location (ctx_token ?ctx))))
                (drop (loc_char_p (tok_lit_location (ctx_token ?ctx))) [0x37 :: byte])"
    and c0: "[0x30] = take (unat (loc_length (tok_lit_location (ctx_token ?ctx))))
                (drop (loc_char_p (tok_lit_location (ctx_token ?ctx))) [0x30 :: byte])"
    by simp_all
  have n7: "7 = util_get_number (example_env False) [0x37]"
    and n0: "0 = util_get_number (example_env False) [0x30]"
    and m0: "0 = util_get_number (example_env True) [0x30]"
    by (simp_all add: example_env_def)
  have s7: "util_set_number_literal (example_env False) ?fresh [0x37]
              = (False, \<lparr>lit_chars = [0x37], lit_length = 1, lit_type = LEXER_UNUSED_LITERAL,
                        lit_status_flags = {}\<rparr>)"
    and s0: "util_set_number_literal (example_env False) ?fresh [0x30]
              = (False, \<lparr>lit_chars = [0x30], lit_length = 1, lit_type = LEXER_UNUSED_LITERAL,
                        lit_status_flags = {}\<rparr>)"
    and t0: "util_set_number_literal (example_env True) ?fresh [0x30]
              = (True, \<lparr>lit_chars = [0x30], lit_length = 1, lit_type = LEXER_UNUSED_LITERAL,
                        lit_status_flags = {}\<rparr>)"
    by (simp_all add: example_env_def)
  have limit: "unat (ctx_literal_count ?ctx) < PARSER_MAXIMUM_NUMBER_OF_LITERALS (example_env False)"
    "unat (ctx_literal_count ?ctx) < PARSER_MAXIMUM_NUMBER_OF_LITERALS (example_env True)"
    "ctx_literal_pool ?ctx = []" "ctx_literal_count ?ctx = 0"
    by (simp_all add: example_env_def example_context_def)
  from construct_number_object_fast_path [OF c7 n7 refl s7 refl, of True False]
       construct_number_object_fast_path [OF c0 n0 refl s0 refl, of True True]
       construct_number_object_fast_path [OF c0 m0 refl t0 refl, of False False]
       limit
  show ?thesis
    by (simp add: CBC_PUSH_NUMBER_BYTE_RANGE_END_def)
qed

section \<open>Runs of the string scanner\<close>







section \<open>Properties of the string scanner\<close>

lemma lexer_hex_loop_failure:
  "lexer_hex_loop context source source_p len result = Inl f \<Longrightarrow>
     f = Out_of_bounds \<or> f = Raised PARSER_ERR_INVALID_ESCAPE_SEQUENCE context"
proof (induction "context" source source_p len result rule: lexer_hex_loop.induct)
  case (1 ctx source source_p len result)
  show ?case
  proof (cases "byte_at source source_p")
    case None
    with "1.prems" show ?thesis
      by (subst (asm) lexer_hex_loop.simps) simp
  next
    case (Some b)
    show ?thesis
    proof (cases "lexer_hex_digit result b")
      case None
      with "1.prems" Some show ?thesis
        by (subst (asm) lexer_hex_loop.simps) (simp add: parser_raise_error_def)
    next
      case digit: (Some result')
      show ?thesis
      proof (cases "0 < len - 1")
        case True
        with "1.prems" Some digit
        have "lexer_hex_loop ctx source (source_p + 1) (len - 1) result' = Inl f"
          by (subst (asm) lexer_hex_loop.simps) simp
        with "1.IH" [OF Some digit True] show ?thesis .
      next
        case False
        with "1.prems" Some digit show ?thesis
          by (subst (asm) lexer_hex_loop.simps) simp
      qed
    qed
  qed
qed

lemma lexer_hex_to_character_failure:
  assumes a: "lexer_hex_to_character context source source_p len = Inl f"
  shows "f = Out_of_bounds \<or> f = Raised PARSER_ERR_INVALID_ESCAPE_SEQUENCE context"
proof (cases "lexer_hex_loop context source source_p len 0")
  case (Inl e)
  with a have "e = f"
    by (simp add: lexer_hex_to_character_def)
  with Inl lexer_hex_loop_failure show ?thesis
    by blast
next
  case (Inr r)
  with a show ?thesis
    by (simp add: lexer_hex_to_character_def)
qed







lemma lexer_parse_string_loop_at_end:
  assumes "length source \<le> ss_source_p st"
  shows "lexer_parse_string_loop source str_end_character original_line original_column context st
         = Inl (Raised PARSER_ERR_UNTERMINATED_STRING
                 (context\<lparr>ctx_token := (ctx_token context)
                    \<lparr>tok_line := original_line, tok_column := original_column - 1\<rparr>\<rparr>))"
  using assms
  by (subst lexer_parse_string_loop.simps)
     (simp add: lexer_parse_string_step_def parser_raise_error_def)

lemma lexer_parse_string_loop_lone_backslash:
  assumes "ss_source_p st + 1 = length source" and "source ! ss_source_p st = 0x5c"
      and "str_end_character \<noteq> 0x5c"
  shows "lexer_parse_string_loop source str_end_character original_line original_column context st
         = Inl (Raised PARSER_ERR_UNTERMINATED_STRING
                 (context\<lparr>ctx_token := (ctx_token context)
                    \<lparr>tok_line := original_line, tok_column := original_column - 1\<rparr>\<rparr>))"
proof -
  have "lexer_parse_string_step source str_end_character original_line original_column context st
        = Continue (context, st\<lparr>ss_source_p := ss_source_p st + 1, ss_column := ss_column st + 1\<rparr>)"
    using assms by (simp add: lexer_parse_string_step_def lexer_parse_string_escape_def Let_def)
  then have "lexer_parse_string_loop source str_end_character original_line original_column context st
        = lexer_parse_string_loop source str_end_character original_line original_column context
            (st\<lparr>ss_source_p := ss_source_p st + 1, ss_column := ss_column st + 1\<rparr>)"
    by (subst lexer_parse_string_loop.simps) simp
  also have "\<dots> = Inl (Raised PARSER_ERR_UNTERMINATED_STRING
                 (context\<lparr>ctx_token := (ctx_token context)
                    \<lparr>tok_line := original_line, tok_column := original_column - 1\<rparr>\<rparr>))"
    using assms by (intro lexer_parse_string_loop_at_end) simp
  finally show ?thesis .
qed












section \<open>Properties of the scanners\<close>

subsection \<open>Tabs\<close>









subsection \<open>Whole runs of the three scanners\<close>












section \<open>Identifiers with escape sequences\<close>

subsection \<open>The scanning loop of lexer_parse_identifier\<close>

lemma utf8_intermediate_octets_le: "utf8_intermediate_octets bs \<le> length bs"
  by (induction bs) simp_all

lemma utf8_intermediate_octets_no_backslash:
  "i < utf8_intermediate_octets bs \<Longrightarrow> bs ! i \<noteq> 0x5c"
proof (induction bs arbitrary: i)
  case Nil
  then show ?case by simp
next
  case (Cons b bs)
  then show ?case
    by (cases i) (auto simp: IS_UTF8_INTERMEDIATE_OCTET_def split: if_splits)
qed

text \<open>
  What one round of the loop keeps and what it establishes. The token type and the
  reserved flag are not written. \<open>has_escape\<close> is only ever set, and it is set when the
  round starts at a backslash, which is the only place of a round where the bytes it
  steps over can hold one. A round that is not at a backslash adds to the length what it
  adds to the source pointer.
\<close>

lemma lexer_parse_identifier_body_frame:
  assumes "lexer_parse_identifier_body env source context st = Inr (context', st')"
  shows "tok_type (ctx_token context') = tok_type (ctx_token context)"
    and "tok_literal_is_reserved (ctx_token context') = tok_literal_is_reserved (ctx_token context)"
    and "loc_has_escape (tok_lit_location (ctx_token context))
          \<Longrightarrow> loc_has_escape (tok_lit_location (ctx_token context'))"
    and "ctx_status_flags context' = ctx_status_flags context"
  using assms
  by (auto simp: lexer_parse_identifier_body_def Let_def parser_raise_error_def
      split: option.splits if_splits sum.splits)

lemma lexer_parse_identifier_body_span:
  assumes "lexer_parse_identifier_body env source context st = Inr (context', st')"
  shows "is_source_p st < is_source_p st'" and "is_source_p st' \<le> length source"
    and "is_source_p st \<le> i \<Longrightarrow> i < is_source_p st' \<Longrightarrow> source ! i = 0x5c
          \<Longrightarrow> loc_has_escape (tok_lit_location (ctx_token context'))"
    and "\<not> loc_has_escape (tok_lit_location (ctx_token context'))
          \<Longrightarrow> is_length st' = is_length st + of_nat (is_source_p st' - is_source_p st)"
proof -
  define p where "p = is_source_p st"
  define n where "n = utf8_intermediate_octets (drop (p + 1) source)"
  from assms have inside: "p < length source"
    by (auto simp: lexer_parse_identifier_body_def p_def byte_at_def Let_def
        split: option.splits if_splits)
  have n: "p + 1 + n \<le> length source"
    using utf8_intermediate_octets_le [of "drop (p + 1) source"] inside by (simp add: n_def)
  show "is_source_p st < is_source_p st'"
    using assms by (rule lexer_parse_identifier_body_advances [THEN conjunct2])
  show "is_source_p st' \<le> length source"
    using assms n
    by (auto simp: lexer_parse_identifier_body_def p_def n_def byte_at_def Let_def
        parser_raise_error_def split: option.splits if_splits sum.splits)
  show "loc_has_escape (tok_lit_location (ctx_token context'))"
    if i: "is_source_p st \<le> i" "i < is_source_p st'" "source ! i = 0x5c"
  proof (cases "source ! p = 0x5c")
    case True
    with assms inside show ?thesis
      by (auto simp: lexer_parse_identifier_body_def p_def byte_at_def Let_def
          parser_raise_error_def split: option.splits if_splits sum.splits)
  next
    case False
    with assms inside have p': "is_source_p st' = p + 1 + n"
      by (auto simp: lexer_parse_identifier_body_def p_def n_def byte_at_def Let_def)
    from False i have "p + 1 \<le> i"
      by (cases "i = p") (auto simp: p_def)
    then obtain k where k: "i = p + 1 + k"
      by (metis le_Suc_ex)
    with i p' have "k < n"
      by simp
    from utf8_intermediate_octets_no_backslash [OF this [unfolded n_def]] n k i
    show ?thesis
      by (simp add: n_def)
  qed
  show "is_length st' = is_length st + of_nat (is_source_p st' - is_source_p st)"
    if "\<not> loc_has_escape (tok_lit_location (ctx_token context'))"
    using assms that inside
    by (auto simp: lexer_parse_identifier_body_def p_def byte_at_def Let_def
        parser_raise_error_def split: option.splits if_splits sum.splits)
qed

lemma lexer_parse_identifier_loop_frame:
  "lexer_parse_identifier_loop env source context st = Inr (context', st')
   \<Longrightarrow> tok_type (ctx_token context') = tok_type (ctx_token context)
       \<and> tok_literal_is_reserved (ctx_token context') = tok_literal_is_reserved (ctx_token context)
       \<and> ctx_status_flags context' = ctx_status_flags context
       \<and> (loc_has_escape (tok_lit_location (ctx_token context))
            \<longrightarrow> loc_has_escape (tok_lit_location (ctx_token context')))
       \<and> is_source_p st < is_source_p st' \<and> is_source_p st' \<le> length source
       \<and> ((\<exists>i. is_source_p st \<le> i \<and> i < is_source_p st' \<and> source ! i = 0x5c)
            \<longrightarrow> loc_has_escape (tok_lit_location (ctx_token context')))
       \<and> (\<not> loc_has_escape (tok_lit_location (ctx_token context'))
            \<longrightarrow> is_length st' = is_length st + of_nat (is_source_p st' - is_source_p st))"
proof (induction env source "context" st rule: lexer_parse_identifier_loop.induct)
  case (1 env source ctx st)
  from "1.prems" obtain context1 st1 where
    body: "lexer_parse_identifier_body env source ctx st = Inr (context1, st1)"
    by (subst (asm) lexer_parse_identifier_loop.simps) (auto split: sum.splits)
  note frame = lexer_parse_identifier_body_frame [OF body]
  note span = lexer_parse_identifier_body_span [OF body]
  show ?case
  proof (cases "is_source_p st1 < length source
             \<and> (util_is_identifier_part env source (is_source_p st1)
                 \<or> source ! is_source_p st1 = 0x5c)")
    case False
    with "1.prems" body have "context' = context1" "st' = st1"
      by (subst (asm) lexer_parse_identifier_loop.simps; auto)+
    with frame span show ?thesis
      by auto
  next
    case True
    with "1.prems" body
    have rest: "lexer_parse_identifier_loop env source context1 st1 = Inr (context', st')"
      by (subst (asm) lexer_parse_identifier_loop.simps) auto
    from "1.IH" [OF body refl True rest]
    have ih: "tok_type (ctx_token context') = tok_type (ctx_token context1)"
      "tok_literal_is_reserved (ctx_token context') = tok_literal_is_reserved (ctx_token context1)"
      "ctx_status_flags context' = ctx_status_flags context1"
      "loc_has_escape (tok_lit_location (ctx_token context1))
            \<longrightarrow> loc_has_escape (tok_lit_location (ctx_token context'))"
      "is_source_p st1 < is_source_p st'" "is_source_p st' \<le> length source"
      "(\<exists>i. is_source_p st1 \<le> i \<and> i < is_source_p st' \<and> source ! i = 0x5c)
            \<longrightarrow> loc_has_escape (tok_lit_location (ctx_token context'))"
      "\<not> loc_has_escape (tok_lit_location (ctx_token context'))
            \<longrightarrow> is_length st' = is_length st1 + of_nat (is_source_p st' - is_source_p st1)"
      by simp_all
    have escape: "loc_has_escape (tok_lit_location (ctx_token context'))"
      if "is_source_p st \<le> i" "i < is_source_p st'" "source ! i = 0x5c" for i
    proof (cases "i < is_source_p st1")
      case True
      with that span(3) [of i] ih(4) show ?thesis
        by simp
    next
      case False
      with that ih(7) show ?thesis
        by auto
    qed
    have len: "is_length st' = is_length st + of_nat (is_source_p st' - is_source_p st)"
      if none: "\<not> loc_has_escape (tok_lit_location (ctx_token context'))"
    proof -
      from none ih(4) have "\<not> loc_has_escape (tok_lit_location (ctx_token context1))"
        by auto
      from span(4) [OF this] ih(8) none
      have "is_length st' = is_length st + of_nat (is_source_p st1 - is_source_p st)
              + of_nat (is_source_p st' - is_source_p st1)"
        by simp
      moreover have "is_source_p st' - is_source_p st
          = (is_source_p st1 - is_source_p st) + (is_source_p st' - is_source_p st1)"
        using span(1) ih(5) by simp
      ultimately show ?thesis
        by simp
    qed
    from frame ih span escape len show ?thesis
      by auto
  qed
qed

lemma lexer_parse_identifier_body_failure:
  assumes "lexer_parse_identifier_body env source context st = Inl (Raised error context')"
  shows "error \<noteq> PARSER_ERR_STRICT_IDENT_NOT_ALLOWED"
  using assms
  by (auto simp: lexer_parse_identifier_body_def Let_def parser_raise_error_def
      dest!: lexer_hex_to_character_failure
      split: option.splits if_splits sum.splits)

lemma lexer_parse_identifier_loop_failure:
  "lexer_parse_identifier_loop env source context st = Inl (Raised error context')
   \<Longrightarrow> error \<noteq> PARSER_ERR_STRICT_IDENT_NOT_ALLOWED"
proof (induction env source "context" st rule: lexer_parse_identifier_loop.induct)
  case (1 env source ctx st)
  show ?case
  proof (cases "lexer_parse_identifier_body env source ctx st")
    case (Inl f)
    with "1.prems" have "f = Raised error context'"
      by (subst (asm) lexer_parse_identifier_loop.simps) simp
    with Inl lexer_parse_identifier_body_failure show ?thesis
      by blast
  next
    case (Inr x)
    obtain context1 st1 where x: "x = (context1, st1)"
      by (cases x)
    show ?thesis
    proof (cases "is_source_p st1 < length source
             \<and> (util_is_identifier_part env source (is_source_p st1)
                 \<or> source ! is_source_p st1 = 0x5c)")
      case True
      with "1.prems" Inr x
      have "lexer_parse_identifier_loop env source context1 st1 = Inl (Raised error context')"
        by (subst (asm) lexer_parse_identifier_loop.simps) auto
      with "1.IH" [OF Inr x [symmetric] True] show ?thesis .
    next
      case False
      with "1.prems" Inr x show ?thesis
        by (subst (asm) lexer_parse_identifier_loop.simps) auto
    qed
  qed
qed

lemma lexer_parse_identifier_finish_frame:
  "tok_type (ctx_token (lexer_parse_identifier_finish ident_start_p st context))
     = tok_type (ctx_token context)"
  "tok_literal_is_reserved (ctx_token (lexer_parse_identifier_finish ident_start_p st context))
     = tok_literal_is_reserved (ctx_token context)"
  "loc_has_escape (tok_lit_location (ctx_token
       (lexer_parse_identifier_finish ident_start_p st context)))
     = loc_has_escape (tok_lit_location (ctx_token context))"
  "ctx_source_p (lexer_parse_identifier_finish ident_start_p st context) = is_source_p st"
  by (simp_all add: lexer_parse_identifier_finish_def Let_def)

lemma lexer_parse_identifier_keyword_frame:
  assumes "lexer_parse_identifier_keyword env source ident_start_p len context = Inr context'"
  shows "loc_has_escape (tok_lit_location (ctx_token context'))
          = loc_has_escape (tok_lit_location (ctx_token context))"
  using assms
  by (auto simp: lexer_parse_identifier_keyword_def parser_raise_error_def
      split: option.splits if_splits)

lemma lexer_parse_identifier_keyword_failure:
  assumes "lexer_parse_identifier_keyword env source ident_start_p len context = Inl f"
  shows "f = Raised PARSER_ERR_STRICT_IDENT_NOT_ALLOWED context"
  using assms
  by (auto simp: lexer_parse_identifier_keyword_def parser_raise_error_def
      split: option.splits if_splits)

text \<open>
  The ways \<open>lexer_parse_identifier\<close> returns after the loop has returned, with the loop's
  result at hand: either the token type and the reserved flag are those the loop has left,
  or the keyword check has been entered.
\<close>

lemma lexer_parse_identifier_cases:
  assumes result: "lexer_parse_identifier env source context check_keywords = Inr context'"
  obtains context1 st where
    "lexer_parse_identifier_loop env source
       (context
          \<lparr>ctx_token := (ctx_token context)
             \<lparr>tok_type := LEXER_LITERAL,
              tok_literal_is_reserved := False,
              tok_lit_location := (tok_lit_location (ctx_token context))
                 \<lparr>loc_type := LEXER_IDENT_LITERAL, loc_has_escape := False\<rparr>\<rparr>\<rparr>)
       \<lparr>is_source_p = ctx_source_p context, is_column = ctx_column context, is_length = 0\<rparr>
     = Inr (context1, st)"
    and "ctx_source_p context' = is_source_p st"
    and "loc_has_escape (tok_lit_location (ctx_token context'))
          = loc_has_escape (tok_lit_location (ctx_token context1))"
    and "tok_type (ctx_token context') = tok_type (ctx_token context1)
           \<and> tok_literal_is_reserved (ctx_token context')
               = tok_literal_is_reserved (ctx_token context1)
         \<or> check_keywords \<and> \<not> loc_has_escape (tok_lit_location (ctx_token context1))
             \<and> 2 \<le> is_length st \<and> is_length st \<le> 10"
proof -
  define context0 where "context0 = context
          \<lparr>ctx_token := (ctx_token context)
             \<lparr>tok_type := LEXER_LITERAL,
              tok_literal_is_reserved := False,
              tok_lit_location := (tok_lit_location (ctx_token context))
                 \<lparr>loc_type := LEXER_IDENT_LITERAL, loc_has_escape := False\<rparr>\<rparr>\<rparr>"
  define st0 where
    "st0 = \<lparr>is_source_p = ctx_source_p context, is_column = ctx_column context, is_length = 0\<rparr>"
  have "\<exists>context1 st.
          lexer_parse_identifier_loop env source context0 st0 = Inr (context1, st)"
  proof (cases "lexer_parse_identifier_loop env source context0 st0")
    case (Inl f)
    with result show ?thesis
      unfolding lexer_parse_identifier_def Let_def context0_def [symmetric] st0_def [symmetric]
      by simp
  next
    case (Inr x)
    then show ?thesis
      by (cases x) simp
  qed
  then obtain context1 st where
    loop: "lexer_parse_identifier_loop env source context0 st0 = Inr (context1, st)"
    by blast
  define context2 where "context2 = context1
               \<lparr>ctx_source_p := ctx_source_p context,
                ctx_token := (ctx_token context1)\<lparr>tok_column := ctx_column context1\<rparr>\<rparr>"
  have frame2: "tok_type (ctx_token context2) = tok_type (ctx_token context1)"
    "tok_literal_is_reserved (ctx_token context2) = tok_literal_is_reserved (ctx_token context1)"
    "loc_has_escape (tok_lit_location (ctx_token context2))
       = loc_has_escape (tok_lit_location (ctx_token context1))"
    by (simp_all add: context2_def)
  from result loop have tail:
    "(if unat (is_length st) > PARSER_MAXIMUM_IDENT_LENGTH env then
           parser_raise_error context2 PARSER_ERR_IDENTIFIER_TOO_LONG
         else if check_keywords
                 \<and> \<not> loc_has_escape (tok_lit_location (ctx_token context2))
                 \<and> (is_length st \<ge> 2 \<and> is_length st \<le> 10) then
           (case lexer_parse_identifier_keyword env source (ctx_source_p context) (is_length st)
                   context2 of
              Inl e \<Rightarrow> Inl e
            | Inr context3 \<Rightarrow>
                Inr (lexer_parse_identifier_finish (ctx_source_p context) st context3))
         else Inr (lexer_parse_identifier_finish (ctx_source_p context) st context2))
     = Inr context'"
    unfolding lexer_parse_identifier_def Let_def context0_def [symmetric] st0_def [symmetric]
      context2_def
    by simp
  show thesis
  proof (cases "check_keywords
                 \<and> \<not> loc_has_escape (tok_lit_location (ctx_token context2))
                 \<and> (is_length st \<ge> 2 \<and> is_length st \<le> 10)")
    case True
    with tail obtain context3 where
      k: "lexer_parse_identifier_keyword env source (ctx_source_p context) (is_length st) context2
            = Inr context3"
      and c: "context' = lexer_parse_identifier_finish (ctx_source_p context) st context3"
      by (auto simp: parser_raise_error_def split: if_splits sum.splits)
    from lexer_parse_identifier_keyword_frame [OF k] c True frame2
    show ?thesis
      by (intro that [OF loop [unfolded context0_def st0_def]])
         (simp_all add: lexer_parse_identifier_finish_frame)
  next
    case False
    with tail have c: "context' = lexer_parse_identifier_finish (ctx_source_p context) st context2"
      by (auto simp: parser_raise_error_def split: if_splits)
    with frame2 show ?thesis
      by (intro that [OF loop [unfolded context0_def st0_def]])
         (simp_all add: lexer_parse_identifier_finish_frame)
  qed
qed

lemma lexer_parse_identifier_strict_failure:
  assumes result: "lexer_parse_identifier env source context check_keywords
                     = Inl (Raised PARSER_ERR_STRICT_IDENT_NOT_ALLOWED context')"
  shows "check_keywords \<and> \<not> loc_has_escape (tok_lit_location (ctx_token context'))
         \<and> PARSER_IS_STRICT \<in> ctx_status_flags context'"
proof -
  define context0 where "context0 = context
          \<lparr>ctx_token := (ctx_token context)
             \<lparr>tok_type := LEXER_LITERAL,
              tok_literal_is_reserved := False,
              tok_lit_location := (tok_lit_location (ctx_token context))
                 \<lparr>loc_type := LEXER_IDENT_LITERAL, loc_has_escape := False\<rparr>\<rparr>\<rparr>"
  define st0 where
    "st0 = \<lparr>is_source_p = ctx_source_p context, is_column = ctx_column context, is_length = 0\<rparr>"
  show ?thesis
  proof (cases "lexer_parse_identifier_loop env source context0 st0")
    case (Inl f)
    with result have "f = Raised PARSER_ERR_STRICT_IDENT_NOT_ALLOWED context'"
      unfolding lexer_parse_identifier_def Let_def context0_def [symmetric] st0_def [symmetric]
      by simp
    with Inl lexer_parse_identifier_loop_failure show ?thesis
      by blast
  next
    case (Inr x)
    obtain context1 st where x: "x = (context1, st)"
      by (cases x)
    define context2 where "context2 = context1
               \<lparr>ctx_source_p := ctx_source_p context,
                ctx_token := (ctx_token context1)\<lparr>tok_column := ctx_column context1\<rparr>\<rparr>"
    from result Inr x have tail:
      "(if unat (is_length st) > PARSER_MAXIMUM_IDENT_LENGTH env then
           parser_raise_error context2 PARSER_ERR_IDENTIFIER_TOO_LONG
         else if check_keywords
                 \<and> \<not> loc_has_escape (tok_lit_location (ctx_token context2))
                 \<and> (is_length st \<ge> 2 \<and> is_length st \<le> 10) then
           (case lexer_parse_identifier_keyword env source (ctx_source_p context) (is_length st)
                   context2 of
              Inl e \<Rightarrow> Inl e
            | Inr context3 \<Rightarrow>
                Inr (lexer_parse_identifier_finish (ctx_source_p context) st context3))
         else Inr (lexer_parse_identifier_finish (ctx_source_p context) st context2))
       = Inl (Raised PARSER_ERR_STRICT_IDENT_NOT_ALLOWED context')"
      unfolding lexer_parse_identifier_def Let_def context0_def [symmetric] st0_def [symmetric]
        context2_def
      by simp
    then have enter: "check_keywords \<and> \<not> loc_has_escape (tok_lit_location (ctx_token context2))"
      and k: "lexer_parse_identifier_keyword env source (ctx_source_p context) (is_length st)
                context2 = Inl (Raised PARSER_ERR_STRICT_IDENT_NOT_ALLOWED context')"
      by (auto simp: parser_raise_error_def split: if_splits sum.splits)
    from k have "context' = context2 \<and> PARSER_IS_STRICT \<in> ctx_status_flags context2"
      by (auto simp: lexer_parse_identifier_keyword_def parser_raise_error_def
          split: option.splits if_splits)
    with enter show ?thesis
      by simp
  qed
qed

section \<open>Four byte sequences in strings\<close>

subsection \<open>Bitwise and arithmetic forms\<close>

lemma or_add_nat:
  fixes x k :: nat
  assumes "x < 2 ^ n"
  shows "k * 2 ^ n OR x = k * 2 ^ n + x"
proof -
  have x: "take_bit n x = x"
    using assms by (simp add: take_bit_nat_eq_self)
  have "k * 2 ^ n AND x = 0"
  proof (rule bit_eqI)
    fix m
    have "bit x m \<Longrightarrow> m < n"
      using x by (metis bit_take_bit_iff)
    then show "bit (k * 2 ^ n AND x) m \<longleftrightarrow> bit (0::nat) m"
      by (auto simp: bit_and_iff bit_push_bit_iff simp flip: push_bit_eq_mult)
  qed
  then show ?thesis
    by (simp add: disjunctive_add_eq_or)
qed

lemma and_mask_nat_3: "(x::nat) AND 7 = x mod 8"
  using take_bit_eq_mask [of 3 x] by (simp add: take_bit_eq_mod mask_eq_exp_minus_1)

lemma and_mask_nat_6: "(x::nat) AND 0x3f = x mod 64"
  using take_bit_eq_mask [of 6 x] by (simp add: take_bit_eq_mod mask_eq_exp_minus_1)

lemma and_mask_nat_10: "(x::nat) AND 0x3ff = x mod 1024"
  using take_bit_eq_mask [of 10 x] by (simp add: take_bit_eq_mod mask_eq_exp_minus_1)

lemma unat_ucast_byte_and:
  "unat ((ucast (b :: byte) :: 32 word) AND 0x3f) = unat b mod 64"
  "unat ((ucast (b :: byte) :: 32 word) AND 0x7) = unat b mod 8"
proof -
  have "unat b < 2 ^ 32"
    using unsigned_less [of b, where 'a = nat] by simp
  then have "take_bit 32 (unat b) = unat b"
    by (simp add: take_bit_nat_eq_self)
  then show "unat ((ucast (b :: byte) :: 32 word) AND 0x3f) = unat b mod 64"
    "unat ((ucast (b :: byte) :: 32 word) AND 0x7) = unat b mod 8"
    by (simp_all add: unsigned_and_eq unsigned_ucast_eq and_mask_nat_3 and_mask_nat_6)
qed

lemma codepoint_word:
  "unat (push_bit 18 ((ucast b0 :: 32 word) AND 0x7)
         OR push_bit 12 ((ucast b1 :: 32 word) AND 0x3f)
         OR push_bit 6 ((ucast b2 :: 32 word) AND 0x3f)
         OR ((ucast b3 :: 32 word) AND 0x3f))
   = utf8_4byte_codepoint (b0::byte) b1 b2 b3"
proof -
  define a where "a = unat b0 mod 8"
  define b where "b = unat b1 mod 64"
  define c where "c = unat b2 mod 64"
  define d where "d = unat b3 mod 64"
  have bounds: "a < 8" "b < 64" "c < 64" "d < 64"
    by (simp_all add: a_def b_def c_def d_def)
  have pa: "take_bit 32 (push_bit 18 a) = a * 2 ^ 18"
    using bounds by (simp add: push_bit_eq_mult take_bit_nat_eq_self)
  have pb: "take_bit 32 (push_bit 12 b) = b * 2 ^ 12"
    using bounds by (simp add: push_bit_eq_mult take_bit_nat_eq_self)
  have pc: "take_bit 32 (push_bit 6 c) = c * 2 ^ 6"
    using bounds by (simp add: push_bit_eq_mult take_bit_nat_eq_self)
  have "c * 2 ^ 6 OR d = c * 2 ^ 6 + d"
    using bounds by (intro or_add_nat) simp
  moreover have "b * 2 ^ 12 OR (c * 2 ^ 6 + d) = b * 2 ^ 12 + (c * 2 ^ 6 + d)"
    using bounds by (intro or_add_nat) simp
  moreover have "a * 2 ^ 18 OR (b * 2 ^ 12 + (c * 2 ^ 6 + d)) = a * 2 ^ 18 + (b * 2 ^ 12 + (c * 2 ^ 6 + d))"
    using bounds by (intro or_add_nat) simp
  ultimately have "a * 2 ^ 18 OR b * 2 ^ 12 OR c * 2 ^ 6 OR d
      = a * 2 ^ 18 + b * 2 ^ 12 + c * 2 ^ 6 + d"
    by (simp add: or.assoc)
  then have "take_bit 32 (push_bit 18 a) OR take_bit 32 (push_bit 12 b)
      OR take_bit 32 (push_bit 6 c) OR d = a * 2 ^ 18 + b * 2 ^ 12 + c * 2 ^ 6 + d"
    unfolding pa pb pc .
  then show ?thesis
    unfolding utf8_4byte_codepoint_def unsigned_or_eq unsigned_push_bit_eq unat_ucast_byte_and
      a_def [symmetric] b_def [symmetric] c_def [symmetric] d_def [symmetric]
    by (simp only: len_bit0 len_num1 mult_numeral_1_right numeral_times_numeral
        semiring_norm)
qed

lemma codepoint_bound: "utf8_4byte_codepoint b0 b1 b2 b3 < 2 ^ 21"
proof -
  have "unat b0 mod 8 < 8" "unat b1 mod 64 < 64" "unat b2 mod 64 < 64" "unat b3 mod 64 < 64"
    by simp_all
  then show ?thesis
    unfolding utf8_4byte_codepoint_def by simp
qed

lemma surrogate_high_arith:
  assumes "C < 2 ^ 21"
  shows "surrogate_high C = 0xD800 + (C - 0x10000) div 1024"
proof -
  have "(C - 0x10000) div 1024 < 2 ^ 11"
    using assms by simp
  from or_add_nat [OF this, of 27] show ?thesis
    by (simp add: surrogate_high_def drop_bit_eq_div)
qed

lemma surrogate_low_arith:
  "surrogate_low C = 0xDC00 + (C - 0x10000) mod 1024"
proof -
  have "(C - 0x10000) mod 1024 < 2 ^ 10"
    by simp
  from or_add_nat [OF this, of 55] show ?thesis
    by (simp add: surrogate_low_def and_mask_nat_10)
qed

lemma unat_surrogates:
  fixes character :: "32 word"
  assumes c: "unat character = C" and lo: "0x10000 \<le> C" and hi: "C < 2 ^ 21"
  shows "unat (ucast (0xd800 OR drop_bit 10 (character - 0x10000)) :: 16 word) = surrogate_high C"
    and "unat (ucast (0xdc00 OR ((character - 0x10000) AND 0x3ff)) :: 16 word) = surrogate_low C"
proof -
  have "(0x10000 :: 32 word) \<le> character"
    using c lo by (simp add: word_le_nat_alt)
  then have sub: "unat (character - 0x10000) = C - 0x10000"
    using c by (simp add: unat_sub)
  have h: "surrogate_high C < 2 ^ 16"
    using hi by (simp add: surrogate_high_arith)
  have "unat (drop_bit 10 (character - 0x10000)) = drop_bit 10 (C - 0x10000)"
    by (simp only: unat_drop_bit_eq sub)
  then have "unat (0xd800 OR drop_bit 10 (character - 0x10000)) = surrogate_high C"
    by (simp add: unsigned_or_eq surrogate_high_def)
  with h show "unat (ucast (0xd800 OR drop_bit 10 (character - 0x10000)) :: 16 word)
      = surrogate_high C"
    by (simp only: unsigned_ucast_eq take_bit_nat_eq_self len_bit0 len_num1
          mult_numeral_1_right numeral_times_numeral semiring_norm)
  have l: "surrogate_low C < 2 ^ 16"
    by (simp add: surrogate_low_arith)
  have "unat ((character - 0x10000) AND 0x3ff) = (C - 0x10000) AND 0x3ff"
    by (simp add: unsigned_and_eq sub)
  then have "unat (0xdc00 OR ((character - 0x10000) AND 0x3ff)) = surrogate_low C"
    by (simp add: unsigned_or_eq surrogate_low_def)
  with l show "unat (ucast (0xdc00 OR ((character - 0x10000) AND 0x3ff)) :: 16 word)
      = surrogate_low C"
    by (simp only: unsigned_ucast_eq take_bit_nat_eq_self len_bit0 len_num1
          mult_numeral_1_right numeral_times_numeral semiring_norm)
qed

lemma and_not_mask_16:
  fixes chr :: "16 word"
  assumes "2 ^ n \<le> unat chr"
  shows "chr AND NOT (mask n) \<noteq> 0"
proof
  assume "chr AND NOT (mask n) = 0"
  moreover have "chr = (chr AND mask n) OR (chr AND NOT (mask n))"
    by (simp flip: bit.conj_disj_distrib)
  ultimately have "chr AND mask n = chr"
    by simp
  then have "take_bit n chr = chr"
    by (simp add: take_bit_eq_mask)
  then have "unat chr = take_bit n (unat chr)"
    by (metis unsigned_take_bit_eq)
  then have "unat chr < 2 ^ n"
    by (metis take_bit_nat_less_exp)
  with assms show False
    by simp
qed

lemma util_to_utf8_bytes_3:
  assumes "0x800 \<le> unat chr"
  shows "util_to_utf8_bytes chr = utf8_3byte_encoding (unat chr)"
proof -
  have a: "chr AND NOT 0x7f \<noteq> 0"
    using and_not_mask_16 [of 7 chr] assms by (simp add: mask_eq_exp_minus_1)
  have b: "chr AND NOT 0x7ff \<noteq> 0"
    using and_not_mask_16 [of 11 chr] assms by (simp add: mask_eq_exp_minus_1)
  define u where "u = unat chr"
  have u: "u < 2 ^ 16"
    unfolding u_def using unsigned_less [of chr, where 'a = nat] by simp
  have d12: "unat (drop_bit 12 chr) = u div 2 ^ 12"
    unfolding unat_drop_bit_eq u_def by (simp add: drop_bit_eq_div)
  have d6: "unat (drop_bit 6 chr AND 0x3f) = u div 2 ^ 6 mod 64"
    unfolding unsigned_and_eq unat_drop_bit_eq u_def
    by (simp add: drop_bit_eq_div and_mask_nat_6)
  have d0: "unat (chr AND 0x3f) = u mod 64"
    by (simp add: unsigned_and_eq u_def and_mask_nat_6)
  have small: "u div 2 ^ 12 < 2 ^ 4" "u div 2 ^ 6 mod 64 < 2 ^ 6" "u mod 64 < 2 ^ 6"
    using u by simp_all
  have b0: "(0xe0 OR ucast (drop_bit 12 chr) :: byte) = of_nat (0xe0 + u div 2 ^ 12)"
  proof (rule unsigned_word_eqI [where 'a = nat])
    from small have "take_bit 8 (u div 2 ^ 12) = u div 2 ^ 12"
      by (simp add: take_bit_nat_eq_self)
    then have "unat (0xe0 OR ucast (drop_bit 12 chr) :: byte) = 0xe0 OR u div 2 ^ 12"
      by (simp add: unsigned_or_eq unsigned_ucast_eq d12 del: take_bit_or)
    also have "\<dots> = 0xe0 + u div 2 ^ 12"
      using or_add_nat [OF small(1), of 14] by simp
    also have "\<dots> = unat (of_nat (0xe0 + u div 2 ^ 12) :: byte)"
      using small by (subst unat_of_nat) simp
    finally show "unat (0xe0 OR ucast (drop_bit 12 chr) :: byte)
        = unat (of_nat (0xe0 + u div 2 ^ 12) :: byte)" .
  qed
  have b1: "(0x80 OR ucast (drop_bit 6 chr AND 0x3f) :: byte) = of_nat (0x80 + u div 2 ^ 6 mod 64)"
  proof (rule unsigned_word_eqI [where 'a = nat])
    from small have "take_bit 8 (u div 2 ^ 6 mod 64) = u div 2 ^ 6 mod 64"
      by (simp add: take_bit_nat_eq_self)
    then have "unat (0x80 OR ucast (drop_bit 6 chr AND 0x3f) :: byte) = 0x80 OR u div 2 ^ 6 mod 64"
      by (simp add: unsigned_or_eq unsigned_ucast_eq d6 del: take_bit_or)
    also have "\<dots> = 0x80 + u div 2 ^ 6 mod 64"
      using or_add_nat [OF small(2), of 2] by simp
    also have "\<dots> = unat (of_nat (0x80 + u div 2 ^ 6 mod 64) :: byte)"
      using small by (subst unat_of_nat) simp
    finally show "unat (0x80 OR ucast (drop_bit 6 chr AND 0x3f) :: byte)
        = unat (of_nat (0x80 + u div 2 ^ 6 mod 64) :: byte)" .
  qed
  have b2: "(0x80 OR ucast (chr AND 0x3f) :: byte) = of_nat (0x80 + u mod 64)"
  proof (rule unsigned_word_eqI [where 'a = nat])
    from small have "take_bit 8 (u mod 64) = u mod 64"
      by (simp add: take_bit_nat_eq_self)
    then have "unat (0x80 OR ucast (chr AND 0x3f) :: byte) = 0x80 OR u mod 64"
      by (simp add: unsigned_or_eq unsigned_ucast_eq d0 del: take_bit_or)
    also have "\<dots> = 0x80 + u mod 64"
      using or_add_nat [OF small(3), of 2] by simp
    also have "\<dots> = unat (of_nat (0x80 + u mod 64) :: byte)"
      using small by (subst unat_of_nat) simp
    finally show "unat (0x80 OR ucast (chr AND 0x3f) :: byte)
        = unat (of_nat (0x80 + u mod 64) :: byte)" .
  qed
  show ?thesis
    unfolding util_to_utf8_bytes_def utf8_3byte_encoding_def u_def [symmetric]
    using a b b0 b1 b2 by simp
qed


lemma lexer_decode_4byte_surrogates:
  assumes "0x10000 \<le> utf8_4byte_codepoint b0 b1 b2 b3"
  shows "lexer_decode_4byte b0 b1 b2 b3
         = utf8_3byte_encoding (surrogate_high (utf8_4byte_codepoint b0 b1 b2 b3))
           @ utf8_3byte_encoding (surrogate_low (utf8_4byte_codepoint b0 b1 b2 b3))"
proof -
  define C where "C = utf8_4byte_codepoint b0 b1 b2 b3"
  define character :: "32 word" where
    "character = ((push_bit 18 ((ucast b0 :: 32 word) AND 0x7)
         OR push_bit 12 ((ucast b1 :: 32 word) AND 0x3f))
         OR push_bit 6 ((ucast b2 :: 32 word) AND 0x3f))
         OR ((ucast b3 :: 32 word) AND 0x3f)"
  have c: "unat character = C"
    unfolding character_def C_def or.assoc by (rule codepoint_word)
  have lo: "0x10000 \<le> C" and hi: "C < 2 ^ 21"
    using assms codepoint_bound [of b0 b1 b2 b3] by (simp_all add: C_def)
  note s = unat_surrogates [OF c lo hi]
  have "0x800 \<le> surrogate_high C" "0x800 \<le> surrogate_low C"
    using hi by (simp_all add: surrogate_high_arith surrogate_low_arith)
  then have
    "util_to_utf8_bytes (ucast (0xd800 OR drop_bit 10 (character - 0x10000)))
       = utf8_3byte_encoding (surrogate_high C)"
    "util_to_utf8_bytes (ucast (0xdc00 OR ((character - 0x10000) AND 0x3ff)))
       = utf8_3byte_encoding (surrogate_low C)"
    using util_to_utf8_bytes_3 [of "ucast (0xd800 OR drop_bit 10 (character - 0x10000))"]
      util_to_utf8_bytes_3 [of "ucast (0xdc00 OR ((character - 0x10000) AND 0x3ff))"]
    by (simp_all only: s)
  then show ?thesis
    unfolding lexer_decode_4byte_def Let_def character_def [symmetric] C_def [symmetric]
    by (simp only:)
qed

subsection \<open>The scanner and the decoder at a four byte sequence\<close>

lemma lexer_parse_string_char_4byte:
  assumes "ss_source_p st < length source"
      and "LEXER_UTF8_4BYTE_START \<le> source ! ss_source_p st"
  shows "lexer_parse_string_char source str_end_character context st
         = Continue (context,
             st\<lparr>ss_length := ss_length st + 6, ss_has_escape := True,
                ss_source_p := ss_source_p st + 4, ss_column := ss_column st + 1\<rparr>)"
  using assms by (simp add: lexer_parse_string_char_def byte_at_def Let_def)

lemma lexer_decode_string_char_4byte:
  assumes "dc_source_p d + 3 < length source"
      and "LEXER_UTF8_4BYTE_START \<le> source ! dc_source_p d"
  shows "lexer_decode_string_char source d
         = Continue (d\<lparr>dc_destination := dc_destination d
                          @ lexer_decode_4byte (source ! dc_source_p d)
                              (source ! (dc_source_p d + 1)) (source ! (dc_source_p d + 2))
                              (source ! (dc_source_p d + 3)),
                        dc_source_p := dc_source_p d + 4\<rparr>)"
  using assms by (simp add: lexer_decode_string_char_def byte_at_def Let_def)

lemma four_byte_start_not_special:
  fixes c :: byte
  assumes "LEXER_UTF8_4BYTE_START \<le> c"
  shows "c \<noteq> 0x5c" "c \<noteq> LEXER_NEWLINE_CR" "c \<noteq> LEXER_NEWLINE_LF"
    "c \<noteq> LEXER_NEWLINE_LS_PS_BYTE_1" "\<not> c \<le> 0x33" "\<not> c \<le> 0x37" "c \<noteq> 0x78" "c \<noteq> 0x75"
    "c \<noteq> 0x62" "c \<noteq> 0x74" "c \<noteq> 0x6e" "c \<noteq> 0x76" "c \<noteq> 0x66" "c \<noteq> 0x72" "c \<noteq> 0x24"
  using assms by (auto simp: word_le_nat_alt)

text \<open>
  One round at a four byte sequence. Let a four byte sequence start at offset \<open>q\<close> of the
  source (its first byte is at least \<open>LEXER_UTF8_4BYTE_START\<close> and all four bytes are
  inside the input), let \<open>C\<close>, the code point it encodes, be at least \<open>0x10000\<close>, and
  let the string be closed by a character that is neither a backslash nor such a first
  byte. Then a round of the scanner of \<open>lexer_parse_string\<close> that stands at the sequence
  or at a backslash right before it adds 6 to the decoded length, sets \<open>has_escape\<close> and
  steps over the sequence; and a round of the decoder of \<open>lexer_construct_literal_object\<close>
  that stands at the sequence or at a backslash right before it appends the three byte
  encoding of \<open>0xD800 | ((C - 0x10000) >> 10)\<close> followed by the three byte encoding of
  \<open>0xDC00 | ((C - 0x10000) & 0x3FF)\<close>, six bytes in all, and steps over the sequence.
\<close>

lemma four_byte_sequence_round:
  assumes inside: "q + 3 < length source"
      and first: "LEXER_UTF8_4BYTE_START \<le> source ! q"
      and C: "C = utf8_4byte_codepoint (source ! q) (source ! (q + 1)) (source ! (q + 2))
                    (source ! (q + 3))"
      and astral: "0x10000 \<le> C"
      and closing: "str_end_character < LEXER_UTF8_4BYTE_START" "str_end_character \<noteq> 0x5c"
  shows "(ss_source_p st = q \<or> ss_source_p st + 1 = q \<and> source ! ss_source_p st = 0x5c
           \<longrightarrow> lexer_parse_string_step source str_end_character original_line original_column
                 context st
               = Continue (context,
                   st\<lparr>ss_length := ss_length st + 6, ss_has_escape := True,
                      ss_source_p := q + 4,
                      ss_column := ss_column st + (if ss_source_p st = q then 1 else 2)\<rparr>))
       \<and> (dc_source_p d = q \<or> dc_source_p d + 1 = q \<and> source ! dc_source_p d = 0x5c
           \<longrightarrow> lexer_decode_string_step context source str_end_character d
               = Continue (d\<lparr>dc_destination := dc_destination d
                                @ utf8_3byte_encoding (surrogate_high C)
                                @ utf8_3byte_encoding (surrogate_low C),
                              dc_source_p := q + 4\<rparr>))
       \<and> length (utf8_3byte_encoding (surrogate_high C) @ utf8_3byte_encoding (surrogate_low C))
           = 6"
proof (intro conjI impI)
  note special = four_byte_start_not_special [OF first]
  have differ: "source ! q \<noteq> str_end_character"
    using first closing by auto
  assume "ss_source_p st = q \<or> ss_source_p st + 1 = q \<and> source ! ss_source_p st = 0x5c"
  then show "lexer_parse_string_step source str_end_character original_line original_column
                 context st
               = Continue (context,
                   st\<lparr>ss_length := ss_length st + 6, ss_has_escape := True,
                      ss_source_p := q + 4,
                      ss_column := ss_column st + (if ss_source_p st = q then 1 else 2)\<rparr>)"
  proof
    assume at: "ss_source_p st = q"
    with inside first have
      "lexer_parse_string_char source str_end_character context st
         = Continue (context,
             st\<lparr>ss_length := ss_length st + 6, ss_has_escape := True,
                ss_source_p := ss_source_p st + 4, ss_column := ss_column st + 1\<rparr>)"
      by (intro lexer_parse_string_char_4byte) simp_all
    with at inside differ special show ?thesis
      by (simp add: lexer_parse_string_step_def)
  next
    assume before: "ss_source_p st + 1 = q \<and> source ! ss_source_p st = 0x5c"
    define st1 where
      "st1 = st\<lparr>ss_source_p := ss_source_p st + 1, ss_column := ss_column st + 1,
                ss_has_escape := True\<rparr>"
    have "lexer_parse_string_char source str_end_character context st1
         = Continue (context,
             st1\<lparr>ss_length := ss_length st1 + 6, ss_has_escape := True,
                ss_source_p := ss_source_p st1 + 4, ss_column := ss_column st1 + 1\<rparr>)"
      using before inside first by (intro lexer_parse_string_char_4byte) (simp_all add: st1_def)
    moreover have "lexer_parse_string_escape source str_end_character context st
         = lexer_parse_string_char source str_end_character context st1"
      using before inside special
      by (simp add: lexer_parse_string_escape_def Let_def st1_def)
    ultimately show ?thesis
      using before inside closing
      by (auto simp: lexer_parse_string_step_def st1_def)
  qed
next
  note special = four_byte_start_not_special [OF first]
  have differ: "source ! q \<noteq> str_end_character"
    using first closing by auto
  have bytes: "lexer_decode_4byte (source ! q) (source ! (q + 1)) (source ! (q + 2))
                 (source ! (q + 3))
               = utf8_3byte_encoding (surrogate_high C) @ utf8_3byte_encoding (surrogate_low C)"
    using astral unfolding C by (rule lexer_decode_4byte_surrogates)
  assume "dc_source_p d = q \<or> dc_source_p d + 1 = q \<and> source ! dc_source_p d = 0x5c"
  then show "lexer_decode_string_step context source str_end_character d
               = Continue (d\<lparr>dc_destination := dc_destination d
                                @ utf8_3byte_encoding (surrogate_high C)
                                @ utf8_3byte_encoding (surrogate_low C),
                              dc_source_p := q + 4\<rparr>)"
  proof
    assume at: "dc_source_p d = q"
    with inside first have
      "lexer_decode_string_char source d
         = Continue (d\<lparr>dc_destination := dc_destination d
                          @ lexer_decode_4byte (source ! dc_source_p d)
                              (source ! (dc_source_p d + 1)) (source ! (dc_source_p d + 2))
                              (source ! (dc_source_p d + 3)),
                        dc_source_p := dc_source_p d + 4\<rparr>)"
      by (intro lexer_decode_string_char_4byte) simp_all
    with at inside differ special bytes show ?thesis
      by (simp add: lexer_decode_string_step_def byte_at_def)
  next
    assume before: "dc_source_p d + 1 = q \<and> source ! dc_source_p d = 0x5c"
    define d1 where "d1 = d\<lparr>dc_source_p := dc_source_p d + 1\<rparr>"
    have "lexer_decode_string_char source d1
         = Continue (d1\<lparr>dc_destination := dc_destination d1
                          @ lexer_decode_4byte (source ! dc_source_p d1)
                              (source ! (dc_source_p d1 + 1)) (source ! (dc_source_p d1 + 2))
                              (source ! (dc_source_p d1 + 3)),
                        dc_source_p := dc_source_p d1 + 4\<rparr>)"
      using before inside first by (intro lexer_decode_string_char_4byte) (simp_all add: d1_def)
    moreover have "lexer_decode_string_escape context source d
         = lexer_decode_string_char source d1"
      using before inside special
      by (simp add: lexer_decode_string_escape_def Let_def d1_def byte_at_def)
    ultimately show ?thesis
      using before inside closing bytes
      by (auto simp: lexer_decode_string_step_def d1_def byte_at_def)
  qed
next
  show "length (utf8_3byte_encoding (surrogate_high C) @ utf8_3byte_encoding (surrogate_low C))
           = 6"
    by (simp add: utf8_3byte_encoding_def)
qed

lemma four_byte_sequence_round_example:
  "utf8_4byte_codepoint 0xF0 0x9F 0x98 0x80 = 0x1F600
   \<and> lexer_parse_string_step [0x27, 0xF0, 0x9F, 0x98, 0x80, 0x27] 0x27 1 2 example_context
        \<lparr>ss_source_p = 1, ss_line = 1, ss_column = 2, ss_length = 0, ss_has_escape = False\<rparr>
      = Continue (example_context,
          \<lparr>ss_source_p = 5, ss_line = 1, ss_column = 3, ss_length = 6, ss_has_escape = True\<rparr>)
   \<and> lexer_decode_string_step example_context [0x27, 0xF0, 0x9F, 0x98, 0x80, 0x27] 0x27
        \<lparr>dc_source_p = 1, dc_destination = []\<rparr>
      = Continue \<lparr>dc_source_p = 5, dc_destination = [0xED, 0xA0, 0xBD, 0xED, 0xB8, 0x80]\<rparr>
   \<and> lexer_parse_string_step [0x27, 0x5c, 0xF0, 0x9F, 0x98, 0x80, 0x27] 0x27 1 2 example_context
        \<lparr>ss_source_p = 1, ss_line = 1, ss_column = 2, ss_length = 0, ss_has_escape = False\<rparr>
      = Continue (example_context,
          \<lparr>ss_source_p = 6, ss_line = 1, ss_column = 4, ss_length = 6, ss_has_escape = True\<rparr>)
   \<and> lexer_decode_string_step example_context [0x27, 0x5c, 0xF0, 0x9F, 0x98, 0x80, 0x27] 0x27
        \<lparr>dc_source_p = 1, dc_destination = []\<rparr>
      = Continue \<lparr>dc_source_p = 6, dc_destination = [0xED, 0xA0, 0xBD, 0xED, 0xB8, 0x80]\<rparr>"
proof -
  have C: "utf8_4byte_codepoint 0xF0 0x9F 0x98 0x80 = 0x1F600"
    by (simp add: utf8_4byte_codepoint_def)
  have enc: "utf8_3byte_encoding (surrogate_high 0x1F600) = [0xED, 0xA0, 0xBD]"
    "utf8_3byte_encoding (surrogate_low 0x1F600) = [0xED, 0xB8, 0x80]"
    by (simp_all add: utf8_3byte_encoding_def surrogate_high_def surrogate_low_def)
  from
    four_byte_sequence_round [of 1 "[0x27, 0xF0, 0x9F, 0x98, 0x80, 0x27]" "0x1F600" "0x27"
      "\<lparr>ss_source_p = 1, ss_line = 1, ss_column = 2, ss_length = 0, ss_has_escape = False\<rparr>"
      1 2 example_context "\<lparr>dc_source_p = 1, dc_destination = []\<rparr>"]
    four_byte_sequence_round [of 2 "[0x27, 0x5c, 0xF0, 0x9F, 0x98, 0x80, 0x27]" "0x1F600"
      "0x27"
      "\<lparr>ss_source_p = 1, ss_line = 1, ss_column = 2, ss_length = 0, ss_has_escape = False\<rparr>"
      1 2 example_context "\<lparr>dc_source_p = 1, dc_destination = []\<rparr>"]
    C enc
  show ?thesis
    by simp
qed

text \<open>
  C7 at a failing input: the template literal that consists of two backslashes, \<open>${\<close>
  and the four byte sequence of U+1F600, \<open>F0 9F 98 80\<close>, at offset 5. The scanner of
  \<open>lexer_parse_string\<close> takes the brace for escaped, because the byte two places before it
  is a backslash, and goes on to the closing backquote: it gives the literal the length 9,
  of which 6 are counted in the round at the four byte sequence. The decoder of
  \<open>lexer_construct_literal_object\<close> turns the two backslashes into one and stops at
  \<open>${\<close>: it emits this one byte and never comes to the sequence, so the surrogate pair is
  not emitted, and the pool entry has the length 9 and one byte of content. The decoder
  asserts that it has written \<open>length\<close> bytes when it stops.
\<close>

theorem four_byte_sequence_not_decoded:
  "utf8_4byte_codepoint 0xF0 0x9F 0x98 0x80 = 0x1F600
   \<and> lexer_parse_string (example_env False)
        [0x60, 0x5c, 0x5c, 0x24, 0x7b, 0xF0, 0x9F, 0x98, 0x80, 0x60] example_context
      = Inr (example_context
          \<lparr>ctx_source_p := 10, ctx_column := 8,
           ctx_token := (ctx_token example_context)
             \<lparr>tok_type := LEXER_TEMPLATE_LITERAL,
              tok_lit_location :=
                \<lparr>loc_char_p = 1, loc_length = 9, loc_type = LEXER_STRING_LITERAL,
                 loc_has_escape = True\<rparr>\<rparr>\<rparr>)
   \<and> lexer_parse_string_step [0x60, 0x5c, 0x5c, 0x24, 0x7b, 0xF0, 0x9F, 0x98, 0x80, 0x60] 0x60
        1 2 example_context
        \<lparr>ss_source_p = 5, ss_line = 1, ss_column = 6, ss_length = 3, ss_has_escape = True\<rparr>
      = Continue (example_context,
          \<lparr>ss_source_p = 9, ss_line = 1, ss_column = 7, ss_length = 9, ss_has_escape = True\<rparr>)
   \<and> lexer_literal_chars (example_env False)
        [0x60, 0x5c, 0x5c, 0x24, 0x7b, 0xF0, 0x9F, 0x98, 0x80, 0x60] example_context
        \<lparr>loc_char_p = 1, loc_length = 9, loc_type = LEXER_STRING_LITERAL, loc_has_escape = True\<rparr>
      = Inr [0x5c]
   \<and> lexer_construct_literal_object (example_env False)
        [0x60, 0x5c, 0x5c, 0x24, 0x7b, 0xF0, 0x9F, 0x98, 0x80, 0x60] example_context
        \<lparr>loc_char_p = 1, loc_length = 9, loc_type = LEXER_STRING_LITERAL, loc_has_escape = True\<rparr>
        LEXER_STRING_LITERAL
      = Inr (example_context
          \<lparr>ctx_literal_pool :=
             [\<lparr>lit_chars = [0x5c], lit_length = 9, lit_type = LEXER_STRING_LITERAL,
               lit_status_flags = {}\<rparr>],
           ctx_literal_count := 1\<rparr>)"
proof (intro conjI)
  show "utf8_4byte_codepoint 0xF0 0x9F 0x98 0x80 = 0x1F600"
    by (simp add: utf8_4byte_codepoint_def)
  show "lexer_parse_string (example_env False)
        [0x60, 0x5c, 0x5c, 0x24, 0x7b, 0xF0, 0x9F, 0x98, 0x80, 0x60] example_context
      = Inr (example_context
          \<lparr>ctx_source_p := 10, ctx_column := 8,
           ctx_token := (ctx_token example_context)
             \<lparr>tok_type := LEXER_TEMPLATE_LITERAL,
              tok_lit_location :=
                \<lparr>loc_char_p = 1, loc_length = 9, loc_type = LEXER_STRING_LITERAL,
                 loc_has_escape = True\<rparr>\<rparr>\<rparr>)"
    by (simp add: string_eval example_context_def example_env_def)
  show "lexer_parse_string_step [0x60, 0x5c, 0x5c, 0x24, 0x7b, 0xF0, 0x9F, 0x98, 0x80, 0x60] 0x60
        1 2 example_context
        \<lparr>ss_source_p = 5, ss_line = 1, ss_column = 6, ss_length = 3, ss_has_escape = True\<rparr>
      = Continue (example_context,
          \<lparr>ss_source_p = 9, ss_line = 1, ss_column = 7, ss_length = 9, ss_has_escape = True\<rparr>)"
    by (simp add: string_eval)
  show "lexer_literal_chars (example_env False)
        [0x60, 0x5c, 0x5c, 0x24, 0x7b, 0xF0, 0x9F, 0x98, 0x80, 0x60] example_context
        \<lparr>loc_char_p = 1, loc_length = 9, loc_type = LEXER_STRING_LITERAL, loc_has_escape = True\<rparr>
      = Inr [0x5c]"
    by (simp add: decode_eval)
  then show "lexer_construct_literal_object (example_env False)
        [0x60, 0x5c, 0x5c, 0x24, 0x7b, 0xF0, 0x9F, 0x98, 0x80, 0x60] example_context
        \<lparr>loc_char_p = 1, loc_length = 9, loc_type = LEXER_STRING_LITERAL, loc_has_escape = True\<rparr>
        LEXER_STRING_LITERAL
      = Inr (example_context
          \<lparr>ctx_literal_pool :=
             [\<lparr>lit_chars = [0x5c], lit_length = 9, lit_type = LEXER_STRING_LITERAL,
               lit_status_flags = {}\<rparr>],
           ctx_literal_count := 1\<rparr>)"
    by (simp add: lexer_construct_literal_object_def example_context_def example_env_def
        lexer_process_char_literal_def util_set_char_literal_def util_compare_char_literals_def)
qed

end
